theory Spec2Isabelle
  imports Complex_Main
begin

section \<open>Numbers, errors and points\<close>

text \<open>
  The landmark pipeline is JavaScript. Its numbers are modelled as \<^typ>\<open>real\<close>: the
  arithmetic of the source is kept expression by expression, without rounding and without
  the values \<^verbatim>\<open>NaN\<close> and \<^verbatim>\<open>Infinity\<close>. A division whose divisor is zero is outside
  what the model describes (it is \<open>0\<close> here and \<^verbatim>\<open>Infinity\<close> or \<^verbatim>\<open>NaN\<close> in the source):
  a theorem below that depends on the value of a quotient assumes what keeps its divisor
  away from zero, a positive cutoff and a positive measurement noise; the time delta is
  never zero.

  A field that may hold \<^verbatim>\<open>null\<close> or \<^verbatim>\<open>undefined\<close> (or be missing from the object) is an
  \<^typ>\<open>'a option\<close>. An exception of the source is a value of \<open>error\<close>, returned as \<open>Inl\<close>:
  \<open>TypeError\<close> is the exception JavaScript throws on reading a property of \<^verbatim>\<open>null\<close> or
  \<^verbatim>\<open>undefined\<close>. \<open>Unmodelled\<close> is no exception: it marks a result of the source that
  the types here cannot hold (a point without coordinates, zero divided by zero), which
  only parameters other than the constructor's reach.
\<close>

datatype error = TypeError | Unmodelled

text \<open>\<^verbatim>\<open>v || d\<close> on a number field: \<^verbatim>\<open>undefined\<close>, \<^verbatim>\<open>null\<close> and \<^verbatim>\<open>0\<close> are falsy.\<close>

definition orElse :: "real option \<Rightarrow> real \<Rightarrow> real" where
  "orElse v d = (case v of None \<Rightarrow> d | Some r \<Rightarrow> if r = 0 then d else r)"

text \<open>A field initialised to \<^verbatim>\<open>null\<close> and read in arithmetic: \<^verbatim>\<open>null\<close> converts to \<open>0\<close>.\<close>

definition toNumber :: "real option \<Rightarrow> real" where
  "toNumber v = (case v of None \<Rightarrow> 0 | Some r \<Rightarrow> r)"

text \<open>
  One record for the duck-typed point objects of the pipeline. The detector's landmark is
  \<^verbatim>\<open>{x, y, z, visibility}\<close>; the Densifier spreads it and adds \<^verbatim>\<open>originalIndex\<close>,
  \<^verbatim>\<open>region\<close>, \<^verbatim>\<open>interpolated\<close>, \<^verbatim>\<open>surfaceU\<close>, \<^verbatim>\<open>surfaceV\<close>, \<^verbatim>\<open>depthLayer\<close> and
  \<^verbatim>\<open>handIndex\<close>. The coordinate fields \<^verbatim>\<open>x\<close>, \<^verbatim>\<open>y\<close>, \<^verbatim>\<open>z\<close> are named \<open>px\<close>, \<open>py\<close>,
  \<open>pz\<close>. The source reads \<^verbatim>\<open>x\<close> and \<^verbatim>\<open>y\<close> directly and guards \<^verbatim>\<open>z\<close> and
  \<^verbatim>\<open>visibility\<close> with \<^verbatim>\<open>||\<close>, so the latter two are optional. The source compares
  \<^verbatim>\<open>originalIndex\<close> with \<^verbatim>\<open>undefined\<close> only, so that field tells \<^verbatim>\<open>undefined\<close> (or
  missing) from \<^verbatim>\<open>null\<close>.
\<close>

datatype index = Undefined | Null | Index nat

record Point =
  px :: real
  py :: real
  pz :: "real option"
  visibility :: "real option"
  originalIndex :: index
  region :: "string option"
  interpolated :: "bool option"
  surfaceU :: "real option"
  surfaceV :: "real option"
  depthLayer :: "nat option"
  handIndex :: "nat option"

text \<open>A landmark as the detector reports it: the four fields of \<^verbatim>\<open>Point3D\<close> only.\<close>

definition landmark :: "real \<Rightarrow> real \<Rightarrow> real option \<Rightarrow> real option \<Rightarrow> Point" where
  "landmark a b c v =
     \<lparr>px = a, py = b, pz = c, visibility = v, originalIndex = Undefined, region = None,
      interpolated = None, surfaceU = None, surfaceV = None, depthLayer = None,
      handIndex = None\<rparr>"

section \<open>Stabilizer: the speed-adaptive low-pass stage\<close>

text \<open>\<^verbatim>\<open>class OneEuroFilter\<close>: the three parameters and the three nullable state fields.\<close>

record OneEuroFilter =
  minCutoff :: real
  beta :: real
  dCutoff :: real
  xPrev :: "real option"
  dxPrev :: "real option"
  tPrev :: "real option"

definition OneEuroFilter_new :: "real \<Rightarrow> real \<Rightarrow> real \<Rightarrow> OneEuroFilter" where
  "OneEuroFilter_new mc b dc =
     \<lparr>minCutoff = mc, beta = b, dCutoff = dc, xPrev = None, dxPrev = None, tPrev = None\<rparr>"

definition lowPass :: "real \<Rightarrow> real \<Rightarrow> real \<Rightarrow> real" where
  "lowPass v vPrev a = a * v + (1 - a) * vPrev"

definition alpha :: "real \<Rightarrow> real \<Rightarrow> real" where
  "alpha cutoff dt = (let tau = 1 / (2 * pi * cutoff) in 1 / (1 + tau / dt))"

text \<open>The time delta both stages compute: \<^verbatim>\<open>Math.max((timestamp - tPrev) / 1000, 0.001)\<close>.\<close>

definition timeDelta :: "real \<Rightarrow> real option \<Rightarrow> real" where
  "timeDelta timestamp prev = max ((timestamp - toNumber prev) / 1000) 0.001"

text \<open>\<^verbatim>\<open>OneEuroFilter.filter(x, timestamp)\<close>: the value returned and the filter after the call.\<close>

definition OneEuroFilter_filter :: "real \<Rightarrow> real \<Rightarrow> OneEuroFilter \<Rightarrow> real \<times> OneEuroFilter" where
  "OneEuroFilter_filter v timestamp f =
     (if tPrev f = None
      then (v, f\<lparr>xPrev := Some v, dxPrev := Some 0, tPrev := Some timestamp\<rparr>)
      else
        let dt = timeDelta timestamp (tPrev f);
            dx = (v - toNumber (xPrev f)) / dt;
            alphaDx = alpha (dCutoff f) dt;
            dxFiltered = lowPass dx (toNumber (dxPrev f)) alphaDx;
            cutoff = minCutoff f + beta f * \<bar>dxFiltered\<bar>;
            alphaX = alpha cutoff dt;
            xFiltered = lowPass v (toNumber (xPrev f)) alphaX
        in (xFiltered,
            f\<lparr>tPrev := Some timestamp, dxPrev := Some dxFiltered, xPrev := Some xFiltered\<rparr>))"

definition OneEuroFilter_reset :: "OneEuroFilter \<Rightarrow> OneEuroFilter" where
  "OneEuroFilter_reset f = f\<lparr>xPrev := None, dxPrev := None, tPrev := None\<rparr>"

section \<open>Stabilizer: the predictive stage\<close>

text \<open>
  \<^verbatim>\<open>class KalmanFilter1D\<close>. The fields \<^verbatim>\<open>Q\<close>, \<^verbatim>\<open>R\<close>, \<^verbatim>\<open>x\<close>, \<^verbatim>\<open>P\<close>, \<^verbatim>\<open>K\<close> are named
  \<open>kQ\<close>, \<open>kR\<close>, \<open>kx\<close>, \<open>kP\<close>, \<open>kK\<close>.
\<close>

record KalmanFilter1D =
  kQ :: real
  kR :: real
  kx :: "real option"
  kP :: real
  kK :: real
  velocity :: real
  lastTimestamp :: "real option"

definition KalmanFilter1D_new :: "real \<Rightarrow> real \<Rightarrow> KalmanFilter1D" where
  "KalmanFilter1D_new processNoise measurementNoise =
     \<lparr>kQ = processNoise, kR = measurementNoise, kx = None, kP = 1, kK = 0, velocity = 0,
      lastTimestamp = None\<rparr>"

definition KalmanFilter1D_update :: "real \<Rightarrow> real \<Rightarrow> KalmanFilter1D \<Rightarrow> real \<times> KalmanFilter1D" where
  "KalmanFilter1D_update measurement timestamp k =
     (if kx k = None
      then (measurement, k\<lparr>kx := Some measurement, lastTimestamp := Some timestamp\<rparr>)
      else
        let dt = timeDelta timestamp (lastTimestamp k);
            xPredicted = toNumber (kx k) + velocity k * dt;
            pPredicted = kP k + kQ k;
            gain = pPredicted / (pPredicted + kR k);
            xNew = xPredicted + gain * (measurement - xPredicted);
            pNew = (1 - gain) * pPredicted;
            vNew = (xNew - xPredicted) / dt * 0.5 + velocity k * 0.5
        in (xNew,
            k\<lparr>lastTimestamp := Some timestamp, kK := gain, kx := Some xNew, kP := pNew,
              velocity := vNew\<rparr>))"

definition KalmanFilter1D_predict :: "real \<Rightarrow> KalmanFilter1D \<Rightarrow> real option" where
  "KalmanFilter1D_predict timestamp k =
     (if kx k = None then None
      else
        let dt = timeDelta timestamp (lastTimestamp k)
        in Some (toNumber (kx k) + velocity k * dt))"

definition KalmanFilter1D_reset :: "KalmanFilter1D \<Rightarrow> KalmanFilter1D" where
  "KalmanFilter1D_reset k = k\<lparr>kx := None, kP := 1, velocity := 0, lastTimestamp := None\<rparr>"

section \<open>Stabilizer: the filter of one three-dimensional point\<close>

text \<open>
  What \<^verbatim>\<open>Point3DFilter.filter\<close> returns and keeps in \<^verbatim>\<open>lastPoint\<close>:
  \<^verbatim>\<open>{x, y, z, visibility, predicted}\<close>. A coordinate is \<^verbatim>\<open>null\<close> only when
  \<^verbatim>\<open>KalmanFilter1D.predict\<close> found no state.
\<close>

record FilteredPoint =
  fx :: "real option"
  fy :: "real option"
  fz :: "real option"
  fvisibility :: real
  predicted :: bool

record Config =
  cfgMinCutoff :: real
  cfgBeta :: real
  cfgDCutoff :: real
  cfgProcessNoise :: real
  cfgMeasurementNoise :: real
  cfgUseKalman :: bool

record Point3DFilter =
  euroX :: OneEuroFilter
  euroY :: OneEuroFilter
  euroZ :: OneEuroFilter
  kalmanX :: KalmanFilter1D
  kalmanY :: KalmanFilter1D
  kalmanZ :: KalmanFilter1D
  useKalman :: bool
  lastPoint :: "FilteredPoint option"
  isOccluded :: bool
  occlusionFrames :: nat

definition Point3DFilter_new :: "Config \<Rightarrow> Point3DFilter" where
  "Point3DFilter_new c =
     \<lparr>euroX = OneEuroFilter_new (cfgMinCutoff c) (cfgBeta c) (cfgDCutoff c),
      euroY = OneEuroFilter_new (cfgMinCutoff c) (cfgBeta c) (cfgDCutoff c),
      euroZ = OneEuroFilter_new (cfgMinCutoff c) (cfgBeta c) (cfgDCutoff c),
      kalmanX = KalmanFilter1D_new (cfgProcessNoise c) (cfgMeasurementNoise c),
      kalmanY = KalmanFilter1D_new (cfgProcessNoise c) (cfgMeasurementNoise c),
      kalmanZ = KalmanFilter1D_new (cfgProcessNoise c) (cfgMeasurementNoise c),
      useKalman = cfgUseKalman c, lastPoint = None, isOccluded = False,
      occlusionFrames = 0\<rparr>"

definition Point3DFilter_reset :: "Point3DFilter \<Rightarrow> Point3DFilter" where
  "Point3DFilter_reset f =
     f\<lparr>euroX := OneEuroFilter_reset (euroX f), euroY := OneEuroFilter_reset (euroY f),
       euroZ := OneEuroFilter_reset (euroZ f), kalmanX := KalmanFilter1D_reset (kalmanX f),
       kalmanY := KalmanFilter1D_reset (kalmanY f),
       kalmanZ := KalmanFilter1D_reset (kalmanZ f), lastPoint := None,
       occlusionFrames := 0\<rparr>"

text \<open>
  \<^verbatim>\<open>Point3DFilter.filter(point, timestamp)\<close>. The argument \<open>None\<close> is a falsy
  \<^verbatim>\<open>point\<close> (\<^verbatim>\<open>null\<close> or \<^verbatim>\<open>undefined\<close>); the result \<open>None\<close> is \<^verbatim>\<open>null\<close>.
\<close>

definition Point3DFilter_filter ::
  "Point option \<Rightarrow> real \<Rightarrow> Point3DFilter \<Rightarrow> FilteredPoint option \<times> Point3DFilter" where
  "Point3DFilter_filter point timestamp f =
     (case point of
        None \<Rightarrow>
          let f1 = f\<lparr>occlusionFrames := occlusionFrames f + 1\<rparr>
          in if occlusionFrames f1 > 10 then (None, Point3DFilter_reset f1)
             else if useKalman f1 \<and> lastPoint f1 \<noteq> None
             then (Some \<lparr>fx = KalmanFilter1D_predict timestamp (kalmanX f1),
                         fy = KalmanFilter1D_predict timestamp (kalmanY f1),
                         fz = KalmanFilter1D_predict timestamp (kalmanZ f1),
                         fvisibility = 0.3, predicted = True\<rparr>, f1)
             else (lastPoint f1, f1)
      | Some p \<Rightarrow>
          let f1 = f\<lparr>occlusionFrames := 0\<rparr>;
              (x1, ex) = OneEuroFilter_filter (px p) timestamp (euroX f1);
              (y1, ey) = OneEuroFilter_filter (py p) timestamp (euroY f1);
              (z1, ez) = OneEuroFilter_filter (orElse (pz p) 0) timestamp (euroZ f1);
              f2 = f1\<lparr>euroX := ex, euroY := ey, euroZ := ez\<rparr>;
              (x2, kx2) = (if useKalman f2 then KalmanFilter1D_update x1 timestamp (kalmanX f2)
                           else (x1, kalmanX f2));
              (y2, ky2) = (if useKalman f2 then KalmanFilter1D_update y1 timestamp (kalmanY f2)
                           else (y1, kalmanY f2));
              (z2, kz2) = (if useKalman f2 then KalmanFilter1D_update z1 timestamp (kalmanZ f2)
                           else (z1, kalmanZ f2));
              out = \<lparr>fx = Some x2, fy = Some y2, fz = Some z2,
                     fvisibility = orElse (visibility p) 1, predicted = False\<rparr>
          in (Some out,
              f2\<lparr>kalmanX := kx2, kalmanY := ky2, kalmanZ := kz2, lastPoint := Some out\<rparr>))"

section \<open>Stabilizer: the filter banks\<close>

text \<open>
  \<^verbatim>\<open>new Stabilizer(config)\<close> reads each option with \<^verbatim>\<open>||\<close>, and \<^verbatim>\<open>useKalman\<close> with
  \<^verbatim>\<open>config.useKalman !== false\<close>.
\<close>

record StabilizerOptions =
  optMinCutoff :: "real option"
  optBeta :: "real option"
  optDCutoff :: "real option"
  optProcessNoise :: "real option"
  optMeasurementNoise :: "real option"
  optUseKalman :: "bool option"

definition noOptions :: StabilizerOptions where
  "noOptions = \<lparr>optMinCutoff = None, optBeta = None, optDCutoff = None,
                 optProcessNoise = None, optMeasurementNoise = None, optUseKalman = None\<rparr>"

definition Stabilizer_config :: "StabilizerOptions \<Rightarrow> Config" where
  "Stabilizer_config c =
     \<lparr>cfgMinCutoff = orElse (optMinCutoff c) 0.8, cfgBeta = orElse (optBeta c) 0.005,
      cfgDCutoff = orElse (optDCutoff c) 1.0,
      cfgProcessNoise = orElse (optProcessNoise c) 0.005,
      cfgMeasurementNoise = orElse (optMeasurementNoise c) 0.05,
      cfgUseKalman = (optUseKalman c \<noteq> Some False)\<rparr>"

text \<open>
  A filter bank is a \<^verbatim>\<open>Map\<close> from the id string to the point's filter. The id is
  \<^verbatim>\<open>prefix + n\<close>, a string and a number printed in decimal, or \<^verbatim>\<open>prefix + null\<close>, the
  string and the text \<^verbatim>\<open>null\<close>; it is kept as the pair of the prefix and the number,
  \<open>None\<close> for the text \<^verbatim>\<open>null\<close>.
\<close>

type_synonym FilterId = "string \<times> nat option"

type_synonym FilterBank = "FilterId \<rightharpoonup> Point3DFilter"

text \<open>
  \<^verbatim>\<open>getFilter(filterMap, id)\<close>: the filter of the id, created from the configuration and
  stored when the bank has none.
\<close>

definition getFilter :: "Config \<Rightarrow> FilterBank \<Rightarrow> FilterId \<Rightarrow> Point3DFilter \<times> FilterBank" where
  "getFilter c bank k =
     (case bank k of
        None \<Rightarrow> (Point3DFilter_new c, bank(k \<mapsto> Point3DFilter_new c))
      | Some f \<Rightarrow> (f, bank))"

text \<open>
  The object \<^verbatim>\<open>stabilizePoints\<close> pushes: the input point spread, with \<^verbatim>\<open>x\<close>, \<^verbatim>\<open>y\<close>,
  \<^verbatim>\<open>z\<close> and \<^verbatim>\<open>visibility\<close> replaced by the filter's and \<^verbatim>\<open>stabilized: true\<close> added.
  \<open>spread\<close> holds the fields the spread copies and nothing overrides.
\<close>

record StablePoint =
  spread :: Point
  sx :: "real option"
  sy :: "real option"
  sz :: "real option"
  svisibility :: real
  stabilized :: bool

text \<open>
  \<^verbatim>\<open>prefix + (point.originalIndex !== undefined ? point.originalIndex : i)\<close>.
\<close>

definition pointId :: "string \<Rightarrow> nat \<Rightarrow> Point \<Rightarrow> FilterId" where
  "pointId prefix i p =
     (prefix, (case originalIndex p of Undefined \<Rightarrow> Some i | Null \<Rightarrow> None | Index n \<Rightarrow> Some n))"

text \<open>
  The loop of \<^verbatim>\<open>stabilizePoints\<close> from position \<open>i\<close> on. An entry \<open>None\<close> of the
  array is \<^verbatim>\<open>null\<close> or \<^verbatim>\<open>undefined\<close>: reading \<^verbatim>\<open>point.originalIndex\<close> of it throws,
  before the filter is called. The result of a call that throws is the error alone; the
  bank as the exception leaves it is not kept.
\<close>

fun stabilizeFrom ::
  "Config \<Rightarrow> string \<Rightarrow> real \<Rightarrow> nat \<Rightarrow> Point option list \<Rightarrow> FilterBank \<Rightarrow>
   error + (StablePoint list \<times> FilterBank)" where
  "stabilizeFrom c prefix timestamp i [] bank = Inr ([], bank)"
| "stabilizeFrom c prefix timestamp i (None # rest) bank = Inl TypeError"
| "stabilizeFrom c prefix timestamp i (Some p # rest) bank =
     (let k = pointId prefix i p;
          (f, bank1) = getFilter c bank k;
          (filtered, f') = Point3DFilter_filter (Some p) timestamp f;
          bank2 = bank1(k \<mapsto> f');
          pushed = (case filtered of
                      None \<Rightarrow> []
                    | Some r \<Rightarrow> [\<lparr>spread = p, sx = fx r, sy = fy r, sz = fz r,
                                   svisibility = fvisibility r, stabilized = True\<rparr>])
      in case stabilizeFrom c prefix timestamp (Suc i) rest bank2 of
           Inl e \<Rightarrow> Inl e
         | Inr (out, bank3) \<Rightarrow> Inr (pushed @ out, bank3))"

text \<open>
  \<^verbatim>\<open>stabilizePoints(points, filterMap, timestamp, prefix)\<close>. \<open>points = None\<close> is a
  falsy \<^verbatim>\<open>points\<close>.
\<close>

definition stabilizePoints ::
  "Config \<Rightarrow> Point option list option \<Rightarrow> FilterBank \<Rightarrow> real \<Rightarrow> string \<Rightarrow>
   error + (StablePoint list \<times> FilterBank)" where
  "stabilizePoints c points bank timestamp prefix =
     (case points of
        None \<Rightarrow> Inr ([], bank)
      | Some ps \<Rightarrow> if length ps = 0 then Inr ([], bank)
                   else stabilizeFrom c prefix timestamp 0 ps bank)"

section \<open>Densifier\<close>

text \<open>
  Sequencing of steps that may throw: the first error ends the computation, as the
  exception ends the loop of the source.
\<close>

definition bindE :: "error + 'a \<Rightarrow> ('a \<Rightarrow> error + 'b) \<Rightarrow> error + 'b" where
  "bindE m f = (case m of Inl e \<Rightarrow> Inl e | Inr a \<Rightarrow> f a)"

fun sequenceE :: "(error + 'a) list \<Rightarrow> error + 'a list" where
  "sequenceE [] = Inr []"
| "sequenceE (m # ms) = bindE m (\<lambda>a. bindE (sequenceE ms) (\<lambda>as. Inr (a # as)))"

text \<open>\<^verbatim>\<open>xs[i]\<close>: \<^verbatim>\<open>undefined\<close> beyond the end of the array.\<close>

definition elemAt :: "'a list \<Rightarrow> nat \<Rightarrow> 'a option" where
  "elemAt xs i = (if i < length xs then Some (xs ! i) else None)"

text \<open>An entry of an array whose entries may themselves be \<^verbatim>\<open>undefined\<close>.\<close>

definition elemAtOpt :: "'a option list \<Rightarrow> nat \<Rightarrow> 'a option" where
  "elemAtOpt xs i = (case elemAt xs i of None \<Rightarrow> None | Some v \<Rightarrow> v)"

text \<open>The tables of \<^verbatim>\<open>defineBodyConnections\<close> and \<^verbatim>\<open>defineFaceRegions\<close>.\<close>

record BodyConnections =
  spine :: "(nat \<times> nat) list"
  leftArm :: "(nat \<times> nat) list"
  rightArm :: "(nat \<times> nat) list"
  leftLeg :: "(nat \<times> nat) list"
  rightLeg :: "(nat \<times> nat) list"
  torso :: "nat list"

definition defineBodyConnections :: BodyConnections where
  "defineBodyConnections =
     \<lparr>spine = [(11, 12), (23, 24)],
      leftArm = [(11, 13), (13, 15)],
      rightArm = [(12, 14), (14, 16)],
      leftLeg = [(23, 25), (25, 27), (27, 31)],
      rightLeg = [(24, 26), (26, 28), (28, 32)],
      torso = [11, 12, 24, 23]\<rparr>"

record FaceRegions =
  leftEye :: "nat list"
  rightEye :: "nat list"
  leftEyebrow :: "nat list"
  rightEyebrow :: "nat list"
  lipsOuter :: "nat list"
  lipsInner :: "nat list"
  faceOval :: "nat list"
  noseBridge :: "nat list"
  noseBottom :: "nat list"
  forehead :: "nat list"
  leftCheek :: "nat list"
  rightCheek :: "nat list"
  leftIris :: "nat list"
  rightIris :: "nat list"

definition defineFaceRegions :: FaceRegions where
  "defineFaceRegions =
     \<lparr>leftEye = [33, 246, 161, 160, 159, 158, 157, 173, 133, 155, 154, 153, 145, 144, 163, 7],
      rightEye = [362, 398, 384, 385, 386, 387, 388, 466, 263, 249, 390, 373, 374, 380, 381, 382],
      leftEyebrow = [70, 63, 105, 66, 107, 55, 65, 52, 53, 46],
      rightEyebrow = [300, 293, 334, 296, 336, 285, 295, 282, 283, 276],
      lipsOuter = [61, 146, 91, 181, 84, 17, 314, 405, 321, 375, 291, 409, 270, 269, 267, 0,
                   37, 39, 40, 185],
      lipsInner = [78, 95, 88, 178, 87, 14, 317, 402, 318, 324, 308, 415, 310, 311, 312, 13,
                   82, 81, 80, 191],
      faceOval = [10, 338, 297, 332, 284, 251, 389, 356, 454, 323, 361, 288, 397, 365, 379,
                  378, 400, 377, 152, 148, 176, 149, 150, 136, 172, 58, 132, 93, 234, 127,
                  162, 21, 54, 103, 67, 109],
      noseBridge = [6, 197, 195, 5, 4, 1],
      noseBottom = [98, 240, 64, 48, 115, 220, 45, 4, 275, 440, 344, 278, 294, 460, 327],
      forehead = [10, 338, 297, 251, 21, 54, 103, 67, 109, 108, 151, 337],
      leftCheek = [234, 93, 132, 58, 172, 136, 150, 149, 176, 148, 152],
      rightCheek = [454, 323, 361, 288, 397, 365, 379, 378, 400, 377, 152],
      leftIris = [468, 469, 470, 471, 472],
      rightIris = [473, 474, 475, 476, 477]\<rparr>"

text \<open>\<^verbatim>\<open>class Densifier\<close>: the fields its constructor sets; no method assigns one.\<close>

record Densifier =
  bodySubdivisions :: nat
  faceSubdivisions :: nat
  surfaceGridSize :: nat
  bodyConnections :: BodyConnections
  faceRegions :: FaceRegions

definition Densifier_new :: Densifier where
  "Densifier_new =
     \<lparr>bodySubdivisions = 5, faceSubdivisions = 2, surfaceGridSize = 5,
      bodyConnections = defineBodyConnections, faceRegions = defineFaceRegions\<rparr>"

text \<open>
  \<^verbatim>\<open>lerp(p1, p2, t)\<close>. An endpoint \<open>None\<close> is \<^verbatim>\<open>undefined\<close>: reading its \<^verbatim>\<open>x\<close>
  throws. The object returned has the five fields \<^verbatim>\<open>x\<close>, \<^verbatim>\<open>y\<close>, \<^verbatim>\<open>z\<close>,
  \<^verbatim>\<open>visibility\<close>, \<^verbatim>\<open>interpolated\<close>.
\<close>

definition lerp :: "Point option \<Rightarrow> Point option \<Rightarrow> real \<Rightarrow> error + Point" where
  "lerp p1 p2 t =
     (case p1 of
        None \<Rightarrow> Inl TypeError
      | Some a \<Rightarrow>
          (case p2 of
             None \<Rightarrow> Inl TypeError
           | Some b \<Rightarrow>
               Inr \<lparr>px = px a + (px b - px a) * t,
                    py = py a + (py b - py a) * t,
                    pz = Some (orElse (pz a) 0 + (orElse (pz b) 0 - orElse (pz a) 0) * t),
                    visibility = Some ((orElse (visibility a) 1 + orElse (visibility b) 1) / 2),
                    originalIndex = Undefined, region = None, interpolated = Some True,
                    surfaceU = None, surfaceV = None, depthLayer = None,
                    handIndex = None\<rparr>))"

text \<open>
  \<^verbatim>\<open>interpolateSegment(p1, p2, subdivisions)\<close>: the loop
  \<^verbatim>\<open>for (let i = 1; i < subdivisions; i++)\<close> pushing \<^verbatim>\<open>lerp(p1, p2, i / subdivisions)\<close>.
\<close>

definition interpolateSegment :: "Point option \<Rightarrow> Point option \<Rightarrow> nat \<Rightarrow> error + Point list" where
  "interpolateSegment p1 p2 subdivisions =
     sequenceE (map (\<lambda>i. lerp p1 p2 (real i / real subdivisions)) [1..<subdivisions])"

text \<open>
  \<^verbatim>\<open>interpolateSurface(corners, gridSize)\<close>, the corners in the order top left, top
  right, bottom right, bottom left. With \<^verbatim>\<open>gridSize\<close> zero the source divides zero by
  zero; that case is marked \<open>Unmodelled\<close>.
\<close>

definition surfacePoint :: "Point option list \<Rightarrow> real \<Rightarrow> real \<Rightarrow> error + Point" where
  "surfacePoint corners u v =
     bindE (lerp (elemAtOpt corners 0) (elemAtOpt corners 1) u) (\<lambda>top.
     bindE (lerp (elemAtOpt corners 3) (elemAtOpt corners 2) u) (\<lambda>bottom.
     bindE (lerp (Some top) (Some bottom) v) (\<lambda>point.
     Inr (point\<lparr>surfaceU := Some u, surfaceV := Some v\<rparr>))))"

definition interpolateSurface :: "Point option list \<Rightarrow> nat \<Rightarrow> error + Point list" where
  "interpolateSurface corners gridSize =
     (if gridSize = 0 then Inl Unmodelled
      else sequenceE
             (concat (map (\<lambda>i. map (\<lambda>j. surfacePoint corners (real i / real gridSize)
                                                 (real j / real gridSize))
                                      [0..<Suc gridSize])
                          [0..<Suc gridSize])))"

text \<open>
  \<^verbatim>\<open>subdivideContour(landmarks, indices, subdivisions)\<close>: for each index of the closed
  contour, the landmark itself with its \<^verbatim>\<open>originalIndex\<close>, then the points between it
  and the next. A missing landmark throws in \<^verbatim>\<open>interpolateSegment\<close>; only with
  \<^verbatim>\<open>subdivisions\<close> zero does the source go on, pushing an object with no coordinates,
  marked \<open>Unmodelled\<close>.
\<close>

definition contourStep :: "Point list \<Rightarrow> nat list \<Rightarrow> nat \<Rightarrow> nat \<Rightarrow> error + Point list" where
  "contourStep landmarks indices subdivisions i =
     (let n = length indices;
          curr = elemAt landmarks (indices ! i);
          next = elemAt landmarks (indices ! ((i + 1) mod n))
      in bindE (interpolateSegment curr next (subdivisions + 1)) (\<lambda>interp.
           case curr of
             None \<Rightarrow> Inl Unmodelled
           | Some c \<Rightarrow> Inr (c\<lparr>originalIndex := Index (indices ! i)\<rparr> # interp)))"

definition subdivideContour :: "Point list \<Rightarrow> nat list \<Rightarrow> nat \<Rightarrow> error + Point list" where
  "subdivideContour landmarks indices subdivisions =
     bindE (sequenceE (map (contourStep landmarks indices subdivisions) [0..<length indices]))
       (\<lambda>groups. Inr (concat groups))"

text \<open>
  \<^verbatim>\<open>computeCentroid(landmarks, indices)\<close>. It reads \<^verbatim>\<open>landmarks[idx].x\<close> of every index,
  which throws for a missing landmark.
\<close>

definition computeCentroid :: "Point list \<Rightarrow> nat list \<Rightarrow> error + (real \<times> real \<times> real)" where
  "computeCentroid landmarks indices =
     bindE (sequenceE (map (\<lambda>idx. case elemAt landmarks idx of
                                     None \<Rightarrow> Inl TypeError | Some p \<Rightarrow> Inr p) indices))
       (\<lambda>ps. let n = real (length indices)
              in Inr (sum_list (map px ps) / n, sum_list (map py ps) / n,
                      sum_list (map (\<lambda>p. orElse (pz p) 0) ps) / n))"

text \<open>\<^verbatim>\<open>createDepthLayers(landmarks, indices, numLayers)\<close>.\<close>

definition depthPoint :: "Point list \<Rightarrow> nat \<Rightarrow> nat \<Rightarrow> error + Point" where
  "depthPoint landmarks layer idx =
     (case elemAt landmarks idx of
        None \<Rightarrow> Inl TypeError
      | Some p \<Rightarrow>
          Inr \<lparr>px = px p, py = py p, pz = Some (orElse (pz p) 0 - real layer * 0.02),
               visibility = Some (orElse (visibility p) 1),
               originalIndex = Undefined, region = None, interpolated = Some (layer > 0),
               surfaceU = None, surfaceV = None, depthLayer = Some layer,
               handIndex = None\<rparr>)"

definition createDepthLayers :: "Point list \<Rightarrow> nat list \<Rightarrow> nat \<Rightarrow> error + Point list" where
  "createDepthLayers landmarks indices numLayers =
     bindE (computeCentroid landmarks indices) (\<lambda>center.
       sequenceE (concat (map (\<lambda>layer. map (depthPoint landmarks layer) indices)
                              [0..<numLayers])))"

text \<open>A group of the dense frame: \<^verbatim>\<open>{ points, count }\<close>.\<close>

record DenseGroup =
  points :: "Point list"
  count :: nat

definition emptyGroup :: DenseGroup where
  "emptyGroup = \<lparr>points = [], count = 0\<rparr>"

definition setRegion :: "string \<Rightarrow> Point list \<Rightarrow> Point list" where
  "setRegion r ps = map (\<lambda>p. p\<lparr>region := Some r\<rparr>) ps"

definition originals :: "string \<Rightarrow> Point list \<Rightarrow> Point list" where
  "originals r lms =
     map (\<lambda>(idx, lm). lm\<lparr>originalIndex := Index idx, region := Some r,
                            interpolated := Some False\<rparr>)
         (zip [0..<length lms] lms)"

text \<open>The loop over a list of segments \<^verbatim>\<open>[a, b]\<close>, each interpolated and tagged.\<close>

definition segments ::
  "Point list \<Rightarrow> (nat \<times> nat) list \<Rightarrow> nat \<Rightarrow> string \<Rightarrow> error + Point list" where
  "segments lms segs subs r =
     bindE (sequenceE (map (\<lambda>(a, b). interpolateSegment (elemAt lms a) (elemAt lms b) subs) segs))
       (\<lambda>groups. Inr (setRegion r (concat groups)))"

text \<open>\<^verbatim>\<open>densifyBody(poseLandmarks)\<close>; \<open>None\<close> is a falsy argument.\<close>

definition densifyBody :: "Densifier \<Rightarrow> Point list option \<Rightarrow> error + DenseGroup" where
  "densifyBody d poseLandmarks =
     (case poseLandmarks of
        None \<Rightarrow> Inr \<lparr>points = [], count = 0\<rparr>
      | Some lms \<Rightarrow>
          (let subs = bodySubdivisions d;
               armSegments = leftArm (bodyConnections d) @ rightArm (bodyConnections d);
               legSegments = leftLeg (bodyConnections d) @ rightLeg (bodyConnections d)
           in bindE (segments lms armSegments subs ''arm'') (\<lambda>arms.
              bindE (segments lms legSegments subs ''leg'') (\<lambda>legs.
              bindE (lerp (elemAt lms 11) (elemAt lms 12) 0.5) (\<lambda>neckCenter.
              bindE (lerp (elemAt lms 23) (elemAt lms 24) 0.5) (\<lambda>hipCenter.
              bindE (interpolateSegment (Some neckCenter) (Some hipCenter) 8) (\<lambda>spinePoints.
              bindE (interpolateSurface [elemAt lms 11, elemAt lms 12, elemAt lms 24, elemAt lms 23]
                       (surfaceGridSize d)) (\<lambda>torsoGrid.
              let ps = originals ''body'' lms @ arms @ legs @ setRegion ''spine'' spinePoints @
                       setRegion ''torso'' torsoGrid
              in Inr \<lparr>points = ps, count = length ps\<rparr>))))))))"

text \<open>\<^verbatim>\<open>densifyFace(faceLandmarks)\<close>.\<close>

definition contour :: "Point list \<Rightarrow> nat list \<Rightarrow> nat \<Rightarrow> string \<Rightarrow> error + Point list" where
  "contour lms indices subs r =
     bindE (subdivideContour lms indices subs) (\<lambda>ps. Inr (setRegion r ps))"

definition layers :: "Point list \<Rightarrow> nat list \<Rightarrow> string \<Rightarrow> error + Point list" where
  "layers lms indices r =
     bindE (createDepthLayers lms indices 3) (\<lambda>ps. Inr (setRegion r ps))"

definition densifyFace :: "Densifier \<Rightarrow> Point list option \<Rightarrow> error + DenseGroup" where
  "densifyFace d faceLandmarks =
     (case faceLandmarks of
        None \<Rightarrow> Inr \<lparr>points = [], count = 0\<rparr>
      | Some lms \<Rightarrow>
          (let subs = faceSubdivisions d; fr = faceRegions d
           in bindE (contour lms (leftEye fr) subs ''leftEye'') (\<lambda>leftEyeSubdiv.
              bindE (contour lms (rightEye fr) subs ''rightEye'') (\<lambda>rightEyeSubdiv.
              bindE (contour lms (leftEyebrow fr) subs ''leftEyebrow'') (\<lambda>leftBrowSubdiv.
              bindE (contour lms (rightEyebrow fr) subs ''rightEyebrow'') (\<lambda>rightBrowSubdiv.
              bindE (contour lms (lipsOuter fr) subs ''lipsOuter'') (\<lambda>outerLipsSubdiv.
              bindE (contour lms (lipsInner fr) subs ''lipsInner'') (\<lambda>innerLipsSubdiv.
              bindE (contour lms (faceOval fr) subs ''jawline'') (\<lambda>jawlineSubdiv.
              bindE (layers lms (leftCheek fr) ''leftCheek'') (\<lambda>leftCheekLayers.
              bindE (layers lms (rightCheek fr) ''rightCheek'') (\<lambda>rightCheekLayers.
              let ps = originals ''face'' lms @ leftEyeSubdiv @ rightEyeSubdiv @
                       leftBrowSubdiv @ rightBrowSubdiv @ outerLipsSubdiv @ innerLipsSubdiv @
                       jawlineSubdiv @ leftCheekLayers @ rightCheekLayers
              in Inr \<lparr>points = ps, count = length ps\<rparr>)))))))))))"

text \<open>
  \<^verbatim>\<open>densifyHands(handsData)\<close>. \<^verbatim>\<open>handedness[handIdx][0].categoryName\<close> is read with
  optional chaining and \<^verbatim>\<open>|| 'Unknown'\<close>; each hand's categories are kept as the list of
  their names.
\<close>

record HandsData =
  landmarks :: "Point list list option"
  handedness :: "string list list option"

definition fingerConnections :: "(nat \<times> nat) list" where
  "fingerConnections =
     [(0, 1), (1, 2), (2, 3), (3, 4),
      (0, 5), (5, 6), (6, 7), (7, 8),
      (0, 9), (9, 10), (10, 11), (11, 12),
      (0, 13), (13, 14), (14, 15), (15, 16),
      (0, 17), (17, 18), (18, 19), (19, 20)]"

definition handednessName :: "string list list option \<Rightarrow> nat \<Rightarrow> string" where
  "handednessName h handIdx =
     (case h of
        None \<Rightarrow> ''Unknown''
      | Some hs \<Rightarrow>
          (case elemAt hs handIdx of
             None \<Rightarrow> ''Unknown''
           | Some [] \<Rightarrow> ''Unknown''
           | Some (name # rest) \<Rightarrow> if name = [] then ''Unknown'' else name))"

definition densifyHand :: "string list list option \<Rightarrow> nat \<Rightarrow> Point list \<Rightarrow> error + Point list" where
  "densifyHand h handIdx handLandmarks =
     (let r = ''hand_'' @ handednessName h handIdx;
          own = map (\<lambda>(idx, lm). lm\<lparr>originalIndex := Index idx, region := Some r,
                                        handIndex := Some handIdx, interpolated := Some False\<rparr>)
                    (zip [0..<length handLandmarks] handLandmarks)
      in bindE (sequenceE (map (\<lambda>(a, b). interpolateSegment (elemAt handLandmarks a)
                                             (elemAt handLandmarks b) 3) fingerConnections))
           (\<lambda>groups. Inr (own @ map (\<lambda>p. p\<lparr>region := Some r, handIndex := Some handIdx\<rparr>)
                                        (concat groups))))"

definition densifyHands :: "Densifier \<Rightarrow> HandsData option \<Rightarrow> error + DenseGroup" where
  "densifyHands d handsData =
     (case handsData of
        None \<Rightarrow> Inr \<lparr>points = [], count = 0\<rparr>
      | Some hdata \<Rightarrow>
          (case landmarks hdata of
             None \<Rightarrow> Inr \<lparr>points = [], count = 0\<rparr>
           | Some hands \<Rightarrow>
               bindE (sequenceE (map (\<lambda>(handIdx, handLandmarks).
                                        densifyHand (handedness hdata) handIdx handLandmarks)
                                     (zip [0..<length hands] hands)))
                 (\<lambda>groups. let ps = concat groups
                            in Inr \<lparr>points = ps, count = length ps\<rparr>)))"

text \<open>
  \<^verbatim>\<open>densify(trackingResults)\<close>. The detector's result: each group is \<^verbatim>\<open>null\<close> when
  nothing was detected. A blendshape is its category name and score.
\<close>

record FaceResult =
  faceLandmarks :: "Point list option"
  blendshapes :: "(string \<times> real) list option"

record PoseResult =
  poseLandmarks :: "Point list option"

record TrackingResults =
  face :: "FaceResult option"
  pose :: "PoseResult option"
  hands :: "HandsData option"
  timestamp :: "real option"
  fps :: "real option"

record DenseData =
  denseFace :: DenseGroup
  denseBody :: DenseGroup
  denseHands :: DenseGroup
  denseBlendshapes :: "(string \<times> real) list"
  denseTimestamp :: "real option"
  denseFps :: "real option"
  totalPoints :: nat

definition densify :: "Densifier \<Rightarrow> TrackingResults option \<Rightarrow> error + DenseData option" where
  "densify d trackingResults =
     (case trackingResults of
        None \<Rightarrow> Inr None
      | Some tr \<Rightarrow>
          bindE (densifyFace d (case face tr of None \<Rightarrow> None | Some f \<Rightarrow> faceLandmarks f)) (\<lambda>f.
          bindE (densifyBody d (case pose tr of None \<Rightarrow> None | Some p \<Rightarrow> poseLandmarks p)) (\<lambda>b.
          bindE (densifyHands d (hands tr)) (\<lambda>h.
          Inr (Some \<lparr>denseFace = f, denseBody = b, denseHands = h,
                     denseBlendshapes =
                       (case face tr of
                          None \<Rightarrow> []
                        | Some f \<Rightarrow> (case blendshapes f of None \<Rightarrow> [] | Some bs \<Rightarrow> bs)),
                     denseTimestamp = timestamp tr, denseFps = fps tr,
                     totalPoints = count f + count b + count h\<rparr>)))))"

section \<open>Wave motion engine: the body pass\<close>

record Velocity =
  vx :: real
  vy :: real
  vz :: real

text \<open>\<^verbatim>\<open>new WaveMotionEngine(config)\<close> reads each option with \<^verbatim>\<open>||\<close>.\<close>

record WaveOptions =
  optStiffness :: "real option"
  optDamping :: "real option"
  optPropagationSpeed :: "real option"
  optWaveDecay :: "real option"
  optPhysicsSteps :: "real option"

record WaveConfig =
  stiffness :: real
  damping :: real
  propagationSpeed :: real
  waveDecay :: real
  physicsSteps :: real

definition noWaveOptions :: WaveOptions where
  "noWaveOptions = \<lparr>optStiffness = None, optDamping = None, optPropagationSpeed = None,
                     optWaveDecay = None, optPhysicsSteps = None\<rparr>"

definition WaveMotionEngine_config :: "WaveOptions \<Rightarrow> WaveConfig" where
  "WaveMotionEngine_config c =
     \<lparr>stiffness = orElse (optStiffness c) 0.3, damping = orElse (optDamping c) 0.85,
      propagationSpeed = orElse (optPropagationSpeed c) 0.15,
      waveDecay = orElse (optWaveDecay c) 0.92,
      physicsSteps = orElse (optPhysicsSteps c) 2\<rparr>"

text \<open>
  \<^verbatim>\<open>defineBodyNetwork()\<close>: an object whose values are an array (\<^verbatim>\<open>core\<close>) and five
  objects from a landmark index to the indices it influences, in the order of the source.
\<close>

datatype NetworkSegment = Indices "nat list" | Links "(nat \<times> nat list) list"

definition defineBodyNetwork :: "(string \<times> NetworkSegment) list" where
  "defineBodyNetwork =
     [(''core'', Indices [11, 12, 23, 24]),
      (''spine'', Links [(11, [12, 23]), (12, [11, 24]), (23, [11, 24, 25]), (24, [12, 23, 26])]),
      (''leftArm'', Links [(11, [13]), (13, [11, 15]), (15, [13])]),
      (''rightArm'', Links [(12, [14]), (14, [12, 16]), (16, [14])]),
      (''leftLeg'', Links [(23, [25]), (25, [23, 27]), (27, [25])]),
      (''rightLeg'', Links [(24, [26]), (26, [24, 28]), (28, [26])])]"

text \<open>
  The connection map \<^verbatim>\<open>processBody\<close> builds: for every value of the network that is an
  object and no array, \<^verbatim>\<open>connectionMap[idx] = neighbors\<close> for each of its entries, a later
  assignment replacing an earlier one for the same index.
\<close>

definition buildConnectionMap :: "(string \<times> NetworkSegment) list \<Rightarrow> (nat \<rightharpoonup> nat list)" where
  "buildConnectionMap network =
     fold (\<lambda>(name, segment) m.
             case segment of
               Indices xs \<Rightarrow> m
             | Links entries \<Rightarrow> fold (\<lambda>(idx, neighbors) m'. m'(idx \<mapsto> neighbors)) entries m)
          network Map.empty"

text \<open>
  A \<^verbatim>\<open>Map\<close> of velocities, in insertion order: \<^verbatim>\<open>set\<close> replaces the value of a key the
  map has and appends a new key; \<^verbatim>\<open>get\<close> is \<^verbatim>\<open>undefined\<close> for a key it has not. A key
  is what an \<^verbatim>\<open>originalIndex\<close> other than \<^verbatim>\<open>undefined\<close> holds: a number, or \<^verbatim>\<open>null\<close>
  (\<open>None\<close>). The engine's cache \<^verbatim>\<open>this.velocities\<close> has the keys \<^verbatim>\<open>body_N\<close> and
  \<^verbatim>\<open>body_null\<close>, kept as \<open>Some N\<close> and \<open>None\<close>.
\<close>

type_synonym VelocityMap = "(nat option \<times> Velocity) list"

fun mapKey :: "index \<Rightarrow> nat option" where
  "mapKey (Index n) = Some n"
| "mapKey Null = None"
| "mapKey Undefined = None"

definition mapGet :: "VelocityMap \<Rightarrow> nat option \<Rightarrow> Velocity option" where
  "mapGet m k = map_of m k"

fun mapSet :: "VelocityMap \<Rightarrow> nat option \<Rightarrow> Velocity \<Rightarrow> VelocityMap" where
  "mapSet [] k v = [(k, v)]"
| "mapSet ((k', v') # rest) k v =
     (if k' = k then (k, v) # rest else (k', v') # mapSet rest k v)"

text \<open>
  \<^verbatim>\<open>calculateVelocity(current, previous, dt)\<close> on stabilized points. With \<^verbatim>\<open>dt\<close> zero
  the source gives \<^verbatim>\<open>Infinity\<close> or \<^verbatim>\<open>NaN\<close>, which the model does not describe; the
  only caller, \<^verbatim>\<open>process\<close>, passes the constant \<^verbatim>\<open>1 / 60\<close>, here \<open>frameDt\<close>.
\<close>

definition frameDt :: real where
  "frameDt = 1 / 60"

definition calculateVelocity :: "StablePoint \<Rightarrow> StablePoint option \<Rightarrow> real \<Rightarrow> Velocity" where
  "calculateVelocity current previous dt =
     (case previous of
        None \<Rightarrow> \<lparr>vx = 0, vy = 0, vz = 0\<rparr>
      | Some pr \<Rightarrow>
          \<lparr>vx = (toNumber (sx current) - toNumber (sx pr)) / dt,
           vy = (toNumber (sy current) - toNumber (sy pr)) / dt,
           vz = (orElse (sz current) 0 - orElse (sz pr) 0) / dt\<rparr>)"

definition getVelocityMagnitude :: "Velocity \<Rightarrow> real" where
  "getVelocityMagnitude v = sqrt (vx v * vx v + vy v * vy v + vz v * vz v)"

text \<open>
  \<^verbatim>\<open>propagateMotion(points, velocities, connections, propagationFactor)\<close>: the copy of
  the map, then for each entry of \<^verbatim>\<open>velocities\<close> with neighbours and a magnitude of at
  least \<open>0.001\<close>, the loop over its neighbours. \<open>getOrZero\<close> is
  \<^verbatim>\<open>propagatedVelocities.get(neighborIdx) || { vx: 0, vy: 0, vz: 0 }\<close>, and
  \<open>neighborsOf\<close> is \<^verbatim>\<open>connections[idx]\<close>: the connection map has number keys only, so
  the key \<^verbatim>\<open>null\<close> finds nothing.
\<close>

definition neighborsOf :: "(nat \<rightharpoonup> nat list) \<Rightarrow> nat option \<Rightarrow> nat list option" where
  "neighborsOf connections k = (case k of None \<Rightarrow> None | Some n \<Rightarrow> connections n)"

definition getOrZero :: "VelocityMap \<Rightarrow> nat option \<Rightarrow> Velocity" where
  "getOrZero m k = (case mapGet m k of None \<Rightarrow> \<lparr>vx = 0, vy = 0, vz = 0\<rparr> | Some c \<Rightarrow> c)"

definition addToNeighbor :: "Velocity \<Rightarrow> real \<Rightarrow> nat \<Rightarrow> VelocityMap \<Rightarrow> VelocityMap" where
  "addToNeighbor v propagationFactor neighborIdx propagated =
     (let currentNeighborV = getOrZero propagated (Some neighborIdx)
      in mapSet propagated (Some neighborIdx)
           \<lparr>vx = vx currentNeighborV + vx v * propagationFactor,
            vy = vy currentNeighborV + vy v * propagationFactor,
            vz = vz currentNeighborV + vz v * propagationFactor\<rparr>)"

definition propagateFrom ::
  "(nat \<rightharpoonup> nat list) \<Rightarrow> real \<Rightarrow> nat option \<times> Velocity \<Rightarrow> VelocityMap \<Rightarrow>
   VelocityMap" where
  "propagateFrom connections propagationFactor entry propagated =
     (case neighborsOf connections (fst entry) of
        None \<Rightarrow> propagated
      | Some neighbors \<Rightarrow>
          if getVelocityMagnitude (snd entry) < 0.001 then propagated
          else fold (addToNeighbor (snd entry) propagationFactor) neighbors propagated)"

definition propagateMotion ::
  "StablePoint list \<Rightarrow> VelocityMap \<Rightarrow> (nat \<rightharpoonup> nat list) \<Rightarrow> real \<Rightarrow> VelocityMap" where
  "propagateMotion pts velocities connections propagationFactor =
     fold (propagateFrom connections propagationFactor) velocities velocities"

text \<open>
  The state of the engine the body pass uses: its configuration, the body points of
  \<^verbatim>\<open>this.previousData\<close> (\<open>None\<close> when there is no previous frame or it has no body
  points), the cache \<^verbatim>\<open>this.velocities\<close> and the network \<^verbatim>\<open>this.bodyConnections\<close>.
\<close>

record WaveMotionEngine =
  config :: WaveConfig
  previousBody :: "StablePoint list option"
  velocities :: VelocityMap
  bodyNetwork :: "(string \<times> NetworkSegment) list"

definition WaveMotionEngine_new :: "WaveOptions \<Rightarrow> WaveMotionEngine" where
  "WaveMotionEngine_new c =
     \<lparr>config = WaveMotionEngine_config c, previousBody = None, velocities = [],
      bodyNetwork = defineBodyNetwork\<rparr>"

text \<open>The three loops of \<^verbatim>\<open>processBody\<close> after the connection map is built.\<close>

definition currentVelocities ::
  "StablePoint list option \<Rightarrow> StablePoint list \<Rightarrow> real \<Rightarrow> VelocityMap" where
  "currentVelocities previous pts dt =
     fold (\<lambda>(idx, point) m.
             if originalIndex (spread point) = Undefined then m
             else mapSet m (mapKey (originalIndex (spread point)))
                    (calculateVelocity point
                       (case previous of None \<Rightarrow> None | Some prev \<Rightarrow> elemAt prev idx) dt))
          (zip [0..<length pts] pts) []"

definition storeVelocity :: "VelocityMap \<Rightarrow> real \<Rightarrow> StablePoint \<Rightarrow> VelocityMap \<Rightarrow> VelocityMap" where
  "storeVelocity propagated damp point cache =
     (if originalIndex (spread point) = Undefined then cache
      else
        (case mapGet propagated (mapKey (originalIndex (spread point))) of
           None \<Rightarrow> cache
         | Some v \<Rightarrow>
             if interpolated (spread point) = Some True then cache
             else mapSet cache (mapKey (originalIndex (spread point)))
                    \<lparr>vx = vx v * damp, vy = vy v * damp, vz = vz v * damp\<rparr>))"

definition microMotion :: "VelocityMap \<Rightarrow> real \<Rightarrow> nat \<times> StablePoint \<Rightarrow> StablePoint" where
  "microMotion cache dt entry =
     (let idx = fst entry; point = snd entry
      in if interpolated (spread point) = Some True
         then (case mapGet cache (Some ((idx div 5) * 5)) of
                 None \<Rightarrow> point
               | Some nearbyVelocity \<Rightarrow>
                   point\<lparr>sx := Some (toNumber (sx point) + vx nearbyVelocity * dt * 0.02),
                         sy := Some (toNumber (sy point) + vy nearbyVelocity * dt * 0.02),
                         sz := Some (orElse (sz point) 0 + vz nearbyVelocity * dt * 0.02)\<rparr>)
         else point)"

text \<open>
  \<^verbatim>\<open>processBody(bodyPoints, dt)\<close>: the points returned and the engine after the call.
  \<open>None\<close> is a falsy \<^verbatim>\<open>bodyPoints\<close>. The source copies the array and changes the
  interpolated points in place, so the objects of the array it was given change with
  those it returns; the model returns their new values.
\<close>

definition processBody ::
  "WaveMotionEngine \<Rightarrow> StablePoint list option \<Rightarrow> real \<Rightarrow>
   StablePoint list option \<times> WaveMotionEngine" where
  "processBody e bodyPoints dt =
     (case bodyPoints of
        None \<Rightarrow> (None, e)
      | Some pts \<Rightarrow>
          if length pts = 0 then (Some pts, e)
          else
            let connectionMap = buildConnectionMap (bodyNetwork e);
                current = currentVelocities (previousBody e) pts dt;
                propagated = propagateMotion pts current connectionMap
                               (propagationSpeed (config e));
                cache = fold (storeVelocity propagated (damping (config e))) pts (velocities e);
                processed = map (microMotion cache dt) (zip [0..<length pts] pts)
            in (Some processed, e\<lparr>velocities := cache\<rparr>))"

text \<open>
  A frame of the \<open>33\<close> original body landmarks as \<^verbatim>\<open>densifyBody\<close> tags them and
  \<^verbatim>\<open>stabilizePoints\<close> pushes them, used as an example input of the body pass: every
  landmark at \<open>(0.5, 0.5, 0)\<close> with visibility \<open>1\<close>, but the left shoulder, landmark
  \<open>11\<close>, whose \<^verbatim>\<open>x\<close> is the argument.
\<close>

definition bodyFrame :: "real \<Rightarrow> StablePoint list" where
  "bodyFrame x =
     map (\<lambda>i. \<lparr>spread = (landmark (if i = 11 then x else 0.5) 0.5 (Some 0) (Some 1))
                          \<lparr>originalIndex := Index i, region := Some ''body'',
                           interpolated := Some False\<rparr>,
                sx = Some (if i = 11 then x else 0.5), sy = Some 0.5, sz = Some 0,
                svisibility = 1, stabilized = True\<rparr>)
         [0..<33]"

section \<open>Stabilizer: properties\<close>

lemma timeDelta_floor: "0.001 \<le> timeDelta t prev"
  by (simp add: timeDelta_def)

lemma OneEuroFilter_first:
  "tPrev f = None \<Longrightarrow>
   OneEuroFilter_filter v t f = (v, f\<lparr>xPrev := Some v, dxPrev := Some 0, tPrev := Some t\<rparr>)"
  by (simp add: OneEuroFilter_filter_def)

lemma KalmanFilter1D_first:
  "kx k = None \<Longrightarrow>
   KalmanFilter1D_update m t k = (m, k\<lparr>kx := Some m, lastTimestamp := Some t\<rparr>)"
  by (simp add: KalmanFilter1D_update_def)

lemma unit_fraction:
  fixes q :: real
  assumes "0 < q"
  shows "0 < 1 / (1 + q) \<and> 1 / (1 + q) < 1"
proof -
  have "1 < 1 + q" using assms by simp
  then show ?thesis by (simp add: field_simps)
qed

lemma alpha_unit:
  assumes "0 < cutoff" "0 < dt"
  shows "0 < alpha cutoff dt \<and> alpha cutoff dt < 1"
proof -
  have "0 < 2 * pi * cutoff" using assms by simp
  then have "0 < 1 / (2 * pi * cutoff)" by (rule divide_pos_pos [OF zero_less_one])
  then have "0 < (1 / (2 * pi * cutoff)) / dt" using assms(2) by (rule divide_pos_pos)
  from unit_fraction [OF this] show ?thesis by (simp only: alpha_def Let_def)
qed

lemma blend_between:
  fixes a v w :: real
  assumes "0 < a" "a < 1" "v \<noteq> w"
  shows "min w v < w + a * (v - w) \<and> w + a * (v - w) < max w v"
proof -
  define e where "e = a * (v - w)"
  show ?thesis
  proof (cases "w < v")
    case True
    then have d: "0 < v - w" by simp
    have "0 < e" unfolding e_def using assms(1) d by (rule mult_pos_pos)
    moreover have "e < 1 * (v - w)"
      unfolding e_def using assms(2) d by (rule mult_strict_right_mono)
    ultimately have "w < w + e \<and> w + e < v" by simp
    then show ?thesis using True by (simp add: e_def)
  next
    case False
    then have lt: "v < w" using assms by simp
    then have d: "v - w < 0" by simp
    have "e < 0" unfolding e_def using assms(1) d by (rule mult_pos_neg)
    moreover have "1 * (v - w) < e"
      unfolding e_def using assms(2) d by (rule mult_strict_right_mono_neg)
    ultimately have "v < w + e \<and> w + e < w" by simp
    then show ?thesis using lt by (simp add: e_def)
  qed
qed

lemma lowPass_between:
  assumes "0 < a" "a < 1" "v \<noteq> w"
  shows "min w v < lowPass v w a \<and> lowPass v w a < max w v"
proof -
  have eq: "lowPass v w a = w + a * (v - w)" by (simp add: lowPass_def algebra_simps)
  show ?thesis unfolding eq using assms by (rule blend_between)
qed

lemma Point3DFilter_first:
  "fst (Point3DFilter_filter (Some p) t (Point3DFilter_new c)) =
     Some \<lparr>fx = Some (px p), fy = Some (py p), fz = Some (orElse (pz p) 0),
           fvisibility = orElse (visibility p) 1, predicted = False\<rparr>"
  by (simp add: Point3DFilter_filter_def Point3DFilter_new_def OneEuroFilter_first
      KalmanFilter1D_first OneEuroFilter_new_def KalmanFilter1D_new_def Let_def)

lemma Point3DFilter_present:
  "\<exists>r f'. Point3DFilter_filter (Some p) t f = (Some r, f') \<and>
     fvisibility r = orElse (visibility p) 1 \<and> predicted r = False"
  by (simp add: Point3DFilter_filter_def Let_def split: prod.splits)

lemma getFilter_fst:
  "fst (getFilter c bank k) = (case bank k of None \<Rightarrow> Point3DFilter_new c | Some f \<Rightarrow> f)"
  by (simp add: getFilter_def split: option.splits)

lemma stabilizeFrom_Some:
  "stabilizeFrom c prefix t n (Some p # rest) bank =
     (case Point3DFilter_filter (Some p) t (fst (getFilter c bank (pointId prefix n p))) of
        (filtered, f') \<Rightarrow>
          (case stabilizeFrom c prefix t (Suc n) rest
                  ((snd (getFilter c bank (pointId prefix n p)))(pointId prefix n p \<mapsto> f')) of
             Inl e \<Rightarrow> Inl e
           | Inr (out, bank3) \<Rightarrow>
               Inr ((case filtered of
                       None \<Rightarrow> []
                     | Some r \<Rightarrow> [\<lparr>spread = p, sx = fx r, sy = fy r, sz = fz r,
                                    svisibility = fvisibility r, stabilized = True\<rparr>]) @ out,
                    bank3)))"
  by (simp add: Let_def split: prod.splits)

lemma getFilter_snd_other:
  "k' \<noteq> k \<Longrightarrow> snd (getFilter c bank k) k' = bank k'"
  by (simp add: getFilter_def split: option.splits)

text \<open>Every entry of a frame that is stabilized is a point, and each one yields an output.\<close>

lemma stabilizeFrom_length:
  "stabilizeFrom c prefix t n ps bank = Inr (out, bank') \<Longrightarrow>
   length out = length ps \<and> (\<forall>i<length ps. ps ! i \<noteq> None)"
proof (induction ps arbitrary: n bank out bank')
  case Nil
  then show ?case by simp
next
  case (Cons a ps)
  show ?case
  proof (cases a)
    case None
    with Cons.prems show ?thesis by simp
  next
    case (Some p)
    obtain r f' where flt:
      "Point3DFilter_filter (Some p) t (fst (getFilter c bank (pointId prefix n p))) = (Some r, f')"
      using Point3DFilter_present by blast
    from Cons.prems Some flt obtain out1 where
      rest: "stabilizeFrom c prefix t (Suc n) ps
               ((snd (getFilter c bank (pointId prefix n p)))(pointId prefix n p \<mapsto> f'))
             = Inr (out1, bank')"
      and out: "out = \<lparr>spread = p, sx = fx r, sy = fy r, sz = fz r,
                        svisibility = fvisibility r, stabilized = True\<rparr> # out1"
      by (auto simp: stabilizeFrom_Some simp del: stabilizeFrom.simps split: sum.splits)
    from Cons.IH [OF rest] have "length out1 = length ps" "\<forall>i<length ps. ps ! i \<noteq> None"
      by simp_all
    then show ?thesis using out Some by (auto simp: nth_Cons split: nat.splits)
  qed
qed

text \<open>The output at a position whose id no earlier position of the frame has.\<close>

lemma stabilizeFrom_nth:
  "stabilizeFrom c prefix t n ps bank = Inr (out, bank') \<Longrightarrow> i < length ps \<Longrightarrow>
   ps ! i = Some p \<Longrightarrow>
   (\<forall>j<i. \<forall>q. ps ! j = Some q \<longrightarrow> pointId prefix (n + j) q \<noteq> pointId prefix (n + i) p) \<Longrightarrow>
   \<exists>r f'. Point3DFilter_filter (Some p) t
              (case bank (pointId prefix (n + i) p) of
                 None \<Rightarrow> Point3DFilter_new c | Some f \<Rightarrow> f) = (Some r, f') \<and>
          out ! i = \<lparr>spread = p, sx = fx r, sy = fy r, sz = fz r,
                      svisibility = fvisibility r, stabilized = True\<rparr>"
proof (induction ps arbitrary: n bank out bank' i)
  case Nil
  then show ?case by simp
next
  case (Cons a ps)
  show ?case
  proof (cases a)
    case None
    with Cons.prems show ?thesis by simp
  next
    case (Some q)
    obtain r f' where flt:
      "Point3DFilter_filter (Some q) t (fst (getFilter c bank (pointId prefix n q))) = (Some r, f')"
      using Point3DFilter_present by blast
    from Cons.prems(1) Some flt obtain out1 where
      rest: "stabilizeFrom c prefix t (Suc n) ps
               ((snd (getFilter c bank (pointId prefix n q)))(pointId prefix n q \<mapsto> f'))
             = Inr (out1, bank')"
      and out: "out = \<lparr>spread = q, sx = fx r, sy = fy r, sz = fz r,
                        svisibility = fvisibility r, stabilized = True\<rparr> # out1"
      by (auto simp: stabilizeFrom_Some simp del: stabilizeFrom.simps split: sum.splits)
    show ?thesis
    proof (cases i)
      case 0
      with Cons.prems Some have "q = p" by simp
      with flt out 0 show ?thesis by (simp add: getFilter_fst)
    next
      case (Suc i')
      with Cons.prems have i': "i' < length ps" and at: "ps ! i' = Some p" by simp_all
      have ne0: "pointId prefix n q \<noteq> pointId prefix (n + i) p"
        using Cons.prems(4) Some Suc by (metis add.right_neutral nth_Cons_0 zero_less_Suc)
      have earlier: "\<forall>j<i'. \<forall>q'. ps ! j = Some q' \<longrightarrow>
          pointId prefix (Suc n + j) q' \<noteq> pointId prefix (Suc n + i') p"
      proof (intro allI impI)
        fix j q' assume "j < i'" "ps ! j = Some q'"
        then have "Suc j < i" "(a # ps) ! Suc j = Some q'" using Suc by simp_all
        with Cons.prems(4) have "pointId prefix (n + Suc j) q' \<noteq> pointId prefix (n + i) p"
          by blast
        then show "pointId prefix (Suc n + j) q' \<noteq> pointId prefix (Suc n + i') p"
          using Suc by simp
      qed
      from Cons.IH [OF rest i' at earlier] obtain r' f'' where
        "Point3DFilter_filter (Some p) t
           (case ((snd (getFilter c bank (pointId prefix n q)))(pointId prefix n q \<mapsto> f'))
                   (pointId prefix (Suc n + i') p) of
              None \<Rightarrow> Point3DFilter_new c | Some f \<Rightarrow> f) = (Some r', f'')"
        and "out1 ! i' = \<lparr>spread = p, sx = fx r', sy = fy r', sz = fz r',
                            svisibility = fvisibility r', stabilized = True\<rparr>"
        by blast
      then show ?thesis using ne0 Suc out by (simp add: getFilter_snd_other)
    qed
  qed
qed

lemma Point3DFilter_present_vis:
  "Point3DFilter_filter (Some p) t f = (Some r, f') \<Longrightarrow>
   fvisibility r = orElse (visibility p) 1 \<and> predicted r = False"
  by (auto simp: Point3DFilter_filter_def Let_def split: prod.splits)

text \<open>The two stages on one axis, observed for the second time.\<close>

lemma OneEuroFilter_second:
  assumes "0 < mc" "0 \<le> b" "w \<noteq> v"
  shows "min v w < fst (OneEuroFilter_filter w t2 (snd (OneEuroFilter_filter v t1 (OneEuroFilter_new mc b dc)))) \<and>
         fst (OneEuroFilter_filter w t2 (snd (OneEuroFilter_filter v t1 (OneEuroFilter_new mc b dc)))) < max v w"
proof -
  define dt where "dt = timeDelta t2 (Some t1)"
  define cutoff where
    "cutoff = mc + b * \<bar>lowPass ((w - v) / dt) 0 (alpha dc dt)\<bar>"
  have dt: "0 < dt" using timeDelta_floor [of t2 "Some t1"] by (simp add: dt_def)
  have "0 \<le> b * \<bar>lowPass ((w - v) / dt) 0 (alpha dc dt)\<bar>" using assms(2) by simp
  then have cutoff: "0 < cutoff" using assms(1) by (simp add: cutoff_def)
  have out: "fst (OneEuroFilter_filter w t2 (snd (OneEuroFilter_filter v t1 (OneEuroFilter_new mc b dc))))
     = lowPass w v (alpha cutoff dt)"
    by (simp add: OneEuroFilter_filter_def OneEuroFilter_new_def Let_def toNumber_def
        dt_def cutoff_def)
  from alpha_unit [OF cutoff dt] have "0 < alpha cutoff dt" "alpha cutoff dt < 1" by simp_all
  from lowPass_between [OF this assms(3)] show ?thesis by (simp only: out)
qed

lemma KalmanFilter1D_second:
  assumes "0 \<le> q" "0 < r" "m \<noteq> v"
  shows "min v m < fst (KalmanFilter1D_update m t2 (snd (KalmanFilter1D_update v t1 (KalmanFilter1D_new q r)))) \<and>
         fst (KalmanFilter1D_update m t2 (snd (KalmanFilter1D_update v t1 (KalmanFilter1D_new q r)))) < max v m"
proof -
  define gain where "gain = (1 + q) / (1 + q + r)"
  have pos: "0 < 1 + q" using assms(1) by simp
  have "0 < gain" unfolding gain_def using pos assms(2) by (simp add: divide_pos_pos)
  moreover have "gain < 1" unfolding gain_def using pos assms(2) by (simp add: field_simps)
  moreover have "fst (KalmanFilter1D_update m t2 (snd (KalmanFilter1D_update v t1 (KalmanFilter1D_new q r))))
      = v + gain * (m - v)"
    by (simp add: KalmanFilter1D_update_def KalmanFilter1D_new_def Let_def toNumber_def gain_def)
  ultimately show ?thesis using blend_between [of gain m v] assms(3) by simp
qed

lemma KalmanFilter1D_second_gain:
  assumes "0 \<le> q" "0 < r"
  shows "0 < kK (snd (KalmanFilter1D_update m t2
                   (snd (KalmanFilter1D_update v t1 (KalmanFilter1D_new q r))))) \<and>
         kK (snd (KalmanFilter1D_update m t2
                   (snd (KalmanFilter1D_update v t1 (KalmanFilter1D_new q r))))) < 1"
proof -
  have pos: "0 < 1 + q" using assms(1) by simp
  have "0 < (1 + q) / (1 + q + r)" using pos assms(2) by (simp add: divide_pos_pos)
  moreover have "(1 + q) / (1 + q + r) < 1" using pos assms(2) by (simp add: field_simps)
  moreover have "kK (snd (KalmanFilter1D_update m t2
                   (snd (KalmanFilter1D_update v t1 (KalmanFilter1D_new q r))))) =
      (1 + q) / (1 + q + r)"
    by (simp add: KalmanFilter1D_update_def KalmanFilter1D_new_def Let_def)
  ultimately show ?thesis by simp
qed

lemma Point3DFilter_coords:
  assumes "Point3DFilter_filter (Some p) t f = (Some r, f')"
  shows "fx r = Some (if useKalman f
                      then fst (KalmanFilter1D_update (fst (OneEuroFilter_filter (px p) t (euroX f))) t (kalmanX f))
                      else fst (OneEuroFilter_filter (px p) t (euroX f)))"
    and "fy r = Some (if useKalman f
                      then fst (KalmanFilter1D_update (fst (OneEuroFilter_filter (py p) t (euroY f))) t (kalmanY f))
                      else fst (OneEuroFilter_filter (py p) t (euroY f)))"
    and "fz r = Some (if useKalman f
                      then fst (KalmanFilter1D_update (fst (OneEuroFilter_filter (orElse (pz p) 0) t (euroZ f))) t (kalmanZ f))
                      else fst (OneEuroFilter_filter (orElse (pz p) 0) t (euroZ f)))"
  using assms
  by (auto simp: Point3DFilter_filter_def Let_def split: prod.splits if_splits)

lemma Point3DFilter_first_state:
  shows "useKalman (snd (Point3DFilter_filter (Some p) t (Point3DFilter_new c))) = cfgUseKalman c"
    and "euroX (snd (Point3DFilter_filter (Some p) t (Point3DFilter_new c))) = snd (OneEuroFilter_filter (px p) t
            (OneEuroFilter_new (cfgMinCutoff c) (cfgBeta c) (cfgDCutoff c)))"
    and "euroY (snd (Point3DFilter_filter (Some p) t (Point3DFilter_new c))) = snd (OneEuroFilter_filter (py p) t
            (OneEuroFilter_new (cfgMinCutoff c) (cfgBeta c) (cfgDCutoff c)))"
    and "euroZ (snd (Point3DFilter_filter (Some p) t (Point3DFilter_new c))) = snd (OneEuroFilter_filter (orElse (pz p) 0) t
            (OneEuroFilter_new (cfgMinCutoff c) (cfgBeta c) (cfgDCutoff c)))"
    and "cfgUseKalman c \<Longrightarrow> kalmanX (snd (Point3DFilter_filter (Some p) t (Point3DFilter_new c))) = snd (KalmanFilter1D_update (px p) t
            (KalmanFilter1D_new (cfgProcessNoise c) (cfgMeasurementNoise c)))"
    and "cfgUseKalman c \<Longrightarrow> kalmanY (snd (Point3DFilter_filter (Some p) t (Point3DFilter_new c))) = snd (KalmanFilter1D_update (py p) t
            (KalmanFilter1D_new (cfgProcessNoise c) (cfgMeasurementNoise c)))"
    and "cfgUseKalman c \<Longrightarrow> kalmanZ (snd (Point3DFilter_filter (Some p) t (Point3DFilter_new c))) = snd (KalmanFilter1D_update (orElse (pz p) 0) t
            (KalmanFilter1D_new (cfgProcessNoise c) (cfgMeasurementNoise c)))"
  by (simp_all add: Point3DFilter_filter_def Point3DFilter_new_def OneEuroFilter_first
      KalmanFilter1D_first OneEuroFilter_new_def KalmanFilter1D_new_def Let_def)

text \<open>One axis through both stages, second observation.\<close>

lemma axis_second:
  fixes mc b dc q r v w t1 t2 :: real and uk :: bool
  assumes "0 < mc" "0 \<le> b" "0 \<le> q" "0 < r" "w \<noteq> v"
  defines "m \<equiv> fst (OneEuroFilter_filter w t2 (snd (OneEuroFilter_filter v t1 (OneEuroFilter_new mc b dc))))"
  defines "u \<equiv> (if uk then fst (KalmanFilter1D_update m t2
                     (snd (KalmanFilter1D_update v t1 (KalmanFilter1D_new q r)))) else m)"
  shows "min v w < u \<and> u < max v w"
proof -
  have m: "min v w < m \<and> m < max v w"
    unfolding m_def using assms(1,2,5) by (rule OneEuroFilter_second)
  show ?thesis
  proof (cases uk)
    case False
    with m show ?thesis by (simp add: u_def)
  next
    case True
    have "m \<noteq> v" using m assms(5) by (auto simp: min_def max_def split: if_splits)
    from KalmanFilter1D_second [OF assms(3,4) this, of t2 t1]
    have "min v m < u \<and> u < max v m" using True by (simp add: u_def)
    with m show ?thesis by (auto simp: min_def max_def split: if_splits)
  qed
qed

lemma Point3DFilter_second:
  assumes cfg: "0 < cfgMinCutoff c" "0 \<le> cfgBeta c" "0 \<le> cfgProcessNoise c"
      "0 < cfgMeasurementNoise c"
    and run: "Point3DFilter_filter (Some p2) t2
               (snd (Point3DFilter_filter (Some p1) t1 (Point3DFilter_new c))) = (Some r, f')"
  shows "px p2 \<noteq> px p1 \<Longrightarrow>
           \<exists>v. fx r = Some v \<and> min (px p1) (px p2) < v \<and> v < max (px p1) (px p2)"
    and "py p2 \<noteq> py p1 \<Longrightarrow>
           \<exists>v. fy r = Some v \<and> min (py p1) (py p2) < v \<and> v < max (py p1) (py p2)"
    and "orElse (pz p2) 0 \<noteq> orElse (pz p1) 0 \<Longrightarrow>
           \<exists>v. fz r = Some v \<and> min (orElse (pz p1) 0) (orElse (pz p2) 0) < v \<and>
               v < max (orElse (pz p1) 0) (orElse (pz p2) 0)"
proof -
  note st = Point3DFilter_first_state [where p = p1 and t = t1 and c = c]
  note co = Point3DFilter_coords [OF run]
  {
    assume ne: "px p2 \<noteq> px p1"
    show "\<exists>v. fx r = Some v \<and> min (px p1) (px p2) < v \<and> v < max (px p1) (px p2)"
      using axis_second [OF cfg ne, where dc = "cfgDCutoff c" and uk = "cfgUseKalman c" and ?t2.0 = t2 and ?t1.0 = t1] co(1) st
      by (cases "cfgUseKalman c") simp_all
  }
  {
    assume ne: "py p2 \<noteq> py p1"
    show "\<exists>v. fy r = Some v \<and> min (py p1) (py p2) < v \<and> v < max (py p1) (py p2)"
      using axis_second [OF cfg ne, where dc = "cfgDCutoff c" and uk = "cfgUseKalman c" and ?t2.0 = t2 and ?t1.0 = t1] co(2) st
      by (cases "cfgUseKalman c") simp_all
  }
  {
    assume ne: "orElse (pz p2) 0 \<noteq> orElse (pz p1) 0"
    show "\<exists>v. fz r = Some v \<and> min (orElse (pz p1) 0) (orElse (pz p2) 0) < v \<and>
               v < max (orElse (pz p1) 0) (orElse (pz p2) 0)"
      using axis_second [OF cfg ne, where dc = "cfgDCutoff c" and uk = "cfgUseKalman c" and ?t2.0 = t2 and ?t1.0 = t1] co(3) st
      by (cases "cfgUseKalman c") simp_all
  }
qed

lemma stabilizeFrom_total:
  "\<exists>out bank'. stabilizeFrom c prefix t n (map Some qs) bank = Inr (out, bank')"
proof (induction qs arbitrary: n bank)
  case Nil
  show ?case by simp
next
  case (Cons q qs)
  obtain r f' where flt:
    "Point3DFilter_filter (Some q) t (fst (getFilter c bank (pointId prefix n q))) = (Some r, f')"
    using Point3DFilter_present by blast
  from Cons [of "Suc n" "(snd (getFilter c bank (pointId prefix n q)))(pointId prefix n q \<mapsto> f')"]
  obtain out1 bank1 where
    "stabilizeFrom c prefix t (Suc n) (map Some qs)
       ((snd (getFilter c bank (pointId prefix n q)))(pointId prefix n q \<mapsto> f')) = Inr (out1, bank1)"
    by blast
  with flt show ?case
    by (simp add: stabilizeFrom_Some del: stabilizeFrom.simps)
qed

lemma stabilizePoints_frame:
  "stabilizePoints c (Some ps) bank t prefix = stabilizeFrom c prefix t 0 ps bank"
  by (cases ps) (simp_all add: stabilizePoints_def)

lemma stabilizePoints_total:
  "\<exists>out bank'. stabilizePoints c (Some (map Some qs)) bank t prefix = Inr (out, bank') \<and>
      length out = length qs"
proof -
  obtain out bank' where run: "stabilizeFrom c prefix t 0 (map Some qs) bank = Inr (out, bank')"
    using stabilizeFrom_total by blast
  from stabilizeFrom_length [OF run] have "length out = length qs" by simp
  with run show ?thesis by (simp add: stabilizePoints_frame)
qed

lemma stabilizePoints_nth:
  assumes "stabilizePoints c (Some (map Some qs)) bank t prefix = Inr (out, bank')"
    and "i < length qs"
    and "\<forall>j<i. pointId prefix j (qs ! j) \<noteq> pointId prefix i (qs ! i)"
  shows "\<exists>r f'. Point3DFilter_filter (Some (qs ! i)) t
              (case bank (pointId prefix i (qs ! i)) of
                 None \<Rightarrow> Point3DFilter_new c | Some f \<Rightarrow> f) = (Some r, f') \<and>
          out ! i = \<lparr>spread = qs ! i, sx = fx r, sy = fy r, sz = fz r,
                      svisibility = fvisibility r, stabilized = True\<rparr>"
proof -
  have run: "stabilizeFrom c prefix t 0 (map Some qs) bank = Inr (out, bank')"
    using assms(1) by (simp add: stabilizePoints_frame)
  have "\<forall>j<i. \<forall>q. map Some qs ! j = Some q \<longrightarrow>
          pointId prefix (0 + j) q \<noteq> pointId prefix (0 + i) (qs ! i)"
    using assms(2,3) by simp
  from stabilizeFrom_nth [OF run _ _ this] assms(2) show ?thesis by simp
qed

lemma stabilizePoints_single:
  "stabilizePoints c (Some [Some p]) bank t prefix =
     Inr ((case fst (Point3DFilter_filter (Some p) t (fst (getFilter c bank (pointId prefix 0 p)))) of
             None \<Rightarrow> []
           | Some r \<Rightarrow> [\<lparr>spread = p, sx = fx r, sy = fy r, sz = fz r,
                          svisibility = fvisibility r, stabilized = True\<rparr>]),
          (snd (getFilter c bank (pointId prefix 0 p)))
            (pointId prefix 0 p \<mapsto>
               snd (Point3DFilter_filter (Some p) t (fst (getFilter c bank (pointId prefix 0 p))))))"
  by (simp add: stabilizePoints_def Let_def split: prod.splits)

lemma defaults:
  "cfgMinCutoff (Stabilizer_config noOptions) = 0.8"
  "cfgBeta (Stabilizer_config noOptions) = 0.005"
  "cfgDCutoff (Stabilizer_config noOptions) = 1"
  "cfgProcessNoise (Stabilizer_config noOptions) = 0.005"
  "cfgMeasurementNoise (Stabilizer_config noOptions) = 0.05"
  "cfgUseKalman (Stabilizer_config noOptions) = True"
  by (simp_all add: Stabilizer_config_def noOptions_def orElse_def)

lemma stabilizeFrom_nth_visibility:
  "stabilizeFrom c prefix t n (map Some qs) bank = Inr (out, bank') \<Longrightarrow> i < length qs \<Longrightarrow>
   svisibility (out ! i) = orElse (visibility (qs ! i)) 1"
proof (induction qs arbitrary: n bank out bank' i)
  case Nil
  then show ?case by simp
next
  case (Cons q qs)
  obtain r f' where flt:
    "Point3DFilter_filter (Some q) t (fst (getFilter c bank (pointId prefix n q))) = (Some r, f')"
    using Point3DFilter_present by blast
  from Cons.prems(1) flt obtain out1 where
    rest: "stabilizeFrom c prefix t (Suc n) (map Some qs)
             ((snd (getFilter c bank (pointId prefix n q)))(pointId prefix n q \<mapsto> f'))
           = Inr (out1, bank')"
    and out: "out = \<lparr>spread = q, sx = fx r, sy = fy r, sz = fz r,
                      svisibility = fvisibility r, stabilized = True\<rparr> # out1"
    by (auto simp: stabilizeFrom_Some simp del: stabilizeFrom.simps split: sum.splits)
  show ?case
  proof (cases i)
    case 0
    with out Point3DFilter_present_vis [OF flt] show ?thesis by simp
  next
    case (Suc i')
    with Cons.prems(2) have "i' < length qs" by simp
    from Cons.IH [OF rest this] show ?thesis using out Suc by simp
  qed
qed

text \<open>
  A frame of present points is stabilized without error and yields one output per point.
  When the bank holds no filter for the id of the point at position \<open>i\<close> and no
  earlier point of the frame has that id, the output coordinates at \<open>i\<close> are the raw
  coordinates: \<open>x\<close> and \<open>y\<close> as given, and \<open>z\<close> as given (\<open>0\<close> when the point
  has no \<open>z\<close>). Each of the two stages, fresh, returns the value it is given and seeds
  its state with it.
\<close>

lemma fresh_id_passthrough:
  assumes fresh: "bank (pointId prefix i (qs ! i)) = None"
    and first: "\<forall>j<i. pointId prefix j (qs ! j) \<noteq> pointId prefix i (qs ! i)"
    and i: "i < length qs"
  shows "\<exists>out bank'.
           stabilizePoints c (Some (map Some qs)) bank t prefix = Inr (out, bank') \<and>
           length out = length qs \<and>
           sx (out ! i) = Some (px (qs ! i)) \<and>
           sy (out ! i) = Some (py (qs ! i)) \<and>
           sz (out ! i) = Some (case pz (qs ! i) of None \<Rightarrow> 0 | Some z \<Rightarrow> z) \<and>
           OneEuroFilter_filter v t (OneEuroFilter_new mc b dc) =
             (v, (OneEuroFilter_new mc b dc)\<lparr>xPrev := Some v, dxPrev := Some 0, tPrev := Some t\<rparr>) \<and>
           KalmanFilter1D_update v t (KalmanFilter1D_new q r) =
             (v, (KalmanFilter1D_new q r)\<lparr>kx := Some v, lastTimestamp := Some t\<rparr>)"
proof -
  obtain out bank' where
    run: "stabilizePoints c (Some (map Some qs)) bank t prefix = Inr (out, bank')"
    and len: "length out = length qs"
    using stabilizePoints_total by blast
  from stabilizePoints_nth [OF run i first] fresh obtain res f' where
    flt: "Point3DFilter_filter (Some (qs ! i)) t (Point3DFilter_new c) = (Some res, f')"
    and out: "out ! i = \<lparr>spread = qs ! i, sx = fx res, sy = fy res, sz = fz res,
                          svisibility = fvisibility res, stabilized = True\<rparr>"
    by auto
  from flt Point3DFilter_first [of "qs ! i" t c]
  have res: "fx res = Some (px (qs ! i))" "fy res = Some (py (qs ! i))"
    "fz res = Some (orElse (pz (qs ! i)) 0)"
    by auto
  have z: "orElse (pz (qs ! i)) 0 = (case pz (qs ! i) of None \<Rightarrow> 0 | Some z \<Rightarrow> z)"
    by (simp add: orElse_def split: option.splits)
  have e: "OneEuroFilter_filter v t (OneEuroFilter_new mc b dc) =
             (v, (OneEuroFilter_new mc b dc)\<lparr>xPrev := Some v, dxPrev := Some 0, tPrev := Some t\<rparr>)"
    by (rule OneEuroFilter_first) (simp add: OneEuroFilter_new_def)
  have k: "KalmanFilter1D_update v t (KalmanFilter1D_new q r) =
             (v, (KalmanFilter1D_new q r)\<lparr>kx := Some v, lastTimestamp := Some t\<rparr>)"
    by (rule KalmanFilter1D_first) (simp add: KalmanFilter1D_new_def)
  show ?thesis using run len out res z e k by simp
qed

lemma fresh_id_passthrough_example:
  "\<exists>out bank'.
     stabilizePoints (Stabilizer_config noOptions)
       (Some (map Some [landmark 0.5 0.5 (Some 0) None])) Map.empty 0 ''face_'' = Inr (out, bank') \<and>
     length out = 1 \<and>
     sx (out ! 0) = Some 0.5 \<and> sy (out ! 0) = Some 0.5 \<and> sz (out ! 0) = Some 0"
  using fresh_id_passthrough [where bank = Map.empty and prefix = "''face_''" and i = 0
      and qs = "[landmark 0.5 0.5 (Some 0) None]" and c = "Stabilizer_config noOptions" and t = 0
      and v = "0.5" and mc = "0.8" and b = "0.005" and dc = 1 and q = "0.005" and r = "0.05"]
  by (auto simp: landmark_def)

text \<open>
  C10. For every point present in the frame, the stabilized output carries the point's
  visibility when that is a number other than \<open>0\<close>, and \<open>1\<close> when it is \<open>0\<close>,
  \<^verbatim>\<open>null\<close> or missing.
\<close>

theorem present_point_visibility:
  assumes i: "i < length qs"
  shows "\<exists>out bank'.
           stabilizePoints c (Some (map Some qs)) bank t prefix = Inr (out, bank') \<and>
           length out = length qs \<and>
           svisibility (out ! i) =
             (case visibility (qs ! i) of None \<Rightarrow> 1 | Some v \<Rightarrow> if v = 0 then 1 else v)"
proof -
  obtain out bank' where
    run: "stabilizePoints c (Some (map Some qs)) bank t prefix = Inr (out, bank')"
    and len: "length out = length qs"
    using stabilizePoints_total by blast
  have "stabilizeFrom c prefix t 0 (map Some qs) bank = Inr (out, bank')"
    using run by (simp add: stabilizePoints_frame)
  from stabilizeFrom_nth_visibility [OF this i]
  have "svisibility (out ! i) =
          (case visibility (qs ! i) of None \<Rightarrow> 1 | Some v \<Rightarrow> if v = 0 then 1 else v)"
    by (simp add: orElse_def)
  with run len show ?thesis by blast
qed

theorem present_point_visibility_witness:
  "\<exists>out bank'.
     stabilizePoints (Stabilizer_config noOptions)
       (Some (map Some [landmark 0.5 0.5 (Some 0) (Some 0), landmark 0.1 0.2 None None,
                        landmark 0.3 0.4 (Some 1) (Some 0.7)]))
       Map.empty 0 ''body_'' = Inr (out, bank') \<and>
     length out = 3 \<and> svisibility (out ! 0) = 1"
  using present_point_visibility [where i = 0 and c = "Stabilizer_config noOptions"
      and bank = Map.empty and t = 0 and prefix = "''body_''"
      and qs = "[landmark 0.5 0.5 (Some 0) (Some 0), landmark 0.1 0.2 None None,
                 landmark 0.3 0.4 (Some 1) (Some 0.7)]"]
  by (auto simp: landmark_def)

text \<open>
  The second observation of an id. The configuration has a positive minimum cutoff, a
  non-negative speed coefficient, a positive derivative cutoff, a non-negative process
  noise and a positive measurement noise (the defaults have). The bank holds, for the id
  of the point at position \<open>i\<close>, the filter as one observation of \<open>p1\<close> left it, and
  no earlier point of the frame has that id. Then on every axis where the second raw
  coordinate differs from the first, the output lies strictly between the two, with the
  predictive stage enabled or not. The smoothing coefficient of a positive cutoff and a
  positive time delta, and the gain of the predictive stage at its second update, lie
  strictly between \<open>0\<close> and \<open>1\<close>. The example is one face point moved from \<open>0.5\<close>
  to \<open>0.6\<close>.
\<close>

lemma once_seen_id_between:
  assumes cfg: "0 < cfgMinCutoff c" "0 \<le> cfgBeta c" "0 < cfgDCutoff c"
      "0 \<le> cfgProcessNoise c" "0 < cfgMeasurementNoise c"
    and once: "bank (pointId prefix i (qs ! i)) =
                 Some (snd (Point3DFilter_filter (Some p1) t1 (Point3DFilter_new c)))"
    and first: "\<forall>j<i. pointId prefix j (qs ! j) \<noteq> pointId prefix i (qs ! i)"
    and i: "i < length qs"
  shows "(\<exists>out bank'.
           stabilizePoints c (Some (map Some qs)) bank t2 prefix = Inr (out, bank') \<and>
           length out = length qs \<and>
           (px (qs ! i) \<noteq> px p1 \<longrightarrow>
              (\<exists>v. sx (out ! i) = Some v \<and>
                   min (px p1) (px (qs ! i)) < v \<and> v < max (px p1) (px (qs ! i)))) \<and>
           (py (qs ! i) \<noteq> py p1 \<longrightarrow>
              (\<exists>v. sy (out ! i) = Some v \<and>
                   min (py p1) (py (qs ! i)) < v \<and> v < max (py p1) (py (qs ! i)))) \<and>
           (orElse (pz (qs ! i)) 0 \<noteq> orElse (pz p1) 0 \<longrightarrow>
              (\<exists>v. sz (out ! i) = Some v \<and>
                   min (orElse (pz p1) 0) (orElse (pz (qs ! i)) 0) < v \<and>
                   v < max (orElse (pz p1) 0) (orElse (pz (qs ! i)) 0)))) \<and>
         (\<forall>cutoff dt. 0 < cutoff \<and> 0 < dt \<longrightarrow>
            0 < alpha cutoff dt \<and> alpha cutoff dt < 1) \<and>
         0 < kK (snd (KalmanFilter1D_update m t2
                   (snd (KalmanFilter1D_update v t1
                      (KalmanFilter1D_new (cfgProcessNoise c) (cfgMeasurementNoise c)))))) \<and>
         kK (snd (KalmanFilter1D_update m t2
                   (snd (KalmanFilter1D_update v t1
                      (KalmanFilter1D_new (cfgProcessNoise c) (cfgMeasurementNoise c)))))) < 1"
proof -
  obtain out bank' where
    run: "stabilizePoints c (Some (map Some qs)) bank t2 prefix = Inr (out, bank')"
    and len: "length out = length qs"
    using stabilizePoints_total by blast
  from stabilizePoints_nth [OF run i first] once obtain res f' where
    flt: "Point3DFilter_filter (Some (qs ! i)) t2
            (snd (Point3DFilter_filter (Some p1) t1 (Point3DFilter_new c))) = (Some res, f')"
    and out: "out ! i = \<lparr>spread = qs ! i, sx = fx res, sy = fy res, sz = fz res,
                          svisibility = fvisibility res, stabilized = True\<rparr>"
    by auto
  note snd = Point3DFilter_second [OF cfg(1,2,4,5) flt]
  have frame: "\<exists>out bank'.
           stabilizePoints c (Some (map Some qs)) bank t2 prefix = Inr (out, bank') \<and>
           length out = length qs \<and>
           (px (qs ! i) \<noteq> px p1 \<longrightarrow>
              (\<exists>v. sx (out ! i) = Some v \<and>
                   min (px p1) (px (qs ! i)) < v \<and> v < max (px p1) (px (qs ! i)))) \<and>
           (py (qs ! i) \<noteq> py p1 \<longrightarrow>
              (\<exists>v. sy (out ! i) = Some v \<and>
                   min (py p1) (py (qs ! i)) < v \<and> v < max (py p1) (py (qs ! i)))) \<and>
           (orElse (pz (qs ! i)) 0 \<noteq> orElse (pz p1) 0 \<longrightarrow>
              (\<exists>v. sz (out ! i) = Some v \<and>
                   min (orElse (pz p1) 0) (orElse (pz (qs ! i)) 0) < v \<and>
                   v < max (orElse (pz p1) 0) (orElse (pz (qs ! i)) 0)))"
    using run len out snd by auto
  have coeff: "\<forall>cutoff dt. 0 < cutoff \<and> 0 < dt \<longrightarrow>
            0 < alpha cutoff dt \<and> alpha cutoff dt < 1"
    using alpha_unit by blast
  from frame coeff KalmanFilter1D_second_gain [OF cfg(4,5), of m t2 v t1]
  show ?thesis by (intro conjI) simp_all
qed

lemma once_seen_id_between_example:
  "\<exists>out1 bank1 out2 bank2 v.
     stabilizePoints (Stabilizer_config noOptions)
       (Some [Some (landmark 0.5 0.5 (Some 0) None)]) Map.empty 0 ''face_'' = Inr (out1, bank1) \<and>
     stabilizePoints (Stabilizer_config noOptions)
       (Some (map Some [landmark 0.6 0.5 (Some 0) None])) bank1 16.7 ''face_'' = Inr (out2, bank2) \<and>
     sx (out2 ! 0) = Some v \<and> 0.5 < v \<and> v < 0.6"
proof -
  define c where "c = Stabilizer_config noOptions"
  define p1 where "p1 = landmark 0.5 0.5 (Some 0) None"
  define p2 where "p2 = landmark 0.6 0.5 (Some 0) None"
  define bank1 where
    "bank1 = (Map.empty :: FilterBank)((''face_'', Some 0) \<mapsto>
        snd (Point3DFilter_filter (Some p1) 0 (Point3DFilter_new c)))"
  have ids: "pointId ''face_'' 0 p1 = (''face_'', Some 0)" "pointId ''face_'' 0 p2 = (''face_'', Some 0)"
    by (simp_all add: pointId_def p1_def p2_def landmark_def)
  have frame1: "stabilizePoints c (Some [Some p1]) Map.empty 0 ''face_'' =
      Inr ([\<lparr>spread = p1, sx = Some 0.5, sy = Some 0.5, sz = Some 0,
              svisibility = 1, stabilized = True\<rparr>], bank1)"
    unfolding stabilizePoints_single ids bank1_def
    by (simp add: getFilter_def Point3DFilter_first) (simp add: p1_def landmark_def orElse_def)
  have cfg: "0 < cfgMinCutoff c" "0 \<le> cfgBeta c" "0 < cfgDCutoff c"
      "0 \<le> cfgProcessNoise c" "0 < cfgMeasurementNoise c"
    by (simp_all add: c_def defaults)
  have once: "bank1 (pointId ''face_'' 0 ([p2] ! 0)) =
      Some (snd (Point3DFilter_filter (Some p1) 0 (Point3DFilter_new c)))"
    by (simp add: ids bank1_def)
  have first: "\<forall>j<0. pointId ''face_'' j ([p2] ! j) \<noteq> pointId ''face_'' 0 ([p2] ! 0)"
    by simp
  have i: "0 < length [p2]" by simp
  from once_seen_id_between [where c = c and bank = bank1 and prefix = "''face_''" and i = 0
      and qs = "[p2]" and ?p1.0 = p1 and ?t1.0 = 0 and ?t2.0 = "16.7", OF cfg once first i,
      THEN conjunct1]
  obtain out2 bank2 v where
    "stabilizePoints c (Some (map Some [p2])) bank1 16.7 ''face_'' = Inr (out2, bank2)"
    "sx (out2 ! 0) = Some v" "0.5 < v" "v < 0.6"
    by (auto simp: p1_def p2_def landmark_def)
  with frame1 show ?thesis unfolding c_def p1_def p2_def by blast
qed



lemma Point3DFilter_occluded:
  assumes "useKalman f" "lastPoint f \<noteq> None" "occlusionFrames f < 10"
  shows "Point3DFilter_filter None t f =
    (Some \<lparr>fx = KalmanFilter1D_predict t (kalmanX f), fy = KalmanFilter1D_predict t (kalmanY f),
           fz = KalmanFilter1D_predict t (kalmanZ f), fvisibility = 0.3, predicted = True\<rparr>,
     f\<lparr>occlusionFrames := occlusionFrames f + 1\<rparr>)"
  using assms by (simp add: Point3DFilter_filter_def Let_def)

text \<open>The eleventh consecutive miss resets the filter on every axis and returns nothing.\<close>

lemma Point3DFilter_occlusion_reset:
  assumes "occlusionFrames f = 10"
  shows "fst (Point3DFilter_filter None t f) = None"
    and "occlusionFrames (snd (Point3DFilter_filter None t f)) = 0"
    and "lastPoint (snd (Point3DFilter_filter None t f)) = None"
    and "tPrev (euroX (snd (Point3DFilter_filter None t f))) = None"
    and "tPrev (euroY (snd (Point3DFilter_filter None t f))) = None"
    and "tPrev (euroZ (snd (Point3DFilter_filter None t f))) = None"
    and "kx (kalmanX (snd (Point3DFilter_filter None t f))) = None"
    and "kx (kalmanY (snd (Point3DFilter_filter None t f))) = None"
    and "kx (kalmanZ (snd (Point3DFilter_filter None t f))) = None"
  using assms
  by (simp_all add: Point3DFilter_filter_def Let_def Point3DFilter_reset_def
      OneEuroFilter_reset_def KalmanFilter1D_reset_def)

text \<open>
  A frame of present points leaves every filter of the bank with an occlusion counter of
  zero when it found them so: no call of \<^verbatim>\<open>stabilizePoints\<close> counts a miss.
\<close>

lemma Point3DFilter_present_counter:
  "occlusionFrames (snd (Point3DFilter_filter (Some p) t f)) = 0"
  by (simp add: Point3DFilter_filter_def Let_def split: prod.splits)

lemma stabilizeFrom_counters:
  assumes "stabilizeFrom c prefix t n ps bank = Inr (out, bank')"
    and "\<And>k f. bank k = Some f \<Longrightarrow> occlusionFrames f = 0"
    and "bank' k = Some f"
  shows "occlusionFrames f = 0"
  using assms
proof (induction ps arbitrary: n bank out)
  case Nil
  then show ?case by auto
next
  case (Cons a ps)
  show ?case
  proof (cases a)
    case None
    with Cons.prems show ?thesis by simp
  next
    case (Some p)
    obtain r f' where flt:
      "Point3DFilter_filter (Some p) t (fst (getFilter c bank (pointId prefix n p))) = (Some r, f')"
      using Point3DFilter_present by blast
    from Cons.prems(1) Some flt obtain out1 where
      rest: "stabilizeFrom c prefix t (Suc n) ps
               ((snd (getFilter c bank (pointId prefix n p)))(pointId prefix n p \<mapsto> f'))
             = Inr (out1, bank')"
      by (auto simp: stabilizeFrom_Some simp del: stabilizeFrom.simps split: sum.splits)
    have f': "occlusionFrames f' = 0"
      using Point3DFilter_present_counter [of p t "fst (getFilter c bank (pointId prefix n p))"] flt
      by simp
    have "occlusionFrames g = 0"
      if "((snd (getFilter c bank (pointId prefix n p)))(pointId prefix n p \<mapsto> f')) k' = Some g"
      for k' g
    proof (cases "k' = pointId prefix n p")
      case True
      with that f' show ?thesis by simp
    next
      case False
      with that have "bank k' = Some g" by (simp add: getFilter_snd_other)
      then show ?thesis by (rule Cons.prems(2))
    qed
    from Cons.IH [OF rest this Cons.prems(3)] show ?thesis .
  qed
qed

text \<open>
  C1. Occlusion. After a first frame with one face point, the bank has the filter of
  \<open>face_0\<close>, with a last point and a counter of zero. A second frame whose face group
  is empty leaves the bank as it is and outputs nothing: the counter is not incremented
  and no predicted point is emitted. A second frame whose entry is \<^verbatim>\<open>null\<close> throws.
  The filter itself, called without a point, would return the predicted point and count
  the miss.
\<close>

theorem occlusion_path_unreachable:
  "\<exists>out1 bank1 f1.
     stabilizePoints (Stabilizer_config noOptions)
       (Some [Some (landmark 0.5 0.5 (Some 0) None)]) Map.empty 0 ''face_'' = Inr (out1, bank1) \<and>
     bank1 (''face_'', Some 0) = Some f1 \<and> lastPoint f1 \<noteq> None \<and> occlusionFrames f1 = 0 \<and>
     stabilizePoints (Stabilizer_config noOptions) (Some []) bank1 16.7 ''face_'' = Inr ([], bank1) \<and>
     stabilizePoints (Stabilizer_config noOptions) (Some [None]) bank1 16.7 ''face_'' = Inl TypeError \<and>
     (\<exists>r f2. Point3DFilter_filter None 16.7 f1 = (Some r, f2) \<and> predicted r \<and>
         fx r = Some 0.5 \<and> fvisibility r = 0.3 \<and> occlusionFrames f2 = 1)"
proof -
  define c where "c = Stabilizer_config noOptions"
  define p1 where "p1 = landmark 0.5 0.5 (Some 0) None"
  define f1 where "f1 = snd (Point3DFilter_filter (Some p1) 0 (Point3DFilter_new c))"
  define bank1 where "bank1 = (Map.empty :: FilterBank)((''face_'', Some 0) \<mapsto> f1)"
  have id: "pointId ''face_'' 0 p1 = (''face_'', Some 0)"
    by (simp add: pointId_def p1_def landmark_def)
  have frame1: "stabilizePoints c (Some [Some p1]) Map.empty 0 ''face_'' =
      Inr ([\<lparr>spread = p1, sx = Some 0.5, sy = Some 0.5, sz = Some 0,
              svisibility = 1, stabilized = True\<rparr>], bank1)"
    unfolding stabilizePoints_single id bank1_def f1_def
    by (simp add: getFilter_def Point3DFilter_first) (simp add: p1_def landmark_def orElse_def)
  have uk: "useKalman f1" unfolding f1_def
    by (simp add: Point3DFilter_first_state c_def defaults)
  have kxs: "kalmanX f1 = snd (KalmanFilter1D_update 0.5 0 (KalmanFilter1D_new 0.005 0.05))"
    unfolding f1_def
    by (simp add: Point3DFilter_first_state c_def defaults) (simp add: p1_def landmark_def)
  have lp: "lastPoint f1 \<noteq> None" and oc: "occlusionFrames f1 = 0"
    unfolding f1_def
    by (simp_all add: Point3DFilter_filter_def Let_def split: prod.splits)
  have oc10: "occlusionFrames f1 < 10" using oc by simp
  have pred: "KalmanFilter1D_predict 16.7 (kalmanX f1) = Some 0.5"
    unfolding kxs
    by (simp add: KalmanFilter1D_predict_def KalmanFilter1D_first KalmanFilter1D_new_def
        toNumber_def Let_def)
  have empty: "stabilizePoints c (Some []) bank1 16.7 ''face_'' = Inr ([], bank1)"
    by (simp add: stabilizePoints_def)
  have null: "stabilizePoints c (Some [None]) bank1 16.7 ''face_'' = Inl TypeError"
    by (simp add: stabilizePoints_def)
  have b1: "bank1 (''face_'', Some 0) = Some f1" by (simp add: bank1_def)
  have occ: "\<exists>r f2. Point3DFilter_filter None 16.7 f1 = (Some r, f2) \<and> predicted r \<and>
         fx r = Some 0.5 \<and> fvisibility r = 0.3 \<and> occlusionFrames f2 = 1"
    unfolding Point3DFilter_occluded [OF uk lp oc10] using pred oc by simp
  show ?thesis
    using frame1 b1 lp oc empty null occ unfolding c_def p1_def by blast
qed

section \<open>Densifier: properties\<close>


lemma sequenceE_map_Inr:
  "(\<And>x. x \<in> set xs \<Longrightarrow> f x = Inr (g x)) \<Longrightarrow> sequenceE (map f xs) = Inr (map g xs)"
  by (induction xs) (simp_all add: bindE_def)

lemma sequenceE_Inl:
  "Inl e \<in> set ms \<Longrightarrow> \<exists>e'. sequenceE ms = Inl e'"
proof (induction ms)
  case Nil
  then show ?case by simp
next
  case (Cons m ms)
  then show ?case by (cases m) (auto simp: bindE_def split: sum.splits)
qed


lemma lerp_Some:
  "lerp (Some a) (Some b) t =
     Inr \<lparr>px = px a + (px b - px a) * t,
          py = py a + (py b - py a) * t,
          pz = Some (orElse (pz a) 0 + (orElse (pz b) 0 - orElse (pz a) 0) * t),
          visibility = Some ((orElse (visibility a) 1 + orElse (visibility b) 1) / 2),
          originalIndex = Undefined, region = None, interpolated = Some True,
          surfaceU = None, surfaceV = None, depthLayer = None, handIndex = None\<rparr>"
  by (simp add: lerp_def)



lemma interpolateSegment_Some:
  "interpolateSegment (Some a) (Some b) n =
     Inr (map (\<lambda>i. \<lparr>px = px a + (px b - px a) * (real i / real n),
                      py = py a + (py b - py a) * (real i / real n),
                      pz = Some (orElse (pz a) 0 +
                                 (orElse (pz b) 0 - orElse (pz a) 0) * (real i / real n)),
                      visibility = Some ((orElse (visibility a) 1 + orElse (visibility b) 1) / 2),
                      originalIndex = Undefined, region = None, interpolated = Some True,
                      surfaceU = None, surfaceV = None, depthLayer = None,
                      handIndex = None\<rparr>) [1..<n])"
  unfolding interpolateSegment_def
  by (rule sequenceE_map_Inr) (simp add: lerp_Some)

lemma interpolateSegment_length:
  "\<exists>ps. interpolateSegment (Some a) (Some b) n = Inr ps \<and> length ps = n - 1"
  by (simp add: interpolateSegment_Some)



lemma bindE_Inr:
  "bindE m f = Inr y \<Longrightarrow> \<exists>x. m = Inr x \<and> f x = Inr y"
  by (cases m) (simp_all add: bindE_def)


lemma elemAt_Some: "i < length xs \<Longrightarrow> elemAt xs i = Some (xs ! i)"
  by (simp add: elemAt_def)

lemma elemAt_None: "\<not> i < length xs \<Longrightarrow> elemAt xs i = None"
  by (simp add: elemAt_def)

lemma length_concat_const:
  "(\<And>x. x \<in> set xss \<Longrightarrow> length x = k) \<Longrightarrow> length (concat xss) = length xss * k"
  by (induction xss) simp_all

lemma segments_present:
  assumes "\<forall>x\<in>set segs. fst x < length lms \<and> snd x < length lms"
  shows "\<exists>ps. segments lms segs subs r = Inr ps \<and> length ps = length segs * (subs - 1)"
proof -
  let ?g = "\<lambda>(a, b). map (\<lambda>i. \<lparr>px = px (lms ! a) + (px (lms ! b) - px (lms ! a)) * (real i / real subs),
                      py = py (lms ! a) + (py (lms ! b) - py (lms ! a)) * (real i / real subs),
                      pz = Some (orElse (pz (lms ! a)) 0 +
                                 (orElse (pz (lms ! b)) 0 - orElse (pz (lms ! a)) 0) * (real i / real subs)),
                      visibility = Some ((orElse (visibility (lms ! a)) 1 + orElse (visibility (lms ! b)) 1) / 2),
                      originalIndex = Undefined, region = None, interpolated = Some True,
                      surfaceU = None, surfaceV = None, depthLayer = None,
                      handIndex = None\<rparr>) [1..<subs]"
  have "sequenceE (map (\<lambda>(a, b). interpolateSegment (elemAt lms a) (elemAt lms b) subs) segs)
        = Inr (map ?g segs)"
  proof (rule sequenceE_map_Inr)
    fix x assume x: "x \<in> set segs"
    obtain a b where ab: "x = (a, b)" by (cases x)
    with x assms have "a < length lms" "b < length lms" by auto
    then show "(case x of (a, b) \<Rightarrow> interpolateSegment (elemAt lms a) (elemAt lms b) subs) = Inr (?g x)"
      by (simp add: ab elemAt_Some interpolateSegment_Some)
  qed
  moreover have "length (concat (map ?g segs)) = length (map ?g segs) * (subs - 1)"
    by (rule length_concat_const) auto
  ultimately show ?thesis by (simp add: segments_def bindE_def setRegion_def)
qed





lemma surfacePoint_present:
  "\<exists>p. surfacePoint [Some a, Some b, Some c, Some d] u v = Inr p"
  by (simp add: surfacePoint_def elemAtOpt_def elemAt_def lerp_Some bindE_def)

lemma sequenceE_all_Inr:
  "(\<And>m. m \<in> set ms \<Longrightarrow> \<exists>x. m = Inr x) \<Longrightarrow> \<exists>xs. sequenceE ms = Inr xs \<and> length xs = length ms"
proof (induction ms)
  case Nil
  show ?case by simp
next
  case (Cons m ms)
  then obtain x xs where "m = Inr x" "sequenceE ms = Inr xs" "length xs = length ms"
    by (metis list.set_intros(1) list.set_intros(2))
  then show ?case by (simp add: bindE_def)
qed

lemma interpolateSurface_present:
  assumes "0 < g"
  shows "\<exists>ps. interpolateSurface [Some a, Some b, Some c, Some d] g = Inr ps \<and>
           length ps = Suc g * Suc g"
proof -
  let ?ms = "concat (map (\<lambda>i. map (\<lambda>j. surfacePoint [Some a, Some b, Some c, Some d]
                (real i / real g) (real j / real g)) [0..<Suc g]) [0..<Suc g])"
  have "\<And>m. m \<in> set ?ms \<Longrightarrow> \<exists>x. m = Inr x" using surfacePoint_present by auto
  from sequenceE_all_Inr [OF this] obtain xs where
    "sequenceE ?ms = Inr xs" "length xs = length ?ms" by blast
  moreover have "length ?ms = length (map (\<lambda>i. map (\<lambda>j. surfacePoint [Some a, Some b, Some c, Some d]
                (real i / real g) (real j / real g)) [0..<Suc g]) [0..<Suc g]) * Suc g"
    by (rule length_concat_const) auto
  ultimately show ?thesis using assms by (simp add: interpolateSurface_def)
qed

lemma length_originals: "length (originals r lms) = length lms"
  by (simp add: originals_def)

lemma densifyBody_present:
  assumes "33 \<le> length lms"
  shows "\<exists>g. densifyBody Densifier_new (Some lms) = Inr g \<and> count g = length lms + 83 \<and>
             length (points g) = count g \<and>
             take (length lms) (points g) = originals ''body'' lms"
proof -
  obtain arms where arms:
    "segments lms [(11, 13), (13, 15), (12, 14), (14, 16)] 5 ''arm'' = Inr arms"
    "length arms = 16"
    using segments_present [where segs = "[(11, 13), (13, 15), (12, 14), (14, 16)]"
        and lms = lms and subs = 5 and r = "''arm''"] assms
    by auto
  obtain legs where legs:
    "segments lms [(23, 25), (25, 27), (27, 31), (24, 26), (26, 28), (28, 32)] 5 ''leg'' = Inr legs"
    "length legs = 24"
    using segments_present [where segs = "[(23, 25), (25, 27), (27, 31), (24, 26), (26, 28), (28, 32)]"
        and lms = lms and subs = 5 and r = "''leg''"] assms
    by auto
  have at: "elemAt lms 11 = Some (lms ! 11)" "elemAt lms 12 = Some (lms ! 12)"
    "elemAt lms 23 = Some (lms ! 23)" "elemAt lms 24 = Some (lms ! 24)"
    using assms by (simp_all add: elemAt_def)
  obtain neck where neck: "lerp (elemAt lms 11) (elemAt lms 12) 0.5 = Inr neck"
    by (simp add: at lerp_Some)
  obtain hip where hip: "lerp (elemAt lms 23) (elemAt lms 24) 0.5 = Inr hip"
    by (simp add: at lerp_Some)
  obtain sp where sp: "interpolateSegment (Some neck) (Some hip) 8 = Inr sp" "length sp = 7"
    using interpolateSegment_length [of neck hip 8] by auto
  obtain grid where grid:
    "interpolateSurface [elemAt lms 11, elemAt lms 12, elemAt lms 24, elemAt lms 23] 5 = Inr grid"
    "length grid = 36"
    using interpolateSurface_present [of 5 "lms ! 11" "lms ! 12" "lms ! 24" "lms ! 23"]
    by (auto simp: at)
  show ?thesis
    using arms legs neck hip sp grid
    by (simp add: densifyBody_def Densifier_new_def defineBodyConnections_def Let_def
        bindE_def setRegion_def length_originals)
qed











lemma createDepthLayers_missing:
  assumes "x \<in> set indices" "\<not> x < length lms"
  shows "\<exists>e. createDepthLayers lms indices n = Inl e"
proof -
  have "Inl TypeError \<in> set (map (\<lambda>idx. case elemAt lms idx of
                                     None \<Rightarrow> Inl TypeError | Some p \<Rightarrow> Inr p) indices)"
    using assms by (force simp: elemAt_def)
  from sequenceE_Inl [OF this] show ?thesis
    by (auto simp: createDepthLayers_def computeCentroid_def bindE_def)
qed









lemma fingers_present:
  assumes "21 \<le> length hl"
  shows "\<exists>gs. sequenceE (map (\<lambda>(a, b). interpolateSegment (elemAt hl a) (elemAt hl b) 3)
                          fingerConnections) = Inr gs \<and> length (concat gs) = 40"
proof -
  have len: "length fingerConnections = 20" by (simp add: fingerConnections_def)
  have "\<exists>ps. segments hl fingerConnections 3 [] = Inr ps \<and>
           length ps = length fingerConnections * (3 - 1)"
    by (rule segments_present) (use assms in \<open>auto simp: fingerConnections_def\<close>)
  then obtain ps where ps: "segments hl fingerConnections 3 [] = Inr ps" "length ps = 40"
    using len by auto
  from bindE_Inr [OF ps(1) [unfolded segments_def]] ps(2) show ?thesis
    by (auto simp: setRegion_def)
qed












text \<open>
  C3, as stated, fails: with endpoint visibilities \<open>0\<close> and \<open>0.5\<close> the interpolated
  point has visibility \<open>0.75\<close>, not their average \<open>0.25\<close>, since \<^verbatim>\<open>lerp\<close> reads a
  visibility of zero as \<open>1\<close>.
\<close>

theorem segment_visibility_counterexample:
  "\<exists>pt. interpolateSegment (Some (landmark 0 0 (Some 0) (Some 0)))
           (Some (landmark 1 1 (Some 0) (Some 0.5))) 2 = Inr [pt] \<and>
        visibility pt = Some 0.75 \<and>
        visibility pt \<noteq> Some ((0 + 0.5) / 2)"
  by (simp add: interpolateSegment_Some landmark_def orElse_def upt_conv_Cons)

text \<open>
  C3, amended. For two present endpoints and a subdivision count \<open>n\<close>,
  \<^verbatim>\<open>interpolateSegment\<close> returns \<open>n - 1\<close> points; the \<open>i\<close>-th, for \<open>i\<close> from \<open>1\<close> to
  \<open>n - 1\<close>, lies at \<open>t = i / n\<close>: its \<open>x\<close> and \<open>y\<close> are \<open>p1 + (p2 - p1) * t\<close>, its
  \<open>z\<close> is that blend of the endpoints' \<open>z\<close> with a missing \<open>z\<close> read as \<open>0\<close>, its
  visibility is the average of the endpoints' visibilities with a missing or zero
  visibility read as \<open>1\<close>, and it carries \<^verbatim>\<open>interpolated = true\<close>.
\<close>

theorem segment_interpolation:
  "\<exists>pts. interpolateSegment (Some p1) (Some p2) n = Inr pts \<and>
     length pts = n - 1 \<and>
     (\<forall>i. 1 \<le> i \<and> i < n \<longrightarrow>
        px (pts ! (i - 1)) = px p1 + (px p2 - px p1) * (real i / real n) \<and>
        py (pts ! (i - 1)) = py p1 + (py p2 - py p1) * (real i / real n) \<and>
        pz (pts ! (i - 1)) =
          Some (orElse (pz p1) 0 + (orElse (pz p2) 0 - orElse (pz p1) 0) * (real i / real n)) \<and>
        visibility (pts ! (i - 1)) =
          Some ((orElse (visibility p1) 1 + orElse (visibility p2) 1) / 2) \<and>
        interpolated (pts ! (i - 1)) = Some True)"
proof -
  let ?f = "\<lambda>i. \<lparr>px = px p1 + (px p2 - px p1) * (real i / real n),
                 py = py p1 + (py p2 - py p1) * (real i / real n),
                 pz = Some (orElse (pz p1) 0 +
                            (orElse (pz p2) 0 - orElse (pz p1) 0) * (real i / real n)),
                 visibility = Some ((orElse (visibility p1) 1 + orElse (visibility p2) 1) / 2),
                 originalIndex = Undefined, region = None, interpolated = Some True,
                 surfaceU = None, surfaceV = None, depthLayer = None,
                 handIndex = None\<rparr>"
  have run: "interpolateSegment (Some p1) (Some p2) n = Inr (map ?f [1..<n])"
    by (rule interpolateSegment_Some)
  have pt: "map ?f [1..<n] ! (i - 1) = ?f i" if "1 \<le> i \<and> i < n" for i
  proof -
    from that have "i - 1 < length [1..<n]" by auto
    then have "map ?f [1..<n] ! (i - 1) = ?f ([1..<n] ! (i - 1))" by (rule nth_map)
    moreover from that have "[1..<n] ! (i - 1) = i" by (simp add: nth_upt)
    ultimately show ?thesis by simp
  qed
  have "length (map ?f [1..<n]) = n - 1" by simp
  with run pt show ?thesis by auto
qed

theorem segment_interpolation_witness:
  "\<exists>pts. interpolateSegment (Some (landmark 0 0 (Some 0) (Some 0.5)))
            (Some (landmark 1 2 (Some 4) None)) 4 = Inr pts \<and>
     length pts = 3 \<and>
     px (pts ! 1) = 0.5 \<and> py (pts ! 1) = 1 \<and> pz (pts ! 1) = Some 2 \<and>
     visibility (pts ! 1) = Some 0.75 \<and> interpolated (pts ! 1) = Some True"
proof -
  from segment_interpolation [of "landmark 0 0 (Some 0) (Some 0.5)" "landmark 1 2 (Some 4) None" 4]
  obtain pts where
    run: "interpolateSegment (Some (landmark 0 0 (Some 0) (Some 0.5)))
            (Some (landmark 1 2 (Some 4) None)) 4 = Inr pts"
    and len: "length pts = 4 - 1"
    and all: "\<forall>i. 1 \<le> i \<and> i < 4 \<longrightarrow>
        px (pts ! (i - 1)) = px (landmark 0 0 (Some 0) (Some 0.5)) +
          (px (landmark 1 2 (Some 4) None) - px (landmark 0 0 (Some 0) (Some 0.5))) * (real i / real 4) \<and>
        py (pts ! (i - 1)) = py (landmark 0 0 (Some 0) (Some 0.5)) +
          (py (landmark 1 2 (Some 4) None) - py (landmark 0 0 (Some 0) (Some 0.5))) * (real i / real 4) \<and>
        pz (pts ! (i - 1)) =
          Some (orElse (pz (landmark 0 0 (Some 0) (Some 0.5))) 0 +
                (orElse (pz (landmark 1 2 (Some 4) None)) 0 -
                 orElse (pz (landmark 0 0 (Some 0) (Some 0.5))) 0) * (real i / real 4)) \<and>
        visibility (pts ! (i - 1)) =
          Some ((orElse (visibility (landmark 0 0 (Some 0) (Some 0.5))) 1 +
                 orElse (visibility (landmark 1 2 (Some 4) None)) 1) / 2) \<and>
        interpolated (pts ! (i - 1)) = Some True"
    by blast
  from all [rule_format, of 2] have
    "px (pts ! 1) = 0.5 \<and> py (pts ! 1) = 1 \<and> pz (pts ! 1) = Some 2 \<and>
     visibility (pts ! 1) = Some 0.75 \<and> interpolated (pts ! 1) = Some True"
    by (simp add: landmark_def orElse_def)
  with run len show ?thesis by simp
qed




text \<open>
  C8. An absent group is no error: \<^verbatim>\<open>densifyFace\<close>, \<^verbatim>\<open>densifyBody\<close> and
  \<^verbatim>\<open>densifyHands\<close> map an absent input (for the hands also an input without
  landmarks) to \<^verbatim>\<open>{ points: [], count: 0 }\<close>, and \<^verbatim>\<open>densify\<close> on a frame with no
  group returns the frame of three empty groups with a total of zero. In every frame
  \<^verbatim>\<open>densify\<close> returns, the group of an absent input is that empty group.
\<close>

theorem absent_groups_empty:
  "densifyFace d None = Inr \<lparr>points = [], count = 0\<rparr> \<and>
   densifyBody d None = Inr \<lparr>points = [], count = 0\<rparr> \<and>
   densifyHands d None = Inr \<lparr>points = [], count = 0\<rparr> \<and>
   densifyHands d (Some \<lparr>landmarks = None, handedness = h\<rparr>) = Inr \<lparr>points = [], count = 0\<rparr> \<and>
   densify d (Some \<lparr>face = None, pose = None, hands = None, timestamp = t, fps = r\<rparr>) =
     Inr (Some \<lparr>denseFace = \<lparr>points = [], count = 0\<rparr>,
                denseBody = \<lparr>points = [], count = 0\<rparr>,
                denseHands = \<lparr>points = [], count = 0\<rparr>,
                denseBlendshapes = [], denseTimestamp = t, denseFps = r, totalPoints = 0\<rparr>) \<and>
   (\<forall>frame. densify d (Some tr) = Inr (Some frame) \<longrightarrow>
      (face tr = None \<longrightarrow> denseFace frame = \<lparr>points = [], count = 0\<rparr>) \<and>
      (pose tr = None \<longrightarrow> denseBody frame = \<lparr>points = [], count = 0\<rparr>) \<and>
      (hands tr = None \<longrightarrow> denseHands frame = \<lparr>points = [], count = 0\<rparr>))"
proof -
  have "(face tr = None \<longrightarrow> denseFace frame = \<lparr>points = [], count = 0\<rparr>) \<and>
      (pose tr = None \<longrightarrow> denseBody frame = \<lparr>points = [], count = 0\<rparr>) \<and>
      (hands tr = None \<longrightarrow> denseHands frame = \<lparr>points = [], count = 0\<rparr>)"
    if run: "densify d (Some tr) = Inr (Some frame)" for frame
  proof -
    from run obtain f b hs where
      f: "densifyFace d (case face tr of None \<Rightarrow> None | Some f \<Rightarrow> faceLandmarks f) = Inr f"
      and b: "densifyBody d (case pose tr of None \<Rightarrow> None | Some p \<Rightarrow> poseLandmarks p) = Inr b"
      and hs: "densifyHands d (hands tr) = Inr hs"
      and fr: "denseFace frame = f" "denseBody frame = b" "denseHands frame = hs"
      by (auto simp: densify_def dest!: bindE_Inr)
    show ?thesis
      using f b hs fr
      by (auto simp: densifyFace_def densifyBody_def densifyHands_def)
  qed
  then have gen: "\<forall>frame. densify d (Some tr) = Inr (Some frame) \<longrightarrow>
      (face tr = None \<longrightarrow> denseFace frame = \<lparr>points = [], count = 0\<rparr>) \<and>
      (pose tr = None \<longrightarrow> denseBody frame = \<lparr>points = [], count = 0\<rparr>) \<and>
      (hands tr = None \<longrightarrow> denseHands frame = \<lparr>points = [], count = 0\<rparr>)"
    by blast
  have base: "densifyFace d None = Inr \<lparr>points = [], count = 0\<rparr>"
    "densifyBody d None = Inr \<lparr>points = [], count = 0\<rparr>"
    "densifyHands d None = Inr \<lparr>points = [], count = 0\<rparr>"
    "densifyHands d (Some \<lparr>landmarks = None, handedness = h\<rparr>) = Inr \<lparr>points = [], count = 0\<rparr>"
    by (simp_all add: densifyFace_def densifyBody_def densifyHands_def)
  have all: "densify d (Some \<lparr>face = None, pose = None, hands = None, timestamp = t, fps = r\<rparr>) =
     Inr (Some \<lparr>denseFace = \<lparr>points = [], count = 0\<rparr>,
                denseBody = \<lparr>points = [], count = 0\<rparr>,
                denseHands = \<lparr>points = [], count = 0\<rparr>,
                denseBlendshapes = [], denseTimestamp = t, denseFps = r, totalPoints = 0\<rparr>)"
    by (simp add: densify_def base bindE_def)
  from base all gen show ?thesis by (intro conjI)
qed

theorem absent_groups_empty_witness:
  "\<exists>frame.
     densify Densifier_new
       (Some \<lparr>face = None,
              pose = Some \<lparr>poseLandmarks =
                             Some (replicate 33 (landmark 0.5 0.5 (Some 0) (Some 1)))\<rparr>,
              hands = None, timestamp = Some 0, fps = Some 60\<rparr>) = Inr (Some frame) \<and>
     denseFace frame = \<lparr>points = [], count = 0\<rparr> \<and>
     denseHands frame = \<lparr>points = [], count = 0\<rparr> \<and>
     count (denseBody frame) = 116"
proof -
  obtain g where g:
    "densifyBody Densifier_new (Some (replicate 33 (landmark 0.5 0.5 (Some 0) (Some 1)))) = Inr g"
    "count g = 116"
    using densifyBody_present [of "replicate 33 (landmark 0.5 0.5 (Some 0) (Some 1))"] by auto
  define tr where
    "tr = \<lparr>face = None,
            pose = Some \<lparr>poseLandmarks =
                           Some (replicate 33 (landmark 0.5 0.5 (Some 0) (Some 1)))\<rparr>,
            hands = None, timestamp = Some 0, fps = Some (60::real)\<rparr>"
  obtain frame where run: "densify Densifier_new (Some tr) = Inr (Some frame)"
    and body: "denseBody frame = g"
    using g(1) by (simp add: densify_def tr_def densifyFace_def densifyHands_def bindE_def)
  from absent_groups_empty [of Densifier_new _ _ _ tr] run
  have "denseFace frame = \<lparr>points = [], count = 0\<rparr>"
    "denseHands frame = \<lparr>points = [], count = 0\<rparr>"
    by (simp_all add: tr_def)
  with run body g(2) show ?thesis unfolding tr_def by auto
qed

lemma densifyBody_count: "densifyBody d lms = Inr g \<Longrightarrow> count g = length (points g)"
  by (auto simp: densifyBody_def Let_def split: option.splits dest!: bindE_Inr)

lemma densifyFace_count: "densifyFace d lms = Inr g \<Longrightarrow> count g = length (points g)"
  by (auto simp: densifyFace_def Let_def split: option.splits dest!: bindE_Inr)

lemma densifyHands_count: "densifyHands d hs = Inr g \<Longrightarrow> count g = length (points g)"
  by (auto simp: densifyHands_def Let_def split: option.splits dest!: bindE_Inr)

section \<open>Densifier and Stabilizer: a frame with two hands\<close>

text \<open>A later observation of the low-pass stage: a blend of the raw value and the last output.\<close>

lemma OneEuroFilter_later:
  assumes "tPrev f = Some tp" "xPrev f = Some xp" "0 < minCutoff f" "0 \<le> beta f"
  shows "\<exists>a. 0 < a \<and> a < 1 \<and> alpha (minCutoff f) (timeDelta t (Some tp)) \<le> a \<and>
           fst (OneEuroFilter_filter v t f) = lowPass v xp a \<and>
           xPrev (snd (OneEuroFilter_filter v t f)) = Some (lowPass v xp a) \<and>
           tPrev (snd (OneEuroFilter_filter v t f)) = Some t \<and>
           minCutoff (snd (OneEuroFilter_filter v t f)) = minCutoff f \<and>
           beta (snd (OneEuroFilter_filter v t f)) = beta f"
proof -
  define dt where "dt = timeDelta t (Some tp)"
  define cutoff where
    "cutoff = minCutoff f + beta f * \<bar>lowPass ((v - xp) / dt) (toNumber (dxPrev f)) (alpha (dCutoff f) dt)\<bar>"
  have dt: "0 < dt" using timeDelta_floor [of t "Some tp"] by (simp add: dt_def)
  have "0 \<le> beta f * \<bar>lowPass ((v - xp) / dt) (toNumber (dxPrev f)) (alpha (dCutoff f) dt)\<bar>"
    using assms(4) by simp
  then have ge: "minCutoff f \<le> cutoff" by (simp add: cutoff_def)
  then have cutoff: "0 < cutoff" using assms(3) by simp
  have mono: "alpha (minCutoff f) dt \<le> alpha cutoff dt"
  proof -
    define q1 where "q1 = 1 / (2 * pi * cutoff) / dt"
    define q2 where "q2 = 1 / (2 * pi * minCutoff f) / dt"
    have "1 / (2 * pi * cutoff) \<le> 1 / (2 * pi * minCutoff f)"
      using ge assms(3) by (intro divide_left_mono) (auto intro!: mult_pos_pos)
    then have le: "q1 \<le> q2"
      unfolding q1_def q2_def using dt by (intro divide_right_mono) auto
    have "0 < 1 / (2 * pi * cutoff)" using cutoff by simp
    then have q1: "0 < q1" unfolding q1_def using dt by (rule divide_pos_pos)
    then have q2: "0 < q2" using le by simp
    have "0 < (1 + q2) * (1 + q1)" using q1 q2 by (intro mult_pos_pos) auto
    then have "1 / (1 + q2) \<le> 1 / (1 + q1)"
      using le by (intro divide_left_mono) auto
    then show ?thesis by (simp add: alpha_def Let_def q1_def q2_def)
  qed
  have out: "OneEuroFilter_filter v t f =
     (lowPass v xp (alpha cutoff dt),
      f\<lparr>tPrev := Some t,
        dxPrev := Some (lowPass ((v - xp) / dt) (toNumber (dxPrev f)) (alpha (dCutoff f) dt)),
        xPrev := Some (lowPass v xp (alpha cutoff dt))\<rparr>)"
    using assms(1,2)
    by (simp add: OneEuroFilter_filter_def Let_def toNumber_def dt_def cutoff_def)
  from alpha_unit [OF cutoff dt] mono show ?thesis
    unfolding out by (intro exI [of _ "alpha cutoff dt"]) (simp add: dt_def)
qed

lemma alpha_floor: "1 / 314 \<le> alpha 0.8 0.001"
proof -
  have "2 \<le> pi" by (rule pi_ge_two)
  then have "3.2 \<le> 2 * pi * 0.8" by simp
  then have "1 / (2 * pi * 0.8) \<le> 1 / 3.2" by (intro divide_left_mono) auto
  then have "1 / (2 * pi * 0.8) / 0.001 \<le> 313" by simp
  then have "1 + 1 / (2 * pi * 0.8) / 0.001 \<le> 314" by simp
  moreover have "0 < 1 + 1 / (2 * pi * 0.8) / 0.001" by (intro add_pos_pos) auto
  ultimately have "1 / 314 \<le> 1 / (1 + 1 / (2 * pi * 0.8) / 0.001)"
    by (intro divide_left_mono) auto
  then show ?thesis by (simp add: alpha_def Let_def)
qed

lemma stabilizeFrom_append:
  "stabilizeFrom c prefix t n (xs @ ys) bank =
     (case stabilizeFrom c prefix t n xs bank of
        Inl e \<Rightarrow> Inl e
      | Inr (o1, b1) \<Rightarrow>
          (case stabilizeFrom c prefix t (n + length xs) ys b1 of
             Inl e \<Rightarrow> Inl e
           | Inr (o2, b2) \<Rightarrow> Inr (o1 @ o2, b2)))"
proof (induction xs arbitrary: n bank)
  case Nil
  show ?case by (simp split: sum.splits)
next
  case (Cons a xs)
  show ?case
  proof (cases a)
    case None
    then show ?thesis by simp
  next
    case (Some p)
    obtain r f' where flt:
      "Point3DFilter_filter (Some p) t (fst (getFilter c bank (pointId prefix n p))) = (Some r, f')"
      using Point3DFilter_present by blast
    define bank2 where
      "bank2 = (snd (getFilter c bank (pointId prefix n p)))(pointId prefix n p \<mapsto> f')"
    have l: "stabilizeFrom c prefix t n ((a # xs) @ ys) bank =
        (case stabilizeFrom c prefix t (Suc n) (xs @ ys) bank2 of
           Inl e \<Rightarrow> Inl e
         | Inr (out, bank3) \<Rightarrow>
             Inr (\<lparr>spread = p, sx = fx r, sy = fy r, sz = fz r,
                    svisibility = fvisibility r, stabilized = True\<rparr> # out, bank3))"
      unfolding Some append_Cons stabilizeFrom_Some flt bank2_def
      by (simp split: sum.splits del: stabilizeFrom.simps)
    have r: "stabilizeFrom c prefix t n (a # xs) bank =
        (case stabilizeFrom c prefix t (Suc n) xs bank2 of
           Inl e \<Rightarrow> Inl e
         | Inr (out, bank3) \<Rightarrow>
             Inr (\<lparr>spread = p, sx = fx r, sy = fy r, sz = fz r,
                    svisibility = fvisibility r, stabilized = True\<rparr> # out, bank3))"
      unfolding Some stabilizeFrom_Some flt bank2_def
      by (simp split: sum.splits del: stabilizeFrom.simps)
    show ?thesis
      unfolding l r Cons.IH
      by (simp split: sum.splits prod.splits)
  qed
qed

lemma stabilizeFrom_bank_other:
  "stabilizeFrom c prefix t n ps bank = Inr (out, bank') \<Longrightarrow>
   (\<forall>l<length ps. \<forall>q. ps ! l = Some q \<longrightarrow> pointId prefix (n + l) q \<noteq> k) \<Longrightarrow>
   bank' k = bank k"
proof (induction ps arbitrary: n bank out)
  case Nil
  then show ?case by simp
next
  case (Cons a ps)
  show ?case
  proof (cases a)
    case None
    with Cons.prems show ?thesis by simp
  next
    case (Some q)
    obtain r f' where flt:
      "Point3DFilter_filter (Some q) t (fst (getFilter c bank (pointId prefix n q))) = (Some r, f')"
      using Point3DFilter_present by blast
    from Cons.prems(1) Some flt obtain out1 where
      rest: "stabilizeFrom c prefix t (Suc n) ps
               ((snd (getFilter c bank (pointId prefix n q)))(pointId prefix n q \<mapsto> f'))
             = Inr (out1, bank')"
      by (auto simp: stabilizeFrom_Some simp del: stabilizeFrom.simps split: sum.splits)
    have ne0: "pointId prefix n q \<noteq> k"
      using Cons.prems(2) Some by (metis add.right_neutral length_greater_0_conv list.discI nth_Cons_0)
    have later: "\<forall>l<length ps. \<forall>q'. ps ! l = Some q' \<longrightarrow> pointId prefix (Suc n + l) q' \<noteq> k"
    proof (intro allI impI)
      fix l q' assume "l < length ps" "ps ! l = Some q'"
      then have "Suc l < length (a # ps)" "(a # ps) ! Suc l = Some q'" by simp_all
      with Cons.prems(2) have "pointId prefix (n + Suc l) q' \<noteq> k" by blast
      then show "pointId prefix (Suc n + l) q' \<noteq> k" by simp
    qed
    from Cons.IH [OF rest later] ne0 show ?thesis
      by (simp add: getFilter_snd_other)
  qed
qed

lemma stabilizeFrom_bank_once:
  "stabilizeFrom c prefix t n ps bank = Inr (out, bank') \<Longrightarrow> i < length ps \<Longrightarrow>
   ps ! i = Some p \<Longrightarrow> pointId prefix (n + i) p = k \<Longrightarrow>
   (\<forall>l<length ps. l \<noteq> i \<longrightarrow> (\<forall>q. ps ! l = Some q \<longrightarrow> pointId prefix (n + l) q \<noteq> k)) \<Longrightarrow>
   bank' k = Some (snd (Point3DFilter_filter (Some p) t
                          (case bank k of None \<Rightarrow> Point3DFilter_new c | Some f \<Rightarrow> f)))"
proof (induction ps arbitrary: n bank out i)
  case Nil
  then show ?case by simp
next
  case (Cons a ps)
  show ?case
  proof (cases a)
    case None
    with Cons.prems show ?thesis by simp
  next
    case (Some q)
    obtain r f' where flt:
      "Point3DFilter_filter (Some q) t (fst (getFilter c bank (pointId prefix n q))) = (Some r, f')"
      using Point3DFilter_present by blast
    from Cons.prems(1) Some flt obtain out1 where
      rest: "stabilizeFrom c prefix t (Suc n) ps
               ((snd (getFilter c bank (pointId prefix n q)))(pointId prefix n q \<mapsto> f'))
             = Inr (out1, bank')"
      by (auto simp: stabilizeFrom_Some simp del: stabilizeFrom.simps split: sum.splits)
    show ?thesis
    proof (cases i)
      case 0
      with Cons.prems Some have qp: "q = p" and key: "pointId prefix n q = k" by simp_all
      have later: "\<forall>l<length ps. \<forall>q'. ps ! l = Some q' \<longrightarrow> pointId prefix (Suc n + l) q' \<noteq> k"
      proof (intro allI impI)
        fix l q' assume "l < length ps" "ps ! l = Some q'"
        then have "Suc l < length (a # ps)" "Suc l \<noteq> i" "(a # ps) ! Suc l = Some q'"
          using 0 by simp_all
        with Cons.prems(5) have "pointId prefix (n + Suc l) q' \<noteq> k" by blast
        then show "pointId prefix (Suc n + l) q' \<noteq> k" by simp
      qed
      from stabilizeFrom_bank_other [OF rest later] flt key qp show ?thesis
        by (simp add: getFilter_fst)
    next
      case (Suc i')
      with Cons.prems have i': "i' < length ps" and at: "ps ! i' = Some p"
        and key: "pointId prefix (Suc n + i') p = k" by simp_all
      have ne0: "pointId prefix n q \<noteq> k"
      proof -
        have "0 < length (a # ps)" "0 \<noteq> i" "(a # ps) ! 0 = Some q" using Suc Some by simp_all
        with Cons.prems(5) have "pointId prefix (n + 0) q \<noteq> k" by blast
        then show ?thesis by simp
      qed
      have others: "\<forall>l<length ps. l \<noteq> i' \<longrightarrow>
          (\<forall>q'. ps ! l = Some q' \<longrightarrow> pointId prefix (Suc n + l) q' \<noteq> k)"
      proof (intro allI impI)
        fix l q' assume "l < length ps" "l \<noteq> i'" "ps ! l = Some q'"
        then have "Suc l < length (a # ps)" "Suc l \<noteq> i" "(a # ps) ! Suc l = Some q'"
          using Suc by simp_all
        with Cons.prems(5) have "pointId prefix (n + Suc l) q' \<noteq> k" by blast
        then show "pointId prefix (Suc n + l) q' \<noteq> k" by simp
      qed
      from Cons.IH [OF rest i' at key others] ne0 show ?thesis
        by (simp add: getFilter_snd_other)
    qed
  qed
qed

lemma stabilizeFrom_twice:
  assumes run: "stabilizeFrom c prefix t n ps bank = Inr (out, bank')"
    and ji: "j < i" and i: "i < length ps"
    and atj: "ps ! j = Some q" and ati: "ps ! i = Some p"
    and keyj: "pointId prefix (n + j) q = k" and keyi: "pointId prefix (n + i) p = k"
    and others: "\<forall>l<length ps. l \<noteq> j \<and> l \<noteq> i \<longrightarrow>
                   (\<forall>q'. ps ! l = Some q' \<longrightarrow> pointId prefix (n + l) q' \<noteq> k)"
  shows "\<exists>r f2. Point3DFilter_filter (Some p) t
                  (snd (Point3DFilter_filter (Some q) t
                          (case bank k of None \<Rightarrow> Point3DFilter_new c | Some f \<Rightarrow> f))) =
                  (Some r, f2) \<and>
               out ! i = \<lparr>spread = p, sx = fx r, sy = fy r, sz = fz r,
                           svisibility = fvisibility r, stabilized = True\<rparr> \<and>
               bank' k = Some f2"
proof -
  have len: "length (take i ps) = i" using i by simp
  have "stabilizeFrom c prefix t n (take i ps @ drop i ps) bank = Inr (out, bank')"
    using run by simp
  then obtain o1 b1 o2 where
    r1: "stabilizeFrom c prefix t n (take i ps) bank = Inr (o1, b1)"
    and r2: "stabilizeFrom c prefix t (n + i) (drop i ps) b1 = Inr (o2, bank')"
    and out: "out = o1 @ o2"
    unfolding stabilizeFrom_append len by (auto split: sum.splits prod.splits)
  have o1: "length o1 = i" using stabilizeFrom_length [OF r1] len by simp
  have b1: "b1 k = Some (snd (Point3DFilter_filter (Some q) t
                          (case bank k of None \<Rightarrow> Point3DFilter_new c | Some f \<Rightarrow> f)))"
  proof (rule stabilizeFrom_bank_once [OF r1 _ _ keyj])
    show "j < length (take i ps)" using ji len by simp
    show "take i ps ! j = Some q" using ji atj by simp
    show "\<forall>l<length (take i ps). l \<noteq> j \<longrightarrow>
            (\<forall>q'. take i ps ! l = Some q' \<longrightarrow> pointId prefix (n + l) q' \<noteq> k)"
      using others i by auto
  qed
  have d0: "drop i ps ! 0 = Some p" using i ati by simp
  have dl: "0 < length (drop i ps)" using i by simp
  have key0: "pointId prefix (n + i + 0) p = k" using keyi by simp
  have first: "\<forall>j<0. \<forall>q. drop i ps ! j = Some q \<longrightarrow>
      pointId prefix (n + i + j) q \<noteq> pointId prefix (n + i + 0) p" by simp
  from stabilizeFrom_nth [OF r2 dl d0 first] obtain r f2 where
    flt: "Point3DFilter_filter (Some p) t
            (case b1 (pointId prefix (n + i + 0) p) of
               None \<Rightarrow> Point3DFilter_new c | Some f \<Rightarrow> f) = (Some r, f2)"
    and o2: "o2 ! 0 = \<lparr>spread = p, sx = fx r, sy = fy r, sz = fz r,
                        svisibility = fvisibility r, stabilized = True\<rparr>"
    by blast
  have rest: "\<forall>l<length (drop i ps). l \<noteq> 0 \<longrightarrow>
      (\<forall>q'. drop i ps ! l = Some q' \<longrightarrow> pointId prefix (n + i + l) q' \<noteq> k)"
  proof (intro allI impI)
    fix l q' assume l: "l < length (drop i ps)" "l \<noteq> 0" "drop i ps ! l = Some q'"
    then have "i + l < length ps" "i + l \<noteq> j \<and> i + l \<noteq> i" "ps ! (i + l) = Some q'"
      using ji i by auto
    with others have "pointId prefix (n + (i + l)) q' \<noteq> k" by blast
    then show "pointId prefix (n + i + l) q' \<noteq> k" by (simp add: add.assoc)
  qed
  have bk: "bank' k = Some (snd (Point3DFilter_filter (Some p) t
                          (case b1 k of None \<Rightarrow> Point3DFilter_new c | Some f \<Rightarrow> f)))"
    by (rule stabilizeFrom_bank_once [OF r2 dl d0 key0 rest])
  have "out ! i = o2 ! 0" using out o1 by (simp add: nth_append)
  with flt o2 bk b1 key0 show ?thesis by simp
qed

text \<open>The filter of a point after a call with a point present.\<close>

lemma Point3DFilter_state:
  shows "useKalman (snd (Point3DFilter_filter (Some p) t f)) = useKalman f"
    and "euroX (snd (Point3DFilter_filter (Some p) t f)) =
           snd (OneEuroFilter_filter (px p) t (euroX f))"
    and "useKalman f \<Longrightarrow> kalmanX (snd (Point3DFilter_filter (Some p) t f)) =
           snd (KalmanFilter1D_update (fst (OneEuroFilter_filter (px p) t (euroX f))) t (kalmanX f))"
  by (simp_all add: Point3DFilter_filter_def Let_def split: prod.splits)

lemma sequenceE_Inr_map: "sequenceE ms = Inr xs \<Longrightarrow> ms = map Inr xs"
proof (induction ms arbitrary: xs)
  case Nil
  then show ?case by simp
next
  case (Cons m ms)
  then show ?case by (cases m) (auto simp: bindE_def split: sum.splits)
qed

lemma interpolateSegment_untagged:
  assumes "interpolateSegment p1 p2 n = Inr ps"
  shows "\<forall>p\<in>set ps. originalIndex p = Undefined"
proof
  fix p assume "p \<in> set ps"
  moreover from sequenceE_Inr_map [OF assms [unfolded interpolateSegment_def]]
  have "map (\<lambda>i. lerp p1 p2 (real i / real n)) [1..<n] = map Inr ps" .
  ultimately have "Inr p \<in> set (map (\<lambda>i. lerp p1 p2 (real i / real n)) [1..<n])" by simp
  then obtain i where "lerp p1 p2 (real i / real n) = Inr p" by auto
  then show "originalIndex p = Undefined"
    by (auto simp: lerp_def split: option.splits)
qed

lemma densifyHand_shape:
  assumes "21 \<le> length hl"
  shows "\<exists>interp. densifyHand h i hl =
           Inr (map (\<lambda>(idx, lm). lm\<lparr>originalIndex := Index idx,
                                      region := Some (''hand_'' @ handednessName h i),
                                      handIndex := Some i, interpolated := Some False\<rparr>)
                    (zip [0..<length hl] hl) @ interp) \<and>
           length interp = 40 \<and> (\<forall>p\<in>set interp. originalIndex p = Undefined)"
proof -
  obtain gs where gs: "sequenceE (map (\<lambda>(a, b). interpolateSegment (elemAt hl a) (elemAt hl b) 3)
                          fingerConnections) = Inr gs" "length (concat gs) = 40"
    using fingers_present [OF assms] by blast
  have "\<forall>p\<in>set (concat gs). originalIndex p = Undefined"
  proof
    fix p assume "p \<in> set (concat gs)"
    then obtain g where g: "g \<in> set gs" "p \<in> set g" by auto
    from sequenceE_Inr_map [OF gs(1)] g(1)
    have "Inr g \<in> set (map (\<lambda>(a, b). interpolateSegment (elemAt hl a) (elemAt hl b) 3)
                          fingerConnections)" by simp
    then obtain a b where "interpolateSegment (elemAt hl a) (elemAt hl b) 3 = Inr g" by auto
    from interpolateSegment_untagged [OF this] g(2) show "originalIndex p = Undefined" by blast
  qed
  then show ?thesis
    using gs by (simp add: densifyHand_def Let_def bindE_def)
qed

lemma twoHands_frame:
  assumes "length ha = 21" "length hb = 21"
  shows "\<exists>ia ib. densifyHands d (Some \<lparr>landmarks = Some [ha, hb], handedness = hn\<rparr>) =
           Inr \<lparr>points =
                  map (\<lambda>(idx, lm). lm\<lparr>originalIndex := Index idx,
                                        region := Some (''hand_'' @ handednessName hn 0),
                                        handIndex := Some 0, interpolated := Some False\<rparr>)
                      (zip [0..<21] ha) @ ia @
                  map (\<lambda>(idx, lm). lm\<lparr>originalIndex := Index idx,
                                        region := Some (''hand_'' @ handednessName hn 1),
                                        handIndex := Some 1, interpolated := Some False\<rparr>)
                      (zip [0..<21] hb) @ ib,
                count = 122\<rparr> \<and>
           length ia = 40 \<and> length ib = 40 \<and>
           (\<forall>p\<in>set ia. originalIndex p = Undefined) \<and>
           (\<forall>p\<in>set ib. originalIndex p = Undefined)"
proof -
  obtain ia where ia: "densifyHand hn 0 ha =
           Inr (map (\<lambda>(idx, lm). lm\<lparr>originalIndex := Index idx,
                                      region := Some (''hand_'' @ handednessName hn 0),
                                      handIndex := Some 0, interpolated := Some False\<rparr>)
                    (zip [0..<21] ha) @ ia)"
    "length ia = 40" "\<forall>p\<in>set ia. originalIndex p = Undefined"
    using densifyHand_shape [of ha hn 0] assms(1) by auto
  obtain ib where ib: "densifyHand hn 1 hb =
           Inr (map (\<lambda>(idx, lm). lm\<lparr>originalIndex := Index idx,
                                      region := Some (''hand_'' @ handednessName hn 1),
                                      handIndex := Some 1, interpolated := Some False\<rparr>)
                    (zip [0..<21] hb) @ ib)"
    "length ib = 40" "\<forall>p\<in>set ib. originalIndex p = Undefined"
    using densifyHand_shape [of hb hn 1] assms(2) by auto
  have z: "zip [0..<length [ha, hb]] [ha, hb] = [(0, ha), (1, hb)]"
    by (simp add: upt_conv_Cons)
  show ?thesis
    unfolding densifyHands_def
    using ia ib assms
    by (intro exI [of _ ia] exI [of _ ib]) (simp add: z bindE_def Let_def)
qed

lemma frame_ids:
  assumes len: "length oa = 21" "length ia = 40" "length ob = 21" "length ib = 40"
    and oa: "\<forall>l<21. originalIndex (oa ! l) = Index l"
    and ob: "\<forall>l<21. originalIndex (ob ! l) = Index l"
    and ia: "\<forall>p\<in>set ia. originalIndex p = Undefined"
    and ib: "\<forall>p\<in>set ib. originalIndex p = Undefined"
    and l: "l < 122"
  shows "pointId prefix l ((oa @ ia @ ob @ ib) ! l) =
           (prefix, Some (if 61 \<le> l \<and> l < 82 then l - 61 else l))"
proof -
  consider "l < 21" | "21 \<le> l" "l < 61" | "61 \<le> l" "l < 82" | "82 \<le> l" by linarith
  then show ?thesis
  proof cases
    case 1
    then have "(oa @ ia @ ob @ ib) ! l = oa ! l" using len by (simp add: nth_append)
    with 1 oa show ?thesis by (simp add: pointId_def)
  next
    case 2
    then have "(oa @ ia @ ob @ ib) ! l = ia ! (l - 21)" using len by (simp add: nth_append)
    moreover have "ia ! (l - 21) \<in> set ia" using 2 len by simp
    ultimately show ?thesis using 2 ia by (simp add: pointId_def)
  next
    case 3
    then have "(oa @ ia @ ob @ ib) ! l = ob ! (l - 61)" using len by (simp add: nth_append)
    moreover have "l - 61 < 21" using 3 by simp
    ultimately show ?thesis using 3 ob by (simp add: pointId_def)
  next
    case 4
    then have "(oa @ ia @ ob @ ib) ! l = ib ! (l - 82)" using len by (simp add: nth_append)
    moreover have "ib ! (l - 82) \<in> set ib" using 4 l len by simp
    ultimately show ?thesis using 4 ib by (simp add: pointId_def)
  qed
qed

lemma twoHands_stabilized:
  fixes xa xb t :: real
  assumes frame: "frame = oa @ ia @ ob @ ib"
    and len: "length oa = 21" "length ia = 40" "length ob = 21" "length ib = 40"
    and oa: "\<forall>l<21. originalIndex (oa ! l) = Index l"
    and ob: "\<forall>l<21. originalIndex (ob ! l) = Index l"
    and ia: "\<forall>p\<in>set ia. originalIndex p = Undefined"
    and ib: "\<forall>p\<in>set ib. originalIndex p = Undefined"
  shows "\<exists>out bank.
     stabilizePoints c (Some (map Some frame)) Map.empty t ''hand_'' = Inr (out, bank) \<and>
     length out = 122 \<and>
     (\<exists>r0 f1 r f2.
        Point3DFilter_filter (Some (oa ! 0)) t (Point3DFilter_new c) = (Some r0, f1) \<and>
        Point3DFilter_filter (Some (ob ! 0)) t f1 = (Some r, f2) \<and>
        out ! 0 = \<lparr>spread = oa ! 0, sx = fx r0, sy = fy r0, sz = fz r0,
                    svisibility = fvisibility r0, stabilized = True\<rparr> \<and>
        out ! 61 = \<lparr>spread = ob ! 0, sx = fx r, sy = fy r, sz = fz r,
                     svisibility = fvisibility r, stabilized = True\<rparr> \<and>
        bank (''hand_'', Some 0) = Some f2)"
proof -
  have flen: "length frame = 122" using frame len by simp
  obtain out bank where
    run: "stabilizePoints c (Some (map Some frame)) Map.empty t ''hand_'' = Inr (out, bank)"
    and olen: "length out = length frame"
    using stabilizePoints_total by blast
  have run': "stabilizeFrom c ''hand_'' t 0 (map Some frame) Map.empty = Inr (out, bank)"
    using run by (simp add: stabilizePoints_frame)
  note ids = frame_ids [OF len oa ob ia ib, of _ "''hand_''", folded frame]
  have f0: "frame ! 0 = oa ! 0" using frame len by (simp add: nth_append)
  have f61: "frame ! 61 = ob ! 0" using frame len by (simp add: nth_append)
  have k0: "pointId ''hand_'' (0 + 0) (oa ! 0) = (''hand_'', Some 0)"
    using ids [of 0] f0 by simp
  have k61: "pointId ''hand_'' (0 + 61) (ob ! 0) = (''hand_'', Some 0)"
    using ids [of 61] f61 by simp
  have others: "\<forall>l<length (map Some frame). l \<noteq> 0 \<and> l \<noteq> 61 \<longrightarrow>
      (\<forall>q'. map Some frame ! l = Some q' \<longrightarrow> pointId ''hand_'' (0 + l) q' \<noteq> (''hand_'', Some 0))"
  proof (intro allI impI)
    fix l q' assume l: "l < length (map Some frame)" "l \<noteq> 0 \<and> l \<noteq> 61"
      "map Some frame ! l = Some q'"
    then have "q' = frame ! l" "l < 122" using flen by simp_all
    with ids [of l] l(2) show "pointId ''hand_'' (0 + l) q' \<noteq> (''hand_'', Some 0)"
      by (auto split: if_splits)
  qed
  have a0: "map Some frame ! 0 = Some (oa ! 0)" using flen f0 by simp
  have a61: "map Some frame ! 61 = Some (ob ! 0)" using flen f61 by simp
  have i61: "61 < length (map Some frame)" using flen by simp
  from stabilizeFrom_twice [OF run' _ i61 a0 a61 k0 k61 others]
  obtain r f2 where
    second: "Point3DFilter_filter (Some (ob ! 0)) t
               (snd (Point3DFilter_filter (Some (oa ! 0)) t (Point3DFilter_new c))) = (Some r, f2)"
    and o61: "out ! 61 = \<lparr>spread = ob ! 0, sx = fx r, sy = fy r, sz = fz r,
                         svisibility = fvisibility r, stabilized = True\<rparr>"
    and bk: "bank (''hand_'', Some 0) = Some f2"
    by auto
  have first: "\<forall>j<0. pointId ''hand_'' j (frame ! j) \<noteq> pointId ''hand_'' 0 (frame ! 0)" by simp
  have "0 < length frame" using flen by simp
  from stabilizePoints_nth [OF run this first] obtain r0 f1 where
    flt0: "Point3DFilter_filter (Some (oa ! 0)) t (Point3DFilter_new c) = (Some r0, f1)"
    and o0: "out ! 0 = \<lparr>spread = oa ! 0, sx = fx r0, sy = fy r0, sz = fz r0,
                       svisibility = fvisibility r0, stabilized = True\<rparr>"
    using k0 f0 by auto
  from second flt0 have snd: "Point3DFilter_filter (Some (ob ! 0)) t f1 = (Some r, f2)" by simp
  have inner: "\<exists>r0 f1 r f2.
        Point3DFilter_filter (Some (oa ! 0)) t (Point3DFilter_new c) = (Some r0, f1) \<and>
        Point3DFilter_filter (Some (ob ! 0)) t f1 = (Some r, f2) \<and>
        out ! 0 = \<lparr>spread = oa ! 0, sx = fx r0, sy = fy r0, sz = fz r0,
                    svisibility = fvisibility r0, stabilized = True\<rparr> \<and>
        out ! 61 = \<lparr>spread = ob ! 0, sx = fx r, sy = fy r, sz = fz r,
                     svisibility = fvisibility r, stabilized = True\<rparr> \<and>
        bank (''hand_'', Some 0) = Some f2"
    using flt0 snd o0 o61 bk
    by (intro exI [of _ r0] exI [of _ f1] exI [of _ r] exI [of _ f2] conjI)
  have l122: "length out = 122" using olen flen by simp
  show ?thesis
    using run l122 inner by (intro exI [of _ out] exI [of _ bank] conjI)
qed

lemma Kalman_third:
  "fst (KalmanFilter1D_update m3 (t + 16.7)
         (snd (KalmanFilter1D_update m2 t
                (snd (KalmanFilter1D_update 0.2 t (KalmanFilter1D_new 0.005 0.05)))))) =
   (2110 / 4331) * (0.2 + (201 / 211) * (m2 - 0.2) * 9.35) + (2221 / 4331) * m3"
  by (simp add: KalmanFilter1D_update_def KalmanFilter1D_new_def Let_def toNumber_def
      timeDelta_def field_simps)

lemma axis_third:
  "0.208 < fst (KalmanFilter1D_update
     (fst (OneEuroFilter_filter 0.2001 (t + 16.7)
            (snd (OneEuroFilter_filter 0.8 t
                   (snd (OneEuroFilter_filter 0.2 t (OneEuroFilter_new 0.8 0.005 1)))))))
     (t + 16.7)
     (snd (KalmanFilter1D_update
            (fst (OneEuroFilter_filter 0.8 t
                   (snd (OneEuroFilter_filter 0.2 t (OneEuroFilter_new 0.8 0.005 1)))))
            t
            (snd (KalmanFilter1D_update 0.2 t (KalmanFilter1D_new 0.005 0.05))))))"
proof -
  define e1 where "e1 = snd (OneEuroFilter_filter 0.2 t (OneEuroFilter_new 0.8 0.005 1))"
  define e2 where "e2 = snd (OneEuroFilter_filter 0.8 t e1)"
  define m2 where "m2 = fst (OneEuroFilter_filter 0.8 t e1)"
  define m3 where "m3 = fst (OneEuroFilter_filter 0.2001 (t + 16.7) e2)"
  have e1: "tPrev e1 = Some t" "xPrev e1 = Some 0.2" "minCutoff e1 = 0.8" "beta e1 = 0.005"
    by (simp_all add: e1_def OneEuroFilter_filter_def OneEuroFilter_new_def)
  have td: "timeDelta t (Some t) = 0.001" by (simp add: timeDelta_def toNumber_def)
  from OneEuroFilter_later [where f = e1 and tp = t and xp = "0.2" and v = "0.8" and t = t] e1
  obtain a2 where a2: "0 < a2" "a2 < 1" "alpha 0.8 0.001 \<le> a2"
    and m2: "m2 = lowPass 0.8 0.2 a2"
    and e2: "xPrev e2 = Some m2" "tPrev e2 = Some t" "minCutoff e2 = 0.8" "beta e2 = 0.005"
    unfolding td m2_def e2_def by auto
  from OneEuroFilter_later [where f = e2 and tp = t and xp = m2 and v = "0.2001" and t = "t + 16.7"] e2
  obtain a3 where a3: "0 < a3" "a3 < 1" and m3: "m3 = lowPass 0.2001 m2 a3"
    unfolding m3_def by auto
  have a2': "1 / 314 \<le> a2" using alpha_floor a2(3) by simp
  have m2': "m2 = 0.2 + 0.6 * a2" by (simp add: m2 lowPass_def field_simps)
  have m2gt: "0.2 < m2" using a2(1) by (simp add: m2')
  have "a3 * 0.2 < a3 * 0.2001" using a3(1) by simp
  moreover have "(1 - a3) * 0.2 < (1 - a3) * m2"
    using a3(2) m2gt by (intro mult_strict_left_mono) auto
  ultimately have "a3 * 0.2 + (1 - a3) * 0.2 < a3 * 0.2001 + (1 - a3) * m2" by (rule add_strict_mono)
  then have m3gt: "0.2 < m3" by (simp add: m3 lowPass_def field_simps)
  have "0.208 < (2110 / 4331) * (0.2 + (201 / 211) * (m2 - 0.2) * 9.35) + (2221 / 4331) * m3"
    using a2' m3gt by (simp add: m2') argo
  then have "0.208 < fst (KalmanFilter1D_update m3 (t + 16.7)
         (snd (KalmanFilter1D_update m2 t
                (snd (KalmanFilter1D_update 0.2 t (KalmanFilter1D_new 0.005 0.05))))))"
    by (simp only: Kalman_third)
  then show ?thesis unfolding m3_def m2_def e2_def e1_def .
qed

lemma own_nth:
  assumes "length hl = 21" "l < 21"
  shows "map (\<lambda>(idx, lm). F idx lm) (zip [0..<21] hl) ! l = F l (hl ! l)"
  using assms by simp

lemma third_sample_x:
  assumes r1: "Point3DFilter_filter (Some pA) t (Point3DFilter_new (Stabilizer_config noOptions)) =
                 (Some r0, f1)"
    and r2: "Point3DFilter_filter (Some pB) t f1 = (Some r, f2)"
    and r3: "Point3DFilter_filter (Some pC) (t + 16.7) f2 = (Some r3, f3)"
    and px: "px pA = 0.2" "px pB = 0.8" "px pC = 0.2001"
  shows "\<exists>v. fx r3 = Some v \<and> 0.208 < v"
proof -
  have f1: "f1 = snd (Point3DFilter_filter (Some pA) t
                        (Point3DFilter_new (Stabilizer_config noOptions)))"
    using r1 by simp
  have f2: "f2 = snd (Point3DFilter_filter (Some pB) t f1)" using r2 by simp
  note st1 = Point3DFilter_first_state [where p = pA and t = t
      and c = "Stabilizer_config noOptions", folded f1, unfolded defaults px]
  have uk1: "useKalman f1" using st1(1) by simp
  have e1: "euroX f1 = snd (OneEuroFilter_filter 0.2 t (OneEuroFilter_new 0.8 0.005 1))"
    using st1(2) by simp
  have k1: "kalmanX f1 = snd (KalmanFilter1D_update 0.2 t (KalmanFilter1D_new 0.005 0.05))"
    using st1(5) by simp
  note st2 = Point3DFilter_state [where p = pB and t = t and f = f1, folded f2, unfolded px]
  have uk2: "useKalman f2" using st2(1) uk1 by simp
  have e2: "euroX f2 = snd (OneEuroFilter_filter 0.8 t (euroX f1))" using st2(2) by simp
  have k2: "kalmanX f2 =
      snd (KalmanFilter1D_update (fst (OneEuroFilter_filter 0.8 t (euroX f1))) t (kalmanX f1))"
    using st2(3) uk1 by simp
  from Point3DFilter_coords(1) [OF r3] uk2
  have "fx r3 = Some (fst (KalmanFilter1D_update
          (fst (OneEuroFilter_filter 0.2001 (t + 16.7) (euroX f2))) (t + 16.7) (kalmanX f2)))"
    by (simp add: px)
  then show ?thesis
    unfolding e2 k2 e1 k1 using axis_third [of t] by simp
qed

lemma twoHands_run:
  fixes xa xb t :: real
  shows "\<exists>g out bank f2.
     densifyHands Densifier_new
       (Some \<lparr>landmarks = Some [replicate 21 (landmark xa 0.5 (Some 0) (Some 1)),
                                replicate 21 (landmark xb 0.5 (Some 0) (Some 1))],
              handedness = Some [[''Left''], [''Right'']]\<rparr>) = Inr g \<and>
     count g = 122 \<and> length (points g) = 122 \<and>
     px (points g ! 0) = xa \<and> originalIndex (points g ! 0) = Index 0 \<and>
     handIndex (points g ! 0) = Some 0 \<and>
     px (points g ! 61) = xb \<and> originalIndex (points g ! 61) = Index 0 \<and>
     handIndex (points g ! 61) = Some 1 \<and>
     stabilizePoints c (Some (map Some (points g))) Map.empty t ''hand_'' = Inr (out, bank) \<and>
     length out = 122 \<and>
     (\<exists>r0 f1 r.
        Point3DFilter_filter (Some (points g ! 0)) t (Point3DFilter_new c) = (Some r0, f1) \<and>
        Point3DFilter_filter (Some (points g ! 61)) t f1 = (Some r, f2) \<and>
        out ! 0 = \<lparr>spread = points g ! 0, sx = fx r0, sy = fy r0, sz = fz r0,
                    svisibility = fvisibility r0, stabilized = True\<rparr> \<and>
        out ! 61 = \<lparr>spread = points g ! 61, sx = fx r, sy = fy r, sz = fz r,
                     svisibility = fvisibility r, stabilized = True\<rparr>) \<and>
     bank (''hand_'', Some 0) = Some f2"
proof -
  define ha where "ha = replicate 21 (landmark xa 0.5 (Some 0) (Some 1))"
  define hb where "hb = replicate 21 (landmark xb 0.5 (Some 0) (Some 1))"
  define hn where "hn = Some [[''Left''], [''Right'']]"
  define oa where "oa = map (\<lambda>(idx, lm). lm\<lparr>originalIndex := Index idx,
                                        region := Some (''hand_'' @ handednessName hn 0),
                                        handIndex := Some 0, interpolated := Some False\<rparr>)
                      (zip [0..<21] ha)"
  define ob where "ob = map (\<lambda>(idx, lm). lm\<lparr>originalIndex := Index idx,
                                        region := Some (''hand_'' @ handednessName hn 1),
                                        handIndex := Some 1, interpolated := Some False\<rparr>)
                      (zip [0..<21] hb)"
  have la: "length ha = 21" and lb: "length hb = 21" by (simp_all add: ha_def hb_def)
  from twoHands_frame [OF la lb, of Densifier_new hn]
  obtain ia ib where
    dens: "densifyHands Densifier_new (Some \<lparr>landmarks = Some [ha, hb], handedness = hn\<rparr>) =
             Inr \<lparr>points = oa @ ia @ ob @ ib, count = 122\<rparr>"
    and li: "length ia = 40" "length ib = 40"
    and ui: "\<forall>p\<in>set ia. originalIndex p = Undefined" "\<forall>p\<in>set ib. originalIndex p = Undefined"
    unfolding oa_def ob_def by blast
  define frame where "frame = oa @ ia @ ob @ ib"
  have lo: "length oa = 21" "length ob = 21" by (simp_all add: oa_def ob_def la lb)
  have oan: "oa ! l = (ha ! l)\<lparr>originalIndex := Index l,
                                region := Some (''hand_'' @ handednessName hn 0),
                                handIndex := Some 0, interpolated := Some False\<rparr>"
    if "l < 21" for l
    unfolding oa_def using own_nth [OF la that] by simp
  have obn: "ob ! l = (hb ! l)\<lparr>originalIndex := Index l,
                                region := Some (''hand_'' @ handednessName hn 1),
                                handIndex := Some 1, interpolated := Some False\<rparr>"
    if "l < 21" for l
    unfolding ob_def using own_nth [OF lb that] by simp
  have oai: "\<forall>l<21. originalIndex (oa ! l) = Index l" using oan by simp
  have obi: "\<forall>l<21. originalIndex (ob ! l) = Index l" using obn by simp
  have f0: "frame ! 0 = oa ! 0" using lo li by (simp add: frame_def nth_append)
  have f61: "frame ! 61 = ob ! 0" using lo li by (simp add: frame_def nth_append)
  have p0: "px (frame ! 0) = xa" "originalIndex (frame ! 0) = Index 0"
    "handIndex (frame ! 0) = Some 0"
    unfolding f0 using oan [of 0] by (simp_all add: ha_def landmark_def)
  have p61: "px (frame ! 61) = xb" "originalIndex (frame ! 61) = Index 0"
    "handIndex (frame ! 61) = Some 1"
    unfolding f61 using obn [of 0] by (simp_all add: hb_def landmark_def)
  from twoHands_stabilized [OF frame_def lo(1) li(1) lo(2) li(2) oai obi ui, of c t]
  obtain out bank r0 f1 r f2 where
    run: "stabilizePoints c (Some (map Some frame)) Map.empty t ''hand_'' = Inr (out, bank)"
    and olen: "length out = 122"
    and c1: "Point3DFilter_filter (Some (oa ! 0)) t (Point3DFilter_new c) = (Some r0, f1)"
    and c2: "Point3DFilter_filter (Some (ob ! 0)) t f1 = (Some r, f2)"
    and o0: "out ! 0 = \<lparr>spread = oa ! 0, sx = fx r0, sy = fy r0, sz = fz r0,
                    svisibility = fvisibility r0, stabilized = True\<rparr>"
    and o61: "out ! 61 = \<lparr>spread = ob ! 0, sx = fx r, sy = fy r, sz = fz r,
                     svisibility = fvisibility r, stabilized = True\<rparr>"
    and bk: "bank (''hand_'', Some 0) = Some f2"
    by blast
  define g where "g = \<lparr>points = frame, count = 122\<rparr>"
  have pg: "points g = frame" "count g = 122" by (simp_all add: g_def)
  have d: "densifyHands Densifier_new
       (Some \<lparr>landmarks = Some [replicate 21 (landmark xa 0.5 (Some 0) (Some 1)),
                                replicate 21 (landmark xb 0.5 (Some 0) (Some 1))],
              handedness = Some [[''Left''], [''Right'']]\<rparr>) = Inr g"
    using dens by (simp add: g_def frame_def ha_def hb_def hn_def)
  have flen: "length (points g) = 122" using lo li by (simp add: pg frame_def)
  have inner: "\<exists>r0 f1 r.
        Point3DFilter_filter (Some (points g ! 0)) t (Point3DFilter_new c) = (Some r0, f1) \<and>
        Point3DFilter_filter (Some (points g ! 61)) t f1 = (Some r, f2) \<and>
        out ! 0 = \<lparr>spread = points g ! 0, sx = fx r0, sy = fy r0, sz = fz r0,
                    svisibility = fvisibility r0, stabilized = True\<rparr> \<and>
        out ! 61 = \<lparr>spread = points g ! 61, sx = fx r, sy = fy r, sz = fz r,
                     svisibility = fvisibility r, stabilized = True\<rparr>"
    unfolding pg f0 f61 using c1 c2 o0 o61
    by (intro exI [of _ r0] exI [of _ f1] exI [of _ r] conjI)
  show ?thesis
    using d pg(2) flen p0 [folded pg(1)] p61 [folded pg(1)] run [folded pg(1)] olen inner bk
    by (intro exI [of _ g] exI [of _ out] exI [of _ bank] exI [of _ f2] conjI)
qed

text \<open>
  C2. A frame with two hands, each of \<open>21\<close> landmarks, the first hand at \<open>x = 0.2\<close> and
  the second at \<open>x = 0.8\<close>, densified and then stabilized by a Stabilizer that has seen
  nothing, at any timestamp. \<^verbatim>\<open>densifyHands\<close> numbers the landmarks of each hand from
  \<open>0\<close>, and the id \<^verbatim>\<open>stabilizePoints\<close> forms from \<^verbatim>\<open>originalIndex\<close> does not hold the
  hand: the wrist of the second hand, at position \<open>61\<close>, has the id of the wrist of the
  first, at position \<open>0\<close>. The first wrist comes out as given, \<open>0.2\<close>. The second
  wrist, seen for the first time, is filtered as a second observation of the first: its
  output lies strictly between \<open>0.2\<close> and \<open>0.8\<close>, and is not its raw \<open>0.8\<close>.
\<close>

theorem second_hand_first_sample:
  "\<exists>g out bank.
     densifyHands Densifier_new
       (Some \<lparr>landmarks = Some [replicate 21 (landmark 0.2 0.5 (Some 0) (Some 1)),
                                replicate 21 (landmark 0.8 0.5 (Some 0) (Some 1))],
              handedness = Some [[''Left''], [''Right'']]\<rparr>) = Inr g \<and>
     count g = 122 \<and>
     stabilizePoints (Stabilizer_config noOptions) (Some (map Some (points g))) Map.empty t
       ''hand_'' = Inr (out, bank) \<and>
     length out = 122 \<and>
     px (spread (out ! 0)) = 0.2 \<and> originalIndex (spread (out ! 0)) = Index 0 \<and>
     handIndex (spread (out ! 0)) = Some 0 \<and> sx (out ! 0) = Some 0.2 \<and>
     px (spread (out ! 61)) = 0.8 \<and> originalIndex (spread (out ! 61)) = Index 0 \<and>
     handIndex (spread (out ! 61)) = Some 1 \<and>
     pointId ''hand_'' 61 (spread (out ! 61)) = pointId ''hand_'' 0 (spread (out ! 0)) \<and>
     (\<exists>v. sx (out ! 61) = Some v \<and> 0.2 < v \<and> v < 0.8 \<and> v \<noteq> px (spread (out ! 61)))"
proof -
  define c where "c = Stabilizer_config noOptions"
  from twoHands_run [of "0.2" "0.8" c t]
  obtain g out bank f2 r0 f1 r where
    d: "densifyHands Densifier_new
       (Some \<lparr>landmarks = Some [replicate 21 (landmark 0.2 0.5 (Some 0) (Some 1)),
                                replicate 21 (landmark 0.8 0.5 (Some 0) (Some 1))],
              handedness = Some [[''Left''], [''Right'']]\<rparr>) = Inr g"
    and cnt: "count g = 122"
    and p0: "px (points g ! 0) = 0.2" "originalIndex (points g ! 0) = Index 0"
      "handIndex (points g ! 0) = Some 0"
    and p61: "px (points g ! 61) = 0.8" "originalIndex (points g ! 61) = Index 0"
      "handIndex (points g ! 61) = Some 1"
    and run: "stabilizePoints c (Some (map Some (points g))) Map.empty t ''hand_'' =
                Inr (out, bank)"
    and olen: "length out = 122"
    and c1: "Point3DFilter_filter (Some (points g ! 0)) t (Point3DFilter_new c) = (Some r0, f1)"
    and c2: "Point3DFilter_filter (Some (points g ! 61)) t f1 = (Some r, f2)"
    and o0: "out ! 0 = \<lparr>spread = points g ! 0, sx = fx r0, sy = fy r0, sz = fz r0,
                    svisibility = fvisibility r0, stabilized = True\<rparr>"
    and o61: "out ! 61 = \<lparr>spread = points g ! 61, sx = fx r, sy = fy r, sz = fz r,
                     svisibility = fvisibility r, stabilized = True\<rparr>"
    by blast
  have cfg: "0 < cfgMinCutoff c" "0 \<le> cfgBeta c" "0 \<le> cfgProcessNoise c"
      "0 < cfgMeasurementNoise c"
    by (simp_all add: c_def defaults)
  have x0: "fx r0 = Some 0.2"
    using Point3DFilter_first [of "points g ! 0" t c] c1 p0(1) by auto
  have c2': "Point3DFilter_filter (Some (points g ! 61)) t
      (snd (Point3DFilter_filter (Some (points g ! 0)) t (Point3DFilter_new c))) = (Some r, f2)"
    using c1 c2 by simp
  have "px (points g ! 61) \<noteq> px (points g ! 0)" using p0(1) p61(1) by simp
  from Point3DFilter_second(1) [OF cfg c2' this]
  obtain v where v: "fx r = Some v" "0.2 < v" "v < 0.8" using p0(1) p61(1) by auto
  have ids: "pointId ''hand_'' 61 (points g ! 61) = pointId ''hand_'' 0 (points g ! 0)"
    using p0(2) p61(2) by (simp add: pointId_def)
  have s0: "px (spread (out ! 0)) = 0.2" "originalIndex (spread (out ! 0)) = Index 0"
    "handIndex (spread (out ! 0)) = Some 0" "sx (out ! 0) = Some 0.2"
    using o0 p0 x0 by simp_all
  have s61: "px (spread (out ! 61)) = 0.8" "originalIndex (spread (out ! 61)) = Index 0"
    "handIndex (spread (out ! 61)) = Some 1"
    using o61 p61 by simp_all
  have sid: "pointId ''hand_'' 61 (spread (out ! 61)) = pointId ''hand_'' 0 (spread (out ! 0))"
    using ids o0 o61 by simp
  have sv: "\<exists>v. sx (out ! 61) = Some v \<and> 0.2 < v \<and> v < 0.8 \<and> v \<noteq> px (spread (out ! 61))"
    using v o61 p61(1) by auto
  show ?thesis
    using d cnt run [unfolded c_def] olen s0 s61 sid sv
    by (intro exI [of _ g] exI [of _ out] exI [of _ bank] conjI)
qed

text \<open>
  C6. The same two hands in two frames, \<open>16.7\<close> milliseconds apart, with the default
  configuration. In the first frame the wrist of the first hand is at \<open>x = 0.2\<close> and
  comes out as given; in the second it is at \<open>x = 0.2001\<close>. Its filter has by then also
  taken the wrist of the second hand, at \<open>0.8\<close>, so the second sighting of the first
  wrist is the filter's third observation: the output is above \<open>0.208\<close>, and so not
  between the first raw value \<open>0.2\<close> and the second raw value \<open>0.2001\<close>.
\<close>

theorem second_sighting_outside:
  "\<exists>g1 out1 bank1 g2 out2 bank2.
     densifyHands Densifier_new
       (Some \<lparr>landmarks = Some [replicate 21 (landmark 0.2 0.5 (Some 0) (Some 1)),
                                replicate 21 (landmark 0.8 0.5 (Some 0) (Some 1))],
              handedness = Some [[''Left''], [''Right'']]\<rparr>) = Inr g1 \<and>
     stabilizePoints (Stabilizer_config noOptions) (Some (map Some (points g1))) Map.empty t
       ''hand_'' = Inr (out1, bank1) \<and>
     densifyHands Densifier_new
       (Some \<lparr>landmarks = Some [replicate 21 (landmark 0.2001 0.5 (Some 0) (Some 1)),
                                replicate 21 (landmark 0.8 0.5 (Some 0) (Some 1))],
              handedness = Some [[''Left''], [''Right'']]\<rparr>) = Inr g2 \<and>
     stabilizePoints (Stabilizer_config noOptions) (Some (map Some (points g2))) bank1
       (t + 16.7) ''hand_'' = Inr (out2, bank2) \<and>
     px (spread (out1 ! 0)) = 0.2 \<and> originalIndex (spread (out1 ! 0)) = Index 0 \<and>
     handIndex (spread (out1 ! 0)) = Some 0 \<and> sx (out1 ! 0) = Some 0.2 \<and>
     px (spread (out2 ! 0)) = 0.2001 \<and> originalIndex (spread (out2 ! 0)) = Index 0 \<and>
     handIndex (spread (out2 ! 0)) = Some 0 \<and>
     (\<exists>v. sx (out2 ! 0) = Some v \<and> 0.208 < v \<and>
          max 0.2 0.2001 < v)"
proof -
  define c where "c = Stabilizer_config noOptions"
  from twoHands_run [of "0.2" "0.8" c t]
  obtain g1 out1 bank1 f2 r0 f1 r where
    d1: "densifyHands Densifier_new
       (Some \<lparr>landmarks = Some [replicate 21 (landmark 0.2 0.5 (Some 0) (Some 1)),
                                replicate 21 (landmark 0.8 0.5 (Some 0) (Some 1))],
              handedness = Some [[''Left''], [''Right'']]\<rparr>) = Inr g1"
    and p0: "px (points g1 ! 0) = 0.2" "originalIndex (points g1 ! 0) = Index 0"
      "handIndex (points g1 ! 0) = Some 0"
    and p61: "px (points g1 ! 61) = 0.8"
    and run1: "stabilizePoints c (Some (map Some (points g1))) Map.empty t ''hand_'' =
                Inr (out1, bank1)"
    and c1: "Point3DFilter_filter (Some (points g1 ! 0)) t (Point3DFilter_new c) = (Some r0, f1)"
    and c2: "Point3DFilter_filter (Some (points g1 ! 61)) t f1 = (Some r, f2)"
    and o0: "out1 ! 0 = \<lparr>spread = points g1 ! 0, sx = fx r0, sy = fy r0, sz = fz r0,
                    svisibility = fvisibility r0, stabilized = True\<rparr>"
    and bk: "bank1 (''hand_'', Some 0) = Some f2"
    by blast
  from twoHands_run [of "0.2001" "0.8" c t]
  obtain g2 where
    d2: "densifyHands Densifier_new
       (Some \<lparr>landmarks = Some [replicate 21 (landmark 0.2001 0.5 (Some 0) (Some 1)),
                                replicate 21 (landmark 0.8 0.5 (Some 0) (Some 1))],
              handedness = Some [[''Left''], [''Right'']]\<rparr>) = Inr g2"
    and len2: "length (points g2) = 122"
    and q0: "px (points g2 ! 0) = 0.2001" "originalIndex (points g2 ! 0) = Index 0"
      "handIndex (points g2 ! 0) = Some 0"
    by blast
  obtain out2 bank2 where
    run2: "stabilizePoints c (Some (map Some (points g2))) bank1 (t + 16.7) ''hand_'' =
             Inr (out2, bank2)"
    using stabilizePoints_total by blast
  have pos: "0 < length (points g2)" using len2 by simp
  have first: "\<forall>j<0. pointId ''hand_'' j (points g2 ! j) \<noteq> pointId ''hand_'' 0 (points g2 ! 0)"
    by simp
  have id0: "pointId ''hand_'' 0 (points g2 ! 0) = (''hand_'', Some 0)"
    using q0(2) by (simp add: pointId_def)
  from stabilizePoints_nth [OF run2 pos first] obtain r3 f3 where
    c3: "Point3DFilter_filter (Some (points g2 ! 0)) (t + 16.7) f2 = (Some r3, f3)"
    and o2: "out2 ! 0 = \<lparr>spread = points g2 ! 0, sx = fx r3, sy = fy r3, sz = fz r3,
                    svisibility = fvisibility r3, stabilized = True\<rparr>"
    unfolding id0 bk by auto
  from third_sample_x [OF c1 [unfolded c_def] c2 c3 p0(1) p61 q0(1)]
  obtain v where v: "fx r3 = Some v" "0.208 < v" by blast
  have x0: "fx r0 = Some 0.2"
    using Point3DFilter_first [of "points g1 ! 0" t c] c1 p0(1) by auto
  have s1: "px (spread (out1 ! 0)) = 0.2" "originalIndex (spread (out1 ! 0)) = Index 0"
    "handIndex (spread (out1 ! 0)) = Some 0" "sx (out1 ! 0) = Some 0.2"
    using o0 p0 x0 by simp_all
  have s2: "px (spread (out2 ! 0)) = 0.2001" "originalIndex (spread (out2 ! 0)) = Index 0"
    "handIndex (spread (out2 ! 0)) = Some 0"
    using o2 q0 by simp_all
  have sv: "\<exists>v. sx (out2 ! 0) = Some v \<and> 0.208 < v \<and> max 0.2 0.2001 < v"
    using v o2 by auto
  show ?thesis
    using d1 run1 [unfolded c_def] d2 run2 [unfolded c_def] s1 s2 sv
    by (intro exI [of _ g1] exI [of _ out1] exI [of _ bank1] exI [of _ g2] exI [of _ out2]
        exI [of _ bank2] conjI)
qed

section \<open>Wave motion engine: properties of the body pass\<close>

lemma map_of_mapSet: "map_of (mapSet m k v) = (map_of m)(k \<mapsto> v)"
  by (induction m) (auto simp: fun_eq_iff)

lemma mapGet_mapSet: "mapGet (mapSet m k v) n = (if n = k then Some v else mapGet m n)"
  by (simp add: mapGet_def map_of_mapSet)

lemma getOrZero_mapSet: "getOrZero (mapSet m k v) n = (if n = k then v else getOrZero m n)"
  by (simp add: getOrZero_def mapGet_mapSet)

lemma addToNeighbor_get:
  "vx (getOrZero (addToNeighbor v f nb acc) n) =
     vx (getOrZero acc n) + (if n = Some nb then vx v * f else 0)"
  "vy (getOrZero (addToNeighbor v f nb acc) n) =
     vy (getOrZero acc n) + (if n = Some nb then vy v * f else 0)"
  "vz (getOrZero (addToNeighbor v f nb acc) n) =
     vz (getOrZero acc n) + (if n = Some nb then vz v * f else 0)"
  by (simp_all add: addToNeighbor_def Let_def getOrZero_mapSet)

lemma addToNeighbor_dom:
  "\<exists>y. mapGet acc n = Some y \<Longrightarrow> \<exists>y. mapGet (addToNeighbor v f nb acc) n = Some y"
  by (simp add: addToNeighbor_def Let_def mapGet_mapSet)

lemma fold_addToNeighbor_get:
  "vx (getOrZero (fold (addToNeighbor v f) ns acc) n) =
     vx (getOrZero acc n) + real (count_list (map Some ns) n) * (vx v * f) \<and>
   vy (getOrZero (fold (addToNeighbor v f) ns acc) n) =
     vy (getOrZero acc n) + real (count_list (map Some ns) n) * (vy v * f) \<and>
   vz (getOrZero (fold (addToNeighbor v f) ns acc) n) =
     vz (getOrZero acc n) + real (count_list (map Some ns) n) * (vz v * f)"
  by (induction ns arbitrary: acc) (simp_all add: addToNeighbor_get algebra_simps)

lemma fold_addToNeighbor_dom:
  "\<exists>y. mapGet acc n = Some y \<Longrightarrow> \<exists>y. mapGet (fold (addToNeighbor v f) ns acc) n = Some y"
proof (induction ns arbitrary: acc)
  case Nil
  then show ?case by simp
next
  case (Cons nb ns)
  from Cons.IH [OF addToNeighbor_dom [OF Cons.prems]] show ?case by simp
qed

text \<open>What one entry of the velocity map passes on to the key \<open>n\<close>, per axis.\<close>

lemma propagateFrom_get:
  "vx (getOrZero (propagateFrom conn f e acc) n) =
     vx (getOrZero acc n) +
     f * (case neighborsOf conn (fst e) of
            None \<Rightarrow> 0
          | Some ns \<Rightarrow> if getVelocityMagnitude (snd e) < 0.001 then 0
                       else real (count_list (map Some ns) n) * vx (snd e)) \<and>
   vy (getOrZero (propagateFrom conn f e acc) n) =
     vy (getOrZero acc n) +
     f * (case neighborsOf conn (fst e) of
            None \<Rightarrow> 0
          | Some ns \<Rightarrow> if getVelocityMagnitude (snd e) < 0.001 then 0
                       else real (count_list (map Some ns) n) * vy (snd e)) \<and>
   vz (getOrZero (propagateFrom conn f e acc) n) =
     vz (getOrZero acc n) +
     f * (case neighborsOf conn (fst e) of
            None \<Rightarrow> 0
          | Some ns \<Rightarrow> if getVelocityMagnitude (snd e) < 0.001 then 0
                       else real (count_list (map Some ns) n) * vz (snd e))"
  by (simp add: propagateFrom_def fold_addToNeighbor_get algebra_simps split: option.splits)

lemma propagateFrom_dom:
  assumes "\<exists>y. mapGet acc n = Some y"
  shows "\<exists>y. mapGet (propagateFrom conn f e acc) n = Some y"
proof (cases "neighborsOf conn (fst e)")
  case None
  with assms show ?thesis by (simp add: propagateFrom_def)
next
  case (Some ns)
  with assms fold_addToNeighbor_dom [OF assms, of "snd e" f ns] show ?thesis
    by (simp add: propagateFrom_def)
qed

lemma fold_propagateFrom_get:
  "vx (getOrZero (fold (propagateFrom conn f) es acc) n) =
     vx (getOrZero acc n) +
     f * (\<Sum>e\<leftarrow>es. case neighborsOf conn (fst e) of
            None \<Rightarrow> 0
          | Some ns \<Rightarrow> if getVelocityMagnitude (snd e) < 0.001 then 0
                       else real (count_list (map Some ns) n) * vx (snd e)) \<and>
   vy (getOrZero (fold (propagateFrom conn f) es acc) n) =
     vy (getOrZero acc n) +
     f * (\<Sum>e\<leftarrow>es. case neighborsOf conn (fst e) of
            None \<Rightarrow> 0
          | Some ns \<Rightarrow> if getVelocityMagnitude (snd e) < 0.001 then 0
                       else real (count_list (map Some ns) n) * vy (snd e)) \<and>
   vz (getOrZero (fold (propagateFrom conn f) es acc) n) =
     vz (getOrZero acc n) +
     f * (\<Sum>e\<leftarrow>es. case neighborsOf conn (fst e) of
            None \<Rightarrow> 0
          | Some ns \<Rightarrow> if getVelocityMagnitude (snd e) < 0.001 then 0
                       else real (count_list (map Some ns) n) * vz (snd e))"
proof (induction es arbitrary: acc)
  case Nil
  show ?case by simp
next
  case (Cons e es)
  show ?case
    using Cons [of "propagateFrom conn f e acc"] propagateFrom_get [of conn f e acc n]
    by (simp add: algebra_simps)
qed

lemma fold_propagateFrom_dom:
  "\<exists>y. mapGet acc n = Some y \<Longrightarrow> \<exists>y. mapGet (fold (propagateFrom conn f) es acc) n = Some y"
proof (induction es arbitrary: acc)
  case Nil
  then show ?case by simp
next
  case (Cons e es)
  from Cons.IH [OF propagateFrom_dom [OF Cons.prems]] show ?case by simp
qed

lemma currentStep_dom:
  "\<exists>y. mapGet acc n = Some y \<Longrightarrow>
   \<exists>y. mapGet ((\<lambda>(idx, point) m.
             if originalIndex (spread point) = Undefined then m
             else mapSet m (mapKey (originalIndex (spread point)))
                    (calculateVelocity point
                       (case previous of None \<Rightarrow> None | Some prev \<Rightarrow> elemAt prev idx) dt)) z acc) n
        = Some y"
  by (cases z) (simp add: mapGet_mapSet)

lemma currentFold_keeps:
  "\<exists>y. mapGet acc n = Some y \<Longrightarrow>
   \<exists>y. mapGet (fold (\<lambda>(idx, point) m.
             if originalIndex (spread point) = Undefined then m
             else mapSet m (mapKey (originalIndex (spread point)))
                    (calculateVelocity point
                       (case previous of None \<Rightarrow> None | Some prev \<Rightarrow> elemAt prev idx) dt)) zs acc) n
        = Some y"
proof (induction zs arbitrary: acc)
  case Nil
  then show ?case by simp
next
  case (Cons z zs)
  from Cons.IH [OF currentStep_dom [OF Cons.prems]] show ?case by simp
qed

lemma currentFold_dom:
  "z \<in> set zs \<Longrightarrow> originalIndex (spread (snd z)) \<noteq> Undefined \<Longrightarrow>
   mapKey (originalIndex (spread (snd z))) = n \<Longrightarrow>
   \<exists>y. mapGet (fold (\<lambda>(idx, point) m.
             if originalIndex (spread point) = Undefined then m
             else mapSet m (mapKey (originalIndex (spread point)))
                    (calculateVelocity point
                       (case previous of None \<Rightarrow> None | Some prev \<Rightarrow> elemAt prev idx) dt)) zs acc) n
        = Some y"
proof (induction zs arbitrary: acc)
  case Nil
  then show ?case by simp
next
  case (Cons a zs)
  show ?case
  proof (cases "z = a")
    case True
    with Cons.prems(2,3) have "\<exists>y. mapGet ((\<lambda>(idx, point) m.
             if originalIndex (spread point) = Undefined then m
             else mapSet m (mapKey (originalIndex (spread point)))
                    (calculateVelocity point
                       (case previous of None \<Rightarrow> None | Some prev \<Rightarrow> elemAt prev idx) dt)) a acc) n
        = Some y"
      by (cases a) (simp add: mapGet_mapSet)
    from currentFold_keeps [OF this] show ?thesis by simp
  next
    case False
    with Cons.prems have "z \<in> set zs" by simp
    from Cons.IH [OF this Cons.prems(2,3)] show ?thesis by simp
  qed
qed

lemma currentVelocities_dom:
  assumes "p \<in> set pts" "originalIndex (spread p) \<noteq> Undefined"
    "mapKey (originalIndex (spread p)) = n"
  shows "\<exists>y. mapGet (currentVelocities previous pts dt) n = Some y"
proof -
  from assms(1) obtain i where "i < length pts" "pts ! i = p" by (auto simp: in_set_conv_nth)
  then have "(i, p) \<in> set (zip [0..<length pts] pts)"
    by (auto simp: in_set_zip intro!: exI [of _ i])
  from currentFold_dom [OF this] assms(2,3) show ?thesis
    by (simp add: currentVelocities_def)
qed

lemma storeVelocity_get:
  "mapGet (storeVelocity prop damp p cache) n =
     (if originalIndex (spread p) \<noteq> Undefined \<and> mapKey (originalIndex (spread p)) = n \<and>
         interpolated (spread p) \<noteq> Some True \<and> mapGet prop n \<noteq> None
      then Some \<lparr>vx = vx (the (mapGet prop n)) * damp, vy = vy (the (mapGet prop n)) * damp,
                 vz = vz (the (mapGet prop n)) * damp\<rparr>
      else mapGet cache n)"
  by (auto simp: storeVelocity_def mapGet_mapSet split: option.splits)

lemma fold_storeVelocity_get:
  "mapGet (fold (storeVelocity prop damp) pts cache) n =
     (if (\<exists>p\<in>set pts. originalIndex (spread p) \<noteq> Undefined \<and>
            mapKey (originalIndex (spread p)) = n \<and> interpolated (spread p) \<noteq> Some True) \<and>
         mapGet prop n \<noteq> None
      then Some \<lparr>vx = vx (the (mapGet prop n)) * damp, vy = vy (the (mapGet prop n)) * damp,
                 vz = vz (the (mapGet prop n)) * damp\<rparr>
      else mapGet cache n)"
proof (induction pts arbitrary: cache rule: rev_induct)
  case Nil
  show ?case by simp
next
  case (snoc p pts)
  show ?case by (simp add: storeVelocity_get snoc) blast
qed

lemma processBody_cache:
  assumes "pts \<noteq> []"
  shows "velocities (snd (processBody e (Some pts) dt)) =
     fold (storeVelocity
             (propagateMotion pts (currentVelocities (previousBody e) pts dt)
                (buildConnectionMap (bodyNetwork e)) (propagationSpeed (config e)))
             (damping (config e))) pts (velocities e)"
  using assms by (simp add: processBody_def Let_def)

text \<open>
  The connection map of the network the constructor defines. The entries of the spine for
  \<open>11\<close>, \<open>12\<close>, \<open>23\<close> and \<open>24\<close> are replaced by those of the arms and legs.
\<close>

lemma buildConnectionMap_default:
  "buildConnectionMap defineBodyNetwork =
     [11 \<mapsto> [13], 12 \<mapsto> [14], 23 \<mapsto> [25], 24 \<mapsto> [26], 13 \<mapsto> [11, 15], 15 \<mapsto> [13],
      14 \<mapsto> [12, 16], 16 \<mapsto> [14], 25 \<mapsto> [23, 27], 27 \<mapsto> [25], 26 \<mapsto> [24, 28], 28 \<mapsto> [26]]"
  by (simp add: buildConnectionMap_def defineBodyNetwork_def fun_upd_twist)

text \<open>
  The body pass in closed form, for a frame with an original point of key \<open>n\<close>. The
  propagated velocity of \<open>n\<close> is its own current velocity plus the propagation factor
  times the sum, over the entries of the current velocity map whose magnitude is at least
  \<open>0.001\<close> and that have neighbours in the connection map, of the entry's velocity, once
  for each time \<open>n\<close> stands among those neighbours; an entry below the threshold adds
  nothing. The velocity the pass caches for \<open>n\<close> is the propagated velocity times the
  damping factor, axis by axis.
\<close>

lemma body_pass_closed_form:
  assumes "p \<in> set pts" and "originalIndex (spread p) \<noteq> Undefined"
    and "mapKey (originalIndex (spread p)) = n"
    and "interpolated (spread p) \<noteq> Some True"
  shows "\<exists>pv::Velocity.
     mapGet (propagateMotion pts (currentVelocities (previousBody e) pts dt)
               (buildConnectionMap (bodyNetwork e)) (propagationSpeed (config e))) n = Some pv \<and>
     vx pv = vx (getOrZero (currentVelocities (previousBody e) pts dt) n) +
        propagationSpeed (config e) *
          (\<Sum>s\<leftarrow>currentVelocities (previousBody e) pts dt.
             case neighborsOf (buildConnectionMap (bodyNetwork e)) (fst s) of
               None \<Rightarrow> 0
             | Some ns \<Rightarrow> if getVelocityMagnitude (snd s) < 0.001 then 0
                          else real (count_list (map Some ns) n) * vx (snd s)) \<and>
     vy pv = vy (getOrZero (currentVelocities (previousBody e) pts dt) n) +
        propagationSpeed (config e) *
          (\<Sum>s\<leftarrow>currentVelocities (previousBody e) pts dt.
             case neighborsOf (buildConnectionMap (bodyNetwork e)) (fst s) of
               None \<Rightarrow> 0
             | Some ns \<Rightarrow> if getVelocityMagnitude (snd s) < 0.001 then 0
                          else real (count_list (map Some ns) n) * vy (snd s)) \<and>
     vz pv = vz (getOrZero (currentVelocities (previousBody e) pts dt) n) +
        propagationSpeed (config e) *
          (\<Sum>s\<leftarrow>currentVelocities (previousBody e) pts dt.
             case neighborsOf (buildConnectionMap (bodyNetwork e)) (fst s) of
               None \<Rightarrow> 0
             | Some ns \<Rightarrow> if getVelocityMagnitude (snd s) < 0.001 then 0
                          else real (count_list (map Some ns) n) * vz (snd s)) \<and>
     mapGet (velocities (snd (processBody e (Some pts) dt))) n =
       Some \<lparr>vx = vx pv * damping (config e), vy = vy pv * damping (config e),
             vz = vz pv * damping (config e)\<rparr>"
proof -
  define cur where "cur = currentVelocities (previousBody e) pts dt"
  define conn where "conn = buildConnectionMap (bodyNetwork e)"
  define pgd where "pgd = propagateMotion pts cur conn (propagationSpeed (config e))"
  have "\<exists>y. mapGet cur n = Some y"
    unfolding cur_def using assms(1,2,3) by (rule currentVelocities_dom)
  then have "\<exists>y. mapGet pgd n = Some y"
    unfolding pgd_def propagateMotion_def by (rule fold_propagateFrom_dom)
  then obtain pv where pv: "mapGet pgd n = Some pv" by blast
  then have gz: "getOrZero pgd n = pv" by (simp add: getOrZero_def)
  note closed = fold_propagateFrom_get [of conn "propagationSpeed (config e)" cur cur n,
      folded propagateMotion_def [of pts cur conn "propagationSpeed (config e)"],
      folded pgd_def, unfolded gz]
  have ne: "pts \<noteq> []" using assms(1) by auto
  have cache: "mapGet (velocities (snd (processBody e (Some pts) dt))) n =
       Some \<lparr>vx = vx pv * damping (config e), vy = vy pv * damping (config e),
             vz = vz pv * damping (config e)\<rparr>"
    unfolding processBody_cache [OF ne] fold_storeVelocity_get
    using assms pv by (auto simp: pgd_def cur_def conn_def)
  show ?thesis
    using pv closed cache unfolding pgd_def cur_def conn_def by blast
qed

text \<open>The current velocities of a frame that lists the original points in index order.\<close>

lemma mapSet_fresh: "k \<notin> fst ` set m \<Longrightarrow> mapSet m k v = m @ [(k, v)]"
  by (induction m) auto

lemma currentFold_originals:
  assumes "\<And>i. i < n \<Longrightarrow> originalIndex (spread (f i)) = Index i"
  shows "fold (\<lambda>(idx, point) m.
             if originalIndex (spread point) = Undefined then m
             else mapSet m (mapKey (originalIndex (spread point)))
                    (calculateVelocity point
                       (case previous of None \<Rightarrow> None | Some prev \<Rightarrow> elemAt prev idx) dt))
          (zip [0..<n] (map f [0..<n])) [] =
        map (\<lambda>i. (Some i, calculateVelocity (f i)
                      (case previous of None \<Rightarrow> None | Some prev \<Rightarrow> elemAt prev i) dt)) [0..<n]"
  using assms
proof (induction n)
  case 0
  show ?case by simp
next
  case (Suc n)
  have IH: "fold (\<lambda>(idx, point) m.
             if originalIndex (spread point) = Undefined then m
             else mapSet m (mapKey (originalIndex (spread point)))
                    (calculateVelocity point
                       (case previous of None \<Rightarrow> None | Some prev \<Rightarrow> elemAt prev idx) dt))
          (zip [0..<n] (map f [0..<n])) [] =
        map (\<lambda>i. (Some i, calculateVelocity (f i)
                      (case previous of None \<Rightarrow> None | Some prev \<Rightarrow> elemAt prev i) dt)) [0..<n]"
    using Suc.IH Suc.prems by simp
  have fresh: "Some n \<notin> fst ` set (map (\<lambda>i. (Some i, calculateVelocity (f i)
                      (case previous of None \<Rightarrow> None | Some prev \<Rightarrow> elemAt prev i) dt)) [0..<n])"
    by auto
  show ?case
    using Suc.prems [of n] by (simp add: IH mapSet_fresh [OF fresh])
qed

lemma currentVelocities_originals:
  assumes "\<And>i. i < n \<Longrightarrow> originalIndex (spread (f i)) = Index i"
  shows "currentVelocities previous (map f [0..<n]) dt =
        map (\<lambda>i. (Some i, calculateVelocity (f i)
                      (case previous of None \<Rightarrow> None | Some prev \<Rightarrow> elemAt prev i) dt)) [0..<n]"
  using currentFold_originals [OF assms, of n previous dt] by (simp add: currentVelocities_def)

lemma map_of_upt:
  "map_of (map (\<lambda>i. (Some i, g i)) [0..<n]) (Some i) = (if i < n then Some (g i) else None)"
  by (induction n) (auto simp: map_add_def less_Suc_eq split: option.splits)

text \<open>
  The example: the previous frame at rest, the left shoulder moved by \<open>1 / 60\<close> along
  \<^verbatim>\<open>x\<close> in the frame after it, which is a velocity of \<open>1\<close> at \<open>60\<close> frames a second.
\<close>

lemma bodyFrame_velocities:
  "currentVelocities (Some (bodyFrame 0.5)) (bodyFrame (0.5 + frameDt)) frameDt =
     map (\<lambda>i. (Some i, \<lparr>vx = if i = 11 then 1 else 0, vy = 0, vz = 0\<rparr>)) [0..<33]"
  unfolding bodyFrame_def
  apply (subst currentVelocities_originals)
   apply (simp add: landmark_def)
  apply (rule map_cong [OF refl])
  apply (simp add: calculateVelocity_def elemAt_def toNumber_def orElse_def frameDt_def
      landmark_def)
  done

lemma bodyFrame_indices:
  "[0..<33] = [0, 1, 2, 3, 4, 5, 6, 7, 8, 9, 10, 11, 12, 13, 14, 15, 16, 17, 18, 19, 20, 21, 22,
               23, 24, 25, 26, 27, 28, 29, 30, 31, 32 :: nat]"
  by (simp add: upt_rec)

lemma bodyFrame_received:
  "(\<Sum>s\<leftarrow>map (\<lambda>i. (Some i, \<lparr>vx = if i = 11 then 1 else 0, vy = 0, vz = 0\<rparr>)) [0..<33].
      case neighborsOf (buildConnectionMap defineBodyNetwork) (fst s) of
        None \<Rightarrow> 0
      | Some ns \<Rightarrow> if getVelocityMagnitude (snd s) < 0.001 then 0
                   else real (count_list (map Some ns) n) * vx (snd s)) =
   (if n = Some 13 then 1 else 0)"
  "(\<Sum>s\<leftarrow>map (\<lambda>i. (Some i, \<lparr>vx = if i = 11 then 1 else 0, vy = 0, vz = 0\<rparr>)) [0..<33].
      case neighborsOf (buildConnectionMap defineBodyNetwork) (fst s) of
        None \<Rightarrow> 0
      | Some ns \<Rightarrow> if getVelocityMagnitude (snd s) < 0.001 then 0
                   else real (count_list (map Some ns) n) * vy (snd s)) = 0"
  "(\<Sum>s\<leftarrow>map (\<lambda>i. (Some i, \<lparr>vx = if i = 11 then 1 else 0, vy = 0, vz = 0\<rparr>)) [0..<33].
      case neighborsOf (buildConnectionMap defineBodyNetwork) (fst s) of
        None \<Rightarrow> 0
      | Some ns \<Rightarrow> if getVelocityMagnitude (snd s) < 0.001 then 0
                   else real (count_list (map Some ns) n) * vz (snd s)) = 0"
  unfolding bodyFrame_indices buildConnectionMap_default
  by (simp_all add: neighborsOf_def getVelocityMagnitude_def)

lemma bodyFrame_cache:
  assumes "i < 33"
  shows "mapGet (velocities (snd (processBody
            ((WaveMotionEngine_new noWaveOptions)\<lparr>previousBody := Some (bodyFrame 0.5)\<rparr>)
            (Some (bodyFrame (0.5 + frameDt))) frameDt))) (Some i) =
         Some \<lparr>vx = ((if i = 11 then 1 else 0) + 0.15 * (if i = 13 then 1 else 0)) * 0.85,
               vy = 0, vz = 0\<rparr>"
proof -
  define e where
    "e = (WaveMotionEngine_new noWaveOptions)\<lparr>previousBody := Some (bodyFrame 0.5)\<rparr>"
  define p where "p = bodyFrame (0.5 + frameDt) ! i"
  have len: "length (bodyFrame (0.5 + frameDt)) = 33" by (simp add: bodyFrame_def)
  have mem: "p \<in> set (bodyFrame (0.5 + frameDt))" unfolding p_def using assms len by simp
  have pi: "originalIndex (spread p) = Index i" "interpolated (spread p) = Some False"
    unfolding p_def bodyFrame_def using assms by (simp_all add: landmark_def)
  have a2: "originalIndex (spread p) \<noteq> Undefined" using pi by simp
  have a3: "mapKey (originalIndex (spread p)) = Some i" using pi by simp
  have a4: "interpolated (spread p) \<noteq> Some True" using pi by simp
  have prev: "previousBody e = Some (bodyFrame 0.5)" by (simp add: e_def)
  have net: "buildConnectionMap (bodyNetwork e) = buildConnectionMap defineBodyNetwork"
    by (simp add: e_def WaveMotionEngine_new_def)
  have cfg: "propagationSpeed (config e) = 0.15" "damping (config e) = 0.85"
    by (simp_all add: e_def WaveMotionEngine_new_def WaveMotionEngine_config_def
        noWaveOptions_def orElse_def)
  have own: "getOrZero (map (\<lambda>i. (Some i, \<lparr>vx = if i = 11 then 1 else 0, vy = 0, vz = 0\<rparr>))
                          [0..<33]) (Some i) =
      \<lparr>vx = if i = 11 then 1 else 0, vy = 0, vz = 0\<rparr>"
    using assms by (simp add: getOrZero_def mapGet_def map_of_upt)
  from body_pass_closed_form [OF mem a2 a3 a4, of e frameDt]
  obtain pv :: Velocity where
    "vx pv = (if i = 11 then 1 else 0) + 0.15 * (if Some i = Some 13 then 1 else 0)"
    "vy pv = 0" "vz pv = 0"
    "mapGet (velocities (snd (processBody e (Some (bodyFrame (0.5 + frameDt))) frameDt)))
       (Some i) = Some \<lparr>vx = vx pv * 0.85, vy = vy pv * 0.85, vz = vz pv * 0.85\<rparr>"
    unfolding prev bodyFrame_velocities net cfg bodyFrame_received own by auto
  then show ?thesis unfolding e_def by simp
qed

text \<open>
  C7. The network the engine declares links the left shoulder, landmark \<open>11\<close>, to the
  right shoulder \<open>12\<close> and the left hip \<open>23\<close> (its spine) and to the left elbow
  \<open>13\<close> (its left arm). The connection map the body pass builds from it keeps one list for
  each index, the last assigned, so for \<open>11\<close> it holds the elbow alone. On a frame in
  which the left shoulder alone moves, with velocity \<open>1\<close> along \<^verbatim>\<open>x\<close>, above the
  threshold, the pass caches \<open>0.85\<close> for the shoulder and \<open>0.15 * 0.85 = 0.1275\<close> for
  the elbow, and zero for the right shoulder and the left hip: these two neighbours of
  the declared graph receive no copy of the velocity.
\<close>

theorem spine_links_receive_nothing:
  "map_of defineBodyNetwork ''spine'' =
     Some (Links [(11, [12, 23]), (12, [11, 24]), (23, [11, 24, 25]), (24, [12, 23, 26])]) \<and>
   map_of defineBodyNetwork ''leftArm'' = Some (Links [(11, [13]), (13, [11, 15]), (15, [13])]) \<and>
   buildConnectionMap defineBodyNetwork 11 = Some [13] \<and>
   getVelocityMagnitude \<lparr>vx = 1, vy = 0, vz = 0\<rparr> = 1 \<and>
   currentVelocities (Some (bodyFrame 0.5)) (bodyFrame (0.5 + frameDt)) frameDt =
     map (\<lambda>i. (Some i, \<lparr>vx = if i = 11 then 1 else 0, vy = 0, vz = 0\<rparr>)) [0..<33] \<and>
   (let e = (WaveMotionEngine_new noWaveOptions)\<lparr>previousBody := Some (bodyFrame 0.5)\<rparr>;
        cache = velocities (snd (processBody e (Some (bodyFrame (0.5 + frameDt))) frameDt))
    in mapGet cache (Some 11) = Some \<lparr>vx = 0.85, vy = 0, vz = 0\<rparr> \<and>
       mapGet cache (Some 13) = Some \<lparr>vx = 0.1275, vy = 0, vz = 0\<rparr> \<and>
       mapGet cache (Some 12) = Some \<lparr>vx = 0, vy = 0, vz = 0\<rparr> \<and>
       mapGet cache (Some 23) = Some \<lparr>vx = 0, vy = 0, vz = 0\<rparr>)"
proof -
  have net: "map_of defineBodyNetwork ''spine'' =
      Some (Links [(11, [12, 23]), (12, [11, 24]), (23, [11, 24, 25]), (24, [12, 23, 26])])"
    "map_of defineBodyNetwork ''leftArm'' = Some (Links [(11, [13]), (13, [11, 15]), (15, [13])])"
    by (simp_all add: defineBodyNetwork_def)
  have conn: "buildConnectionMap defineBodyNetwork 11 = Some [13]"
    by (simp add: buildConnectionMap_default)
  have mag: "getVelocityMagnitude \<lparr>vx = 1, vy = 0, vz = 0\<rparr> = 1"
    by (simp add: getVelocityMagnitude_def)
  have c11: "mapGet (velocities (snd (processBody
            ((WaveMotionEngine_new noWaveOptions)\<lparr>previousBody := Some (bodyFrame 0.5)\<rparr>)
            (Some (bodyFrame (0.5 + frameDt))) frameDt))) (Some 11) =
         Some \<lparr>vx = 0.85, vy = 0, vz = 0\<rparr>"
    using bodyFrame_cache [of 11] by simp
  have c13: "mapGet (velocities (snd (processBody
            ((WaveMotionEngine_new noWaveOptions)\<lparr>previousBody := Some (bodyFrame 0.5)\<rparr>)
            (Some (bodyFrame (0.5 + frameDt))) frameDt))) (Some 13) =
         Some \<lparr>vx = 0.1275, vy = 0, vz = 0\<rparr>"
    using bodyFrame_cache [of 13] by simp
  have c12: "mapGet (velocities (snd (processBody
            ((WaveMotionEngine_new noWaveOptions)\<lparr>previousBody := Some (bodyFrame 0.5)\<rparr>)
            (Some (bodyFrame (0.5 + frameDt))) frameDt))) (Some 12) =
         Some \<lparr>vx = 0, vy = 0, vz = 0\<rparr>"
    using bodyFrame_cache [of 12] by simp
  have c23: "mapGet (velocities (snd (processBody
            ((WaveMotionEngine_new noWaveOptions)\<lparr>previousBody := Some (bodyFrame 0.5)\<rparr>)
            (Some (bodyFrame (0.5 + frameDt))) frameDt))) (Some 23) =
         Some \<lparr>vx = 0, vy = 0, vz = 0\<rparr>"
    using bodyFrame_cache [of 23] by simp
  show ?thesis
    unfolding Let_def
    using net conn mag bodyFrame_velocities c11 c13 c12 c23 by (intro conjI)
qed

end
